theory Spec2Isabelle
  imports Main "HOL-Library.Word" "HOL-Library.Char_ord" "HOL-Library.List_Lexorder"
    "HOL-Library.AList"
begin

section \<open>Go base types\<close>

text \<open>
  Go's \<^verbatim>\<open>int\<close> is a 64-bit two's-complement integer on the platforms the SDK targets
  (amd64, arm64): \<open>+\<close> and \<open>-\<close> wrap around, comparisons are signed (\<open><s\<close>).
  \<^verbatim>\<open>time.Duration\<close> is an \<^verbatim>\<open>int64\<close> count of nanoseconds.
\<close>

type_synonym go_int = "64 word"
type_synonym Duration = "64 word"

section \<open>Error values (types/errors.go and the standard library)\<close>

text \<open>\<^verbatim>\<open>strconv.Itoa\<close>: the decimal digits of an \<^verbatim>\<open>int\<close>, with a leading minus sign.\<close>

fun digits :: "nat \<Rightarrow> string" where
  "digits n =
     (if n < 10 then [''0123456789'' ! n]
      else digits (n div 10) @ [''0123456789'' ! (n mod 10)])"

definition Itoa :: "go_int \<Rightarrow> string" where
  "Itoa i = (if sint i < 0 then CHR ''-'' # digits (nat (- sint i)) else digits (nat (sint i)))"

text \<open>\<^verbatim>\<open>type ErrorResponse struct { Message string; Code string }\<close>\<close>

record ErrorResponse =
  Message :: string
  Code :: string

text \<open>The two values \<^verbatim>\<open>ctx.Err()\<close> takes once a context is done.\<close>

datatype context_error = Canceled | DeadlineExceeded

text \<open>
  Go's \<^verbatim>\<open>error\<close> values, one constructor per dynamic type:
  \<^item> \<open>APIError StatusCode Code Message Response\<close> is \<^verbatim>\<open>*types.APIError\<close>;
  \<^item> \<open>TimeoutError Message\<close> is \<^verbatim>\<open>*types.TimeoutError\<close>;
  \<^item> \<open>ErrorString s\<close> is what \<^verbatim>\<open>errors.New(s)\<close> and \<^verbatim>\<open>fmt.Errorf(s)\<close> return;
  \<^item> \<open>WrapError prefix err\<close> is \<^verbatim>\<open>fmt.Errorf(prefix + "%w", err)\<close>;
  \<^item> \<open>ContextError e\<close> is \<^verbatim>\<open>context.Canceled\<close> or \<^verbatim>\<open>context.DeadlineExceeded\<close>;
  \<^item> \<open>LibraryError s\<close> is an error of the standard library (\<^verbatim>\<open>net/http\<close>,
    \<^verbatim>\<open>encoding/json\<close>, \<^verbatim>\<open>net/url\<close>) with text \<open>s\<close>.
\<close>

datatype error =
    APIError go_int string string ErrorResponse
  | TimeoutError string
  | ErrorString string
  | WrapError string error
  | ContextError context_error
  | LibraryError string

text \<open>\<^verbatim>\<open>func NewTimeoutError(message string) *TimeoutError\<close>\<close>

definition NewTimeoutError :: "string \<Rightarrow> error" where
  "NewTimeoutError message = TimeoutError message"

text \<open>The \<^verbatim>\<open>Error()\<close> method of each error type.\<close>

fun Error_text :: "error \<Rightarrow> string" where
  "Error_text (APIError status code message resp) =
     (if code \<noteq> ''''
      then ''stack0: '' @ message @ '' (code: '' @ code @ '', status: '' @ Itoa status @ '')''
      else ''stack0: '' @ message @ '' (status: '' @ Itoa status @ '')'')"
| "Error_text (TimeoutError message) = ''stack0: timeout: '' @ message"
| "Error_text (ErrorString s) = s"
| "Error_text (WrapError prefix err) = prefix @ Error_text err"
| "Error_text (ContextError Canceled) = ''context canceled''"
| "Error_text (ContextError DeadlineExceeded) = ''context deadline exceeded''"
| "Error_text (LibraryError s) = s"



section \<open>Strings, query escaping and \<^verbatim>\<open>url.Values\<close> (standard library)\<close>

text \<open>A Go string is a sequence of bytes; \<^typ>\<open>string\<close> is a list of 8-bit characters.
  \<^verbatim>\<open>strings.HasPrefix\<close>, \<^verbatim>\<open>strings.HasSuffix\<close>, \<^verbatim>\<open>strings.TrimSuffix\<close> and
  \<^verbatim>\<open>strings.Join\<close>:\<close>

definition HasPrefix :: "string \<Rightarrow> string \<Rightarrow> bool" where
  "HasPrefix s pre \<longleftrightarrow> take (length pre) s = pre"

definition HasSuffix :: "string \<Rightarrow> string \<Rightarrow> bool" where
  "HasSuffix s suf \<longleftrightarrow> length suf \<le> length s \<and> drop (length s - length suf) s = suf"

definition TrimSuffix :: "string \<Rightarrow> string \<Rightarrow> string" where
  "TrimSuffix s suf = (if HasSuffix s suf then take (length s - length suf) s else s)"

fun Join :: "string list \<Rightarrow> string \<Rightarrow> string" where
  "Join [] sep = ''''"
| "Join [x] sep = x"
| "Join (x # y # ys) sep = x @ sep @ Join (y # ys) sep"

text \<open>
  \<^verbatim>\<open>url.QueryEscape\<close>: letters, digits and \<^verbatim>\<open>- _ . ~\<close> stay, a space becomes \<^verbatim>\<open>+\<close>, every
  other byte becomes \<^verbatim>\<open>%XX\<close> with upper-case hexadecimal digits.
\<close>

definition unreserved :: "char \<Rightarrow> bool" where
  "unreserved c \<longleftrightarrow>
     (CHR ''a'' \<le> c \<and> c \<le> CHR ''z'') \<or> (CHR ''A'' \<le> c \<and> c \<le> CHR ''Z'')
     \<or> (CHR ''0'' \<le> c \<and> c \<le> CHR ''9'')
     \<or> c = CHR ''-'' \<or> c = CHR ''_'' \<or> c = CHR ''.'' \<or> c = CHR ''~''"

definition upperhex :: "nat \<Rightarrow> char" where
  "upperhex n = ''0123456789ABCDEF'' ! n"

definition escape_byte :: "char \<Rightarrow> string" where
  "escape_byte c =
     (if unreserved c then [c]
      else if c = CHR '' '' then ''+''
      else [CHR ''%'', upperhex (of_char c div 16), upperhex (of_char c mod 16)])"

definition QueryEscape :: "string \<Rightarrow> string" where
  "QueryEscape s = concat (map escape_byte s)"

text \<open>
  \<^verbatim>\<open>url.Values\<close> is a \<^verbatim>\<open>map[string][]string\<close>; it is kept as an association list with
  distinct keys. \<^verbatim>\<open>Set\<close> replaces the values of a key; \<^verbatim>\<open>Encode\<close> walks the keys in
  sorted order (byte-wise lexicographic, as Go compares strings) and writes
  \<^verbatim>\<open>key=value\<close> pairs separated by \<^verbatim>\<open>&\<close>.
\<close>

type_synonym Values = "(string \<times> string list) list"

definition Values_Set :: "Values \<Rightarrow> string \<Rightarrow> string \<Rightarrow> Values" where
  "Values_Set v key val = AList.update key [val] v"

text \<open>One \<^verbatim>\<open>key=value\<close> pair as \<^verbatim>\<open>Encode\<close> writes it, the key being escaped already.\<close>

definition key_value :: "string \<Rightarrow> string \<Rightarrow> string" where
  "key_value keyEscaped val = keyEscaped @ ''='' @ QueryEscape val"

definition Values_Encode :: "Values \<Rightarrow> string" where
  "Values_Encode v =
     foldl (\<lambda>buf k.
        foldl (\<lambda>buf val.
           (if buf \<noteq> '''' then buf @ ''&'' else buf) @ key_value (QueryEscape k) val)
          buf (case map_of v k of Some vs \<Rightarrow> vs | None \<Rightarrow> []))
       '''' (sort (map fst v))"

text \<open>
  The fields of \<^verbatim>\<open>url.URL\<close> that \<^verbatim>\<open>url.Parse\<close> fills. The SDK calls \<^verbatim>\<open>url.Parse\<close> in
  one place; the model of that place takes the parser as a parameter
  \<open>parse :: string \<Rightarrow> string + URL\<close>, \<open>Inl\<close> carrying the text of the \<^verbatim>\<open>*url.Error\<close>.
\<close>

record URL =
  Scheme :: string
  User :: "string option"
  Host :: string
  Path :: string
  RawQuery :: string
  Fragment :: string

text \<open>
  The parser on the URLs used as examples below. It follows \<^verbatim>\<open>net/url\<close> on an absolute
  URL \<^verbatim>\<open>scheme://[userinfo@]host/path[?query][#fragment]\<close>: a control byte (below
  \<^verbatim>\<open>0x20\<close>, or \<^verbatim>\<open>0x7f\<close>) before the fragment is rejected first, then the fragment, the
  scheme, the query, the authority and the path are split off in that order. It is a
  stand-in used for the examples only; the model of \<^verbatim>\<open>GetTransformURL\<close> takes the parser
  as a parameter. Go also decodes percent escapes and validates the host and the port,
  and the text of its \<^verbatim>\<open>*url.Error\<close> starts with \<^verbatim>\<open>parse\<close> and the quoted URL; none of
  that is modelled, so every example below is free of \<^verbatim>\<open>%\<close>, of brackets and of
  characters that are invalid in a host, and the error text of an example is Go's
  without that prefix.
\<close>

definition Cut :: "string \<Rightarrow> char \<Rightarrow> string \<times> string" where
  "Cut s sep = (takeWhile (\<lambda>c. c \<noteq> sep) s, drop 1 (dropWhile (\<lambda>c. c \<noteq> sep) s))"

definition stringContainsCTLByte :: "string \<Rightarrow> bool" where
  "stringContainsCTLByte s \<longleftrightarrow> (\<exists>b \<in> set s. of_char b < (32 :: nat) \<or> of_char b = (127 :: nat))"

definition split_userinfo :: "string \<Rightarrow> string option \<times> string" where
  "split_userinfo authority =
     (if CHR ''@'' \<in> set authority
      then (Some (rev (drop 1 (dropWhile (\<lambda>c. c \<noteq> CHR ''@'') (rev authority)))),
            rev (takeWhile (\<lambda>c. c \<noteq> CHR ''@'') (rev authority)))
      else (None, authority))"

definition url_Parse :: "string \<Rightarrow> string + URL" where
  "url_Parse rawURL =
     (case Cut rawURL CHR ''#'' of (u, frag) \<Rightarrow>
        if stringContainsCTLByte u
        then Inl ''net/url: invalid control character in URL''
        else
          (case Cut u CHR '':'' of (scheme, rest0) \<Rightarrow>
           case Cut rest0 CHR ''?'' of (rest, query) \<Rightarrow>
           case Cut (drop 2 rest) CHR ''/'' of (authority, _) \<Rightarrow>
           case split_userinfo authority of (user, host) \<Rightarrow>
             Inr \<lparr>Scheme = scheme, User = user, Host = host,
                  Path = drop (2 + length authority) rest,
                  RawQuery = query, Fragment = frag\<rparr>))"


subsection \<open>Optional parameters\<close>

text \<open>\<^verbatim>\<open>if field != nil { params.Set(key, value) }\<close>\<close>

definition set_if_present :: "string \<Rightarrow> string option \<Rightarrow> Values \<Rightarrow> Values" where
  "set_if_present key field params =
     (case field of Some val \<Rightarrow> Values_Set params key val | None \<Rightarrow> params)"

text \<open>\<^verbatim>\<open>if flag { params.Set(key, val) }\<close>\<close>

definition set_if_true :: "string \<Rightarrow> bool \<Rightarrow> string \<Rightarrow> Values \<Rightarrow> Values" where
  "set_if_true key flag val params = (if flag then Values_Set params key val else params)"

section \<open>CDN client: nearest allowed width (cdn/client.go)\<close>

text \<open>\<^verbatim>\<open>var AllowedWidths = []int{256, 384, 640, 750, 828, 1080, 1200, 1920, 2048, 3840}\<close>\<close>

definition AllowedWidths :: "go_int list" where
  "AllowedWidths = [256, 384, 640, 750, 828, 1080, 1200, 1920, 2048, 3840]"

text \<open>\<^verbatim>\<open>func abs(x int) int { if x < 0 { return -x }; return x }\<close>\<close>

definition abs_go :: "go_int \<Rightarrow> go_int" where
  "abs_go x = (if x <s 0 then - x else x)"

text \<open>
  The body of the loop of \<^verbatim>\<open>getNearestWidth\<close>:
  \<^verbatim>\<open>if abs(w-width) < abs(nearest-width) { nearest = w }\<close>; the result is the new
  value of \<^verbatim>\<open>nearest\<close>.
\<close>

definition nearer :: "go_int \<Rightarrow> go_int \<Rightarrow> go_int \<Rightarrow> go_int" where
  "nearer width w nearest =
     (if abs_go (w - width) <s abs_go (nearest - width) then w else nearest)"

text \<open>
  \<^verbatim>\<open>nearest := AllowedWidths[0]; for _, w := range AllowedWidths { ... }; return nearest\<close>
\<close>

definition getNearestWidth :: "go_int \<Rightarrow> go_int" where
  "getNearestWidth width = fold (nearer width) AllowedWidths (AllowedWidths ! 0)"


section \<open>The \<^verbatim>\<open>GET\<close> wrapper of the HTTP client\<close>

text \<open>
  The service clients reach the server through \<^verbatim>\<open>Get\<close>, \<^verbatim>\<open>Post\<close> and the other wrappers
  of \<^verbatim>\<open>client.HTTPClient\<close>, which all call \<^verbatim>\<open>doRequest\<close>. A \<open>call\<close> records the
  arguments of that call; \<^verbatim>\<open>Get(ctx, path, result)\<close> calls
  \<^verbatim>\<open>c.doRequest(ctx, http.MethodGet, path, nil)\<close>.
\<close>

record 'b call =
  call_method :: string
  call_path :: string
  call_body :: "'b option"

definition HTTPClient_Get :: "string \<Rightarrow> 'b call" where
  "HTTPClient_Get path = \<lparr>call_method = ''GET'', call_path = path, call_body = None\<rparr>"


section \<open>List and filter requests\<close>

text \<open>
  Every method below builds a \<^verbatim>\<open>url.Values\<close> from its request, one
  \<^verbatim>\<open>if req.Field != nil { params.Set(key, value) }\<close> per optional field, and hands the path
  with the encoded parameters to \<^verbatim>\<open>c.http.Get\<close>. The value of a method is the call it
  makes. A method that reads a field of \<^verbatim>\<open>req\<close> without testing \<^verbatim>\<open>req != nil\<close> panics on a
  \<^verbatim>\<open>nil\<close> request: that is the value \<open>None\<close>. A pointer field is an \<open>option\<close>, a named
  string type (\<^verbatim>\<open>types.Environment\<close>, the status types) is a \<^typ>\<open>string\<close>, and
  \<^verbatim>\<open>time.Time\<close> is a type parameter \<open>'t\<close> with its
  \<^verbatim>\<open>Format("2006-01-02T15:04:05Z07:00")\<close> method as the argument \<open>rfc3339\<close>.
\<close>

text \<open>\<^verbatim>\<open>strconv.FormatBool\<close>\<close>

definition FormatBool :: "bool \<Rightarrow> string" where
  "FormatBool b = (if b then ''true'' else ''false'')"

text \<open>\<^verbatim>\<open>type ListExtractionsRequest struct\<close> of package \<^verbatim>\<open>extraction\<close>\<close>

record ListExtractionsRequest =
  Environment :: "string option"
  ProjectID :: "string option"
  Status :: "string option"
  URL :: "string option"
  Limit :: "go_int option"
  Cursor :: "string option"

text \<open>\<^verbatim>\<open>func (c *Client) List(ctx context.Context, req *ListExtractionsRequest)\<close>
  of package \<^verbatim>\<open>extraction\<close>\<close>

definition extraction_List :: "ListExtractionsRequest option \<Rightarrow> 'b call option" where
  "extraction_List req =
     (let params = [];
          params = (case req of
                      None \<Rightarrow> params
                    | Some req \<Rightarrow>
                        (let params = set_if_present ''environment''
                                 (ListExtractionsRequest.Environment req) params;
                             params = set_if_present ''projectId''
                                 (ListExtractionsRequest.ProjectID req) params;
                             params = set_if_present ''status''
                                 (ListExtractionsRequest.Status req) params;
                             params = set_if_present ''url''
                                 (ListExtractionsRequest.URL req) params;
                             params = set_if_present ''limit''
                                 (map_option Itoa (ListExtractionsRequest.Limit req)) params;
                             params = set_if_present ''cursor''
                                 (ListExtractionsRequest.Cursor req) params
                         in params));
          path = ''/webdata/extractions'';
          path = (if 0 < length params then path @ ''?'' @ Values_Encode params else path)
      in Some (HTTPClient_Get path))"

text \<open>\<^verbatim>\<open>type ListScreenshotsRequest struct\<close> of package \<^verbatim>\<open>screenshots\<close>\<close>

record ListScreenshotsRequest =
  Environment :: "string option"
  ProjectID :: "string option"
  Status :: "string option"
  URL :: "string option"
  Limit :: "go_int option"
  Cursor :: "string option"

text \<open>\<^verbatim>\<open>func (c *Client) List(ctx context.Context, req *ListScreenshotsRequest)\<close>
  of package \<^verbatim>\<open>screenshots\<close>\<close>

definition screenshots_List :: "ListScreenshotsRequest option \<Rightarrow> 'b call option" where
  "screenshots_List req =
     (let params = [];
          params = (case req of
                      None \<Rightarrow> params
                    | Some req \<Rightarrow>
                        (let params = set_if_present ''environment''
                                 (ListScreenshotsRequest.Environment req) params;
                             params = set_if_present ''projectId''
                                 (ListScreenshotsRequest.ProjectID req) params;
                             params = set_if_present ''status''
                                 (ListScreenshotsRequest.Status req) params;
                             params = set_if_present ''url''
                                 (ListScreenshotsRequest.URL req) params;
                             params = set_if_present ''limit''
                                 (map_option Itoa (ListScreenshotsRequest.Limit req)) params;
                             params = set_if_present ''cursor''
                                 (ListScreenshotsRequest.Cursor req) params
                         in params));
          path = ''/webdata/screenshots'';
          path = (if 0 < length params then path @ ''?'' @ Values_Encode params else path)
      in Some (HTTPClient_Get path))"

text \<open>\<^verbatim>\<open>type ListBatchJobsRequest struct\<close> of package \<^verbatim>\<open>extraction\<close>\<close>

record extraction_ListBatchJobsRequest =
  Environment :: "string option"
  ProjectID :: "string option"
  Status :: "string option"
  Limit :: "go_int option"
  Cursor :: "string option"

text \<open>\<^verbatim>\<open>func (c *Client) ListBatchJobs(ctx context.Context, req *ListBatchJobsRequest)\<close>
  of package \<^verbatim>\<open>extraction\<close>\<close>

definition extraction_ListBatchJobs ::
  "extraction_ListBatchJobsRequest option \<Rightarrow> 'b call option" where
  "extraction_ListBatchJobs req =
     (let params = [];
          params = (case req of
                      None \<Rightarrow> params
                    | Some req \<Rightarrow>
                        (let params = set_if_present ''environment''
                                 (extraction_ListBatchJobsRequest.Environment req) params;
                             params = set_if_present ''projectId''
                                 (extraction_ListBatchJobsRequest.ProjectID req) params;
                             params = set_if_present ''status''
                                 (extraction_ListBatchJobsRequest.Status req) params;
                             params = Values_Set params ''type'' ''extraction'';
                             params = set_if_present ''limit''
                                 (map_option Itoa (extraction_ListBatchJobsRequest.Limit req)) params;
                             params = set_if_present ''cursor''
                                 (extraction_ListBatchJobsRequest.Cursor req) params
                         in params));
          path = ''/webdata/batch'';
          path = (if 0 < length params then path @ ''?'' @ Values_Encode params else path)
      in Some (HTTPClient_Get path))"

text \<open>\<^verbatim>\<open>type ListSchedulesRequest struct\<close> of package \<^verbatim>\<open>extraction\<close>\<close>

record extraction_ListSchedulesRequest =
  Environment :: "string option"
  ProjectID :: "string option"
  IsActive :: "bool option"
  Limit :: "go_int option"
  Cursor :: "string option"

text \<open>\<^verbatim>\<open>func (c *Client) ListSchedules(ctx context.Context, req *ListSchedulesRequest)\<close>
  of package \<^verbatim>\<open>extraction\<close>\<close>

definition extraction_ListSchedules ::
  "extraction_ListSchedulesRequest option \<Rightarrow> 'b call option" where
  "extraction_ListSchedules req =
     (let params = [];
          params = (case req of
                      None \<Rightarrow> params
                    | Some req \<Rightarrow>
                        (let params = set_if_present ''environment''
                                 (extraction_ListSchedulesRequest.Environment req) params;
                             params = set_if_present ''projectId''
                                 (extraction_ListSchedulesRequest.ProjectID req) params;
                             params = Values_Set params ''type'' ''extraction'';
                             params = set_if_present ''isActive''
                                 (map_option FormatBool (extraction_ListSchedulesRequest.IsActive req)) params;
                             params = set_if_present ''limit''
                                 (map_option Itoa (extraction_ListSchedulesRequest.Limit req)) params;
                             params = set_if_present ''cursor''
                                 (extraction_ListSchedulesRequest.Cursor req) params
                         in params));
          path = ''/webdata/schedules'';
          path = (if 0 < length params then path @ ''?'' @ Values_Encode params else path)
      in Some (HTTPClient_Get path))"

text \<open>\<^verbatim>\<open>type GetUsageRequest struct\<close> of package \<^verbatim>\<open>extraction\<close>\<close>

record GetUsageRequest =
  Environment :: "string option"
  PeriodStart :: "string option"
  PeriodEnd :: "string option"

text \<open>\<^verbatim>\<open>func (c *Client) GetUsage(ctx context.Context, req *GetUsageRequest)\<close>
  of package \<^verbatim>\<open>extraction\<close>\<close>

definition extraction_GetUsage :: "GetUsageRequest option \<Rightarrow> 'b call option" where
  "extraction_GetUsage req =
     (let params = [];
          params = (case req of
                      None \<Rightarrow> params
                    | Some req \<Rightarrow>
                        (let params = set_if_present ''environment''
                                 (GetUsageRequest.Environment req) params;
                             params = set_if_present ''periodStart''
                                 (GetUsageRequest.PeriodStart req) params;
                             params = set_if_present ''periodEnd''
                                 (GetUsageRequest.PeriodEnd req) params
                         in params));
          path = ''/webdata/usage'';
          path = (if 0 < length params then path @ ''?'' @ Values_Encode params else path)
      in Some (HTTPClient_Get path))"

text \<open>\<^verbatim>\<open>func (c *Client) GetUsageDaily(ctx context.Context, req *GetUsageRequest)\<close>
  of package \<^verbatim>\<open>extraction\<close>\<close>

definition extraction_GetUsageDaily :: "GetUsageRequest option \<Rightarrow> 'b call option" where
  "extraction_GetUsageDaily req =
     (let params = [];
          params = (case req of
                      None \<Rightarrow> params
                    | Some req \<Rightarrow>
                        (let params = set_if_present ''environment''
                                 (GetUsageRequest.Environment req) params;
                             params = set_if_present ''periodStart''
                                 (GetUsageRequest.PeriodStart req) params;
                             params = set_if_present ''periodEnd''
                                 (GetUsageRequest.PeriodEnd req) params
                         in params));
          path = ''/webdata/usage/daily'';
          path = (if 0 < length params then path @ ''?'' @ Values_Encode params else path)
      in Some (HTTPClient_Get path))"

text \<open>\<^verbatim>\<open>type ListBatchJobsRequest struct\<close> of package \<^verbatim>\<open>screenshots\<close>\<close>

record screenshots_ListBatchJobsRequest =
  Environment :: "string option"
  ProjectID :: "string option"
  Status :: "string option"
  Limit :: "go_int option"
  Cursor :: "string option"

text \<open>\<^verbatim>\<open>func (c *Client) ListBatchJobs(ctx context.Context, req *ListBatchJobsRequest)\<close>
  of package \<^verbatim>\<open>screenshots\<close>\<close>

definition screenshots_ListBatchJobs ::
  "screenshots_ListBatchJobsRequest option \<Rightarrow> 'b call option" where
  "screenshots_ListBatchJobs req =
     (let params = [];
          params = (case req of
                      None \<Rightarrow> params
                    | Some req \<Rightarrow>
                        (let params = set_if_present ''environment''
                                 (screenshots_ListBatchJobsRequest.Environment req) params;
                             params = set_if_present ''projectId''
                                 (screenshots_ListBatchJobsRequest.ProjectID req) params;
                             params = set_if_present ''status''
                                 (screenshots_ListBatchJobsRequest.Status req) params;
                             params = Values_Set params ''type'' ''screenshot'';
                             params = set_if_present ''limit''
                                 (map_option Itoa (screenshots_ListBatchJobsRequest.Limit req)) params;
                             params = set_if_present ''cursor''
                                 (screenshots_ListBatchJobsRequest.Cursor req) params
                         in params));
          path = ''/webdata/batch'';
          path = (if 0 < length params then path @ ''?'' @ Values_Encode params else path)
      in Some (HTTPClient_Get path))"

text \<open>\<^verbatim>\<open>type ListSchedulesRequest struct\<close> of package \<^verbatim>\<open>screenshots\<close>\<close>

record screenshots_ListSchedulesRequest =
  Environment :: "string option"
  ProjectID :: "string option"
  IsActive :: "bool option"
  Limit :: "go_int option"
  Cursor :: "string option"

text \<open>\<^verbatim>\<open>func (c *Client) ListSchedules(ctx context.Context, req *ListSchedulesRequest)\<close>
  of package \<^verbatim>\<open>screenshots\<close>\<close>

definition screenshots_ListSchedules ::
  "screenshots_ListSchedulesRequest option \<Rightarrow> 'b call option" where
  "screenshots_ListSchedules req =
     (let params = [];
          params = (case req of
                      None \<Rightarrow> params
                    | Some req \<Rightarrow>
                        (let params = set_if_present ''environment''
                                 (screenshots_ListSchedulesRequest.Environment req) params;
                             params = set_if_present ''projectId''
                                 (screenshots_ListSchedulesRequest.ProjectID req) params;
                             params = Values_Set params ''type'' ''screenshot'';
                             params = set_if_present ''isActive''
                                 (map_option FormatBool (screenshots_ListSchedulesRequest.IsActive req)) params;
                             params = set_if_present ''limit''
                                 (map_option Itoa (screenshots_ListSchedulesRequest.Limit req)) params;
                             params = set_if_present ''cursor''
                                 (screenshots_ListSchedulesRequest.Cursor req) params
                         in params));
          path = ''/webdata/schedules'';
          path = (if 0 < length params then path @ ''?'' @ Values_Encode params else path)
      in Some (HTTPClient_Get path))"

text \<open>\<^verbatim>\<open>type CdnUsageRequest struct\<close> of package \<^verbatim>\<open>cdn\<close>\<close>

record 't CdnUsageRequest =
  ProjectSlug :: "string option"
  Environment :: "string option"
  PeriodStart :: "'t option"
  PeriodEnd :: "'t option"

text \<open>\<^verbatim>\<open>func (c *Client) GetUsage(ctx context.Context, req *CdnUsageRequest)\<close>
  of package \<^verbatim>\<open>cdn\<close>\<close>

definition cdn_GetUsage ::
  "('t \<Rightarrow> string) \<Rightarrow> 't CdnUsageRequest option \<Rightarrow> 'b call option" where
  "cdn_GetUsage rfc3339 req =
     (let params = [];
          params = (case req of
                      None \<Rightarrow> params
                    | Some req \<Rightarrow>
                        (let params = set_if_present ''projectSlug''
                                 (CdnUsageRequest.ProjectSlug req) params;
                             params = set_if_present ''environment''
                                 (CdnUsageRequest.Environment req) params;
                             params = set_if_present ''periodStart''
                                 (map_option rfc3339 (CdnUsageRequest.PeriodStart req)) params;
                             params = set_if_present ''periodEnd''
                                 (map_option rfc3339 (CdnUsageRequest.PeriodEnd req)) params
                         in params));
          path = ''/cdn/usage'';
          path = (if 0 < length params then path @ ''?'' @ Values_Encode params else path)
      in Some (HTTPClient_Get path))"

text \<open>\<^verbatim>\<open>type CdnUsageHistoryRequest struct\<close> of package \<^verbatim>\<open>cdn\<close>\<close>

record CdnUsageHistoryRequest =
  ProjectSlug :: "string option"
  Environment :: "string option"
  Days :: "go_int option"
  Granularity :: "string option"

text \<open>\<^verbatim>\<open>func (c *Client) GetUsageHistory(ctx context.Context, req *CdnUsageHistoryRequest)\<close>
  of package \<^verbatim>\<open>cdn\<close>\<close>

definition cdn_GetUsageHistory ::
  "CdnUsageHistoryRequest option \<Rightarrow> 'b call option" where
  "cdn_GetUsageHistory req =
     (let params = [];
          params = (case req of
                      None \<Rightarrow> params
                    | Some req \<Rightarrow>
                        (let params = set_if_present ''projectSlug''
                                 (CdnUsageHistoryRequest.ProjectSlug req) params;
                             params = set_if_present ''environment''
                                 (CdnUsageHistoryRequest.Environment req) params;
                             params = set_if_present ''days''
                                 (map_option Itoa (CdnUsageHistoryRequest.Days req)) params;
                             params = set_if_present ''granularity''
                                 (CdnUsageHistoryRequest.Granularity req) params
                         in params));
          path = ''/cdn/usage/history'';
          path = (if 0 < length params then path @ ''?'' @ Values_Encode params else path)
      in Some (HTTPClient_Get path))"

text \<open>\<^verbatim>\<open>type CdnStorageBreakdownRequest struct\<close> of package \<^verbatim>\<open>cdn\<close>\<close>

record CdnStorageBreakdownRequest =
  ProjectSlug :: "string option"
  Environment :: "string option"
  GroupBy :: "string option"

text \<open>\<^verbatim>\<open>func (c *Client) GetStorageBreakdown(ctx context.Context, req *CdnStorageBreakdownRequest)\<close>
  of package \<^verbatim>\<open>cdn\<close>\<close>

definition cdn_GetStorageBreakdown ::
  "CdnStorageBreakdownRequest option \<Rightarrow> 'b call option" where
  "cdn_GetStorageBreakdown req =
     (let params = [];
          params = (case req of
                      None \<Rightarrow> params
                    | Some req \<Rightarrow>
                        (let params = set_if_present ''projectSlug''
                                 (CdnStorageBreakdownRequest.ProjectSlug req) params;
                             params = set_if_present ''environment''
                                 (CdnStorageBreakdownRequest.Environment req) params;
                             params = set_if_present ''groupBy''
                                 (CdnStorageBreakdownRequest.GroupBy req) params
                         in params));
          path = ''/cdn/usage/storage-breakdown'';
          path = (if 0 < length params then path @ ''?'' @ Values_Encode params else path)
      in Some (HTTPClient_Get path))"

text \<open>\<^verbatim>\<open>type ListJobsRequest struct\<close> of package \<^verbatim>\<open>cdn\<close>\<close>

record ListJobsRequest =
  ProjectSlug :: string
  AssetID :: "string option"
  Status :: "string option"
  Limit :: "go_int option"
  Offset :: "go_int option"

text \<open>\<^verbatim>\<open>func (c *Client) ListJobs(ctx context.Context, req *ListJobsRequest)\<close>
  of package \<^verbatim>\<open>cdn\<close>\<close>

definition cdn_ListJobs :: "ListJobsRequest option \<Rightarrow> 'b call option" where
  "cdn_ListJobs req =
     (case req of
        None \<Rightarrow> None
      | Some req \<Rightarrow>
          (let params = [];
               params = Values_Set params ''projectSlug'' (ListJobsRequest.ProjectSlug req);
               params = set_if_present ''assetId'' (ListJobsRequest.AssetID req) params;
               params = set_if_present ''status'' (ListJobsRequest.Status req) params;
               params = set_if_present ''limit''
                   (map_option Itoa (ListJobsRequest.Limit req)) params;
               params = set_if_present ''offset''
                   (map_option Itoa (ListJobsRequest.Offset req)) params;
               path = ''/cdn/video/jobs'' @ ''?'' @ Values_Encode params
           in Some (HTTPClient_Get path)))"

text \<open>\<^verbatim>\<open>type ListMergeJobsRequest struct\<close> of package \<^verbatim>\<open>cdn\<close>\<close>

record ListMergeJobsRequest =
  ProjectSlug :: string
  Status :: "string option"
  Limit :: "go_int option"
  Offset :: "go_int option"

text \<open>\<^verbatim>\<open>func (c *Client) ListMergeJobs(ctx context.Context, req *ListMergeJobsRequest)\<close>
  of package \<^verbatim>\<open>cdn\<close>\<close>

definition cdn_ListMergeJobs :: "ListMergeJobsRequest option \<Rightarrow> 'b call option" where
  "cdn_ListMergeJobs req =
     (case req of
        None \<Rightarrow> None
      | Some req \<Rightarrow>
          (let params = [];
               params = Values_Set params ''projectSlug'' (ListMergeJobsRequest.ProjectSlug req);
               params = set_if_present ''status'' (ListMergeJobsRequest.Status req) params;
               params = set_if_present ''limit''
                   (map_option Itoa (ListMergeJobsRequest.Limit req)) params;
               params = set_if_present ''offset''
                   (map_option Itoa (ListMergeJobsRequest.Offset req)) params;
               path = ''/cdn/video/merge'' @ ''?'' @ Values_Encode params
           in Some (HTTPClient_Get path)))"

text \<open>\<^verbatim>\<open>type ListPrivateFilesRequest struct\<close> of package \<^verbatim>\<open>cdn\<close>\<close>

record ListPrivateFilesRequest =
  ProjectSlug :: string
  Folder :: "string option"
  Status :: "string option"
  Search :: "string option"
  SortBy :: "string option"
  SortOrder :: "string option"
  Limit :: "go_int option"
  Offset :: "go_int option"

text \<open>\<^verbatim>\<open>func (c *Client) ListPrivateFiles(ctx context.Context, req *ListPrivateFilesRequest)\<close>
  of package \<^verbatim>\<open>cdn\<close>\<close>

definition cdn_ListPrivateFiles ::
  "ListPrivateFilesRequest option \<Rightarrow> 'b call option" where
  "cdn_ListPrivateFiles req =
     (case req of
        None \<Rightarrow> None
      | Some req \<Rightarrow>
          (let params = [];
               params = Values_Set params ''projectSlug''
                   (ListPrivateFilesRequest.ProjectSlug req);
               params = set_if_present ''folder'' (ListPrivateFilesRequest.Folder req) params;
               params = set_if_present ''status'' (ListPrivateFilesRequest.Status req) params;
               params = set_if_present ''search'' (ListPrivateFilesRequest.Search req) params;
               params = set_if_present ''sortBy'' (ListPrivateFilesRequest.SortBy req) params;
               params = set_if_present ''sortOrder''
                   (ListPrivateFilesRequest.SortOrder req) params;
               params = set_if_present ''limit''
                   (map_option Itoa (ListPrivateFilesRequest.Limit req)) params;
               params = set_if_present ''offset''
                   (map_option Itoa (ListPrivateFilesRequest.Offset req)) params;
               path = ''/cdn/private'' @ ''?'' @ Values_Encode params
           in Some (HTTPClient_Get path)))"

text \<open>\<^verbatim>\<open>type ListBundlesRequest struct\<close> of package \<^verbatim>\<open>cdn\<close>\<close>

record ListBundlesRequest =
  ProjectSlug :: string
  Status :: "string option"
  Search :: "string option"
  Limit :: "go_int option"
  Offset :: "go_int option"

text \<open>\<^verbatim>\<open>func (c *Client) ListBundles(ctx context.Context, req *ListBundlesRequest)\<close>
  of package \<^verbatim>\<open>cdn\<close>\<close>

definition cdn_ListBundles :: "ListBundlesRequest option \<Rightarrow> 'b call option" where
  "cdn_ListBundles req =
     (case req of
        None \<Rightarrow> None
      | Some req \<Rightarrow>
          (let params = [];
               params = Values_Set params ''projectSlug'' (ListBundlesRequest.ProjectSlug req);
               params = set_if_present ''status'' (ListBundlesRequest.Status req) params;
               params = set_if_present ''search'' (ListBundlesRequest.Search req) params;
               params = set_if_present ''limit''
                   (map_option Itoa (ListBundlesRequest.Limit req)) params;
               params = set_if_present ''offset''
                   (map_option Itoa (ListBundlesRequest.Offset req)) params;
               path = ''/cdn/bundles'' @ ''?'' @ Values_Encode params
           in Some (HTTPClient_Get path)))"

text \<open>\<^verbatim>\<open>type ListAssetsRequest struct\<close> of package \<^verbatim>\<open>cdn\<close>\<close>

record ListAssetsRequest =
  ProjectSlug :: string
  Folder :: "string option"
  Type :: "string option"
  Status :: "string option"
  Search :: "string option"
  Tags :: "string list"
  SortBy :: "string option"
  SortOrder :: "string option"
  Limit :: "go_int option"
  Offset :: "go_int option"

text \<open>\<^verbatim>\<open>func (c *Client) List(ctx context.Context, req *ListAssetsRequest)\<close>
  of package \<^verbatim>\<open>cdn\<close>\<close>

definition cdn_List :: "ListAssetsRequest option \<Rightarrow> 'b call option" where
  "cdn_List req =
     (case req of
        None \<Rightarrow> None
      | Some req \<Rightarrow>
          (let params = [];
               params = Values_Set params ''projectSlug'' (ListAssetsRequest.ProjectSlug req);
               params = set_if_present ''folder'' (ListAssetsRequest.Folder req) params;
               params = set_if_present ''type'' (ListAssetsRequest.Type req) params;
               params = set_if_present ''status'' (ListAssetsRequest.Status req) params;
               params = set_if_present ''search'' (ListAssetsRequest.Search req) params;
               params = (if 0 < length (ListAssetsRequest.Tags req)
                   then Values_Set params ''tags'' (Join (ListAssetsRequest.Tags req) '','')
                   else params);
               params = set_if_present ''sortBy'' (ListAssetsRequest.SortBy req) params;
               params = set_if_present ''sortOrder'' (ListAssetsRequest.SortOrder req) params;
               params = set_if_present ''limit''
                   (map_option Itoa (ListAssetsRequest.Limit req)) params;
               params = set_if_present ''offset''
                   (map_option Itoa (ListAssetsRequest.Offset req)) params;
               path = ''/cdn/assets'' @ ''?'' @ Values_Encode params
           in Some (HTTPClient_Get path)))"

text \<open>\<^verbatim>\<open>type GetFolderTreeRequest struct\<close> of package \<^verbatim>\<open>cdn\<close>\<close>

record GetFolderTreeRequest =
  ProjectSlug :: string
  MaxDepth :: "go_int option"

text \<open>\<^verbatim>\<open>func (c *Client) GetFolderTree(ctx context.Context, req *GetFolderTreeRequest)\<close>
  of package \<^verbatim>\<open>cdn\<close>\<close>

definition cdn_GetFolderTree :: "GetFolderTreeRequest option \<Rightarrow> 'b call option" where
  "cdn_GetFolderTree req =
     (case req of
        None \<Rightarrow> None
      | Some req \<Rightarrow>
          (let params = [];
               params = Values_Set params ''projectSlug'' (GetFolderTreeRequest.ProjectSlug req);
               params = set_if_present ''maxDepth''
                   (map_option Itoa (GetFolderTreeRequest.MaxDepth req)) params;
               path = ''/cdn/folders/tree'' @ ''?'' @ Values_Encode params
           in Some (HTTPClient_Get path)))"

text \<open>\<^verbatim>\<open>type ListFoldersRequest struct\<close> of package \<^verbatim>\<open>cdn\<close>\<close>

record ListFoldersRequest =
  ParentID :: "string option"
  Limit :: "go_int option"
  Offset :: "go_int option"
  Search :: "string option"

text \<open>\<^verbatim>\<open>func (c *Client) ListFolders(ctx context.Context, req *ListFoldersRequest)\<close>
  of package \<^verbatim>\<open>cdn\<close>\<close>

definition cdn_ListFolders :: "ListFoldersRequest option \<Rightarrow> 'b call option" where
  "cdn_ListFolders req =
     (let params = [];
          params = (case req of
                      None \<Rightarrow> params
                    | Some req \<Rightarrow>
                        (let params = set_if_present ''parentId''
                                 (ListFoldersRequest.ParentID req) params;
                             params = set_if_present ''limit''
                                 (map_option Itoa (ListFoldersRequest.Limit req)) params;
                             params = set_if_present ''offset''
                                 (map_option Itoa (ListFoldersRequest.Offset req)) params;
                             params = set_if_present ''search''
                                 (ListFoldersRequest.Search req) params
                         in params));
          path = ''/cdn/folders'';
          path = (if 0 < length params then path @ ''?'' @ Values_Encode params else path)
      in Some (HTTPClient_Get path))"

text \<open>\<^verbatim>\<open>type ListImportsRequest struct\<close> of package \<^verbatim>\<open>cdn\<close>\<close>

record ListImportsRequest =
  ProjectSlug :: string
  Environment :: "string option"
  Status :: "string option"
  SortBy :: "string option"
  SortOrder :: "string option"
  Limit :: "go_int option"
  Offset :: "go_int option"

text \<open>\<^verbatim>\<open>func (c *Client) ListImports(ctx context.Context, req *ListImportsRequest)\<close>
  of package \<^verbatim>\<open>cdn\<close>\<close>

definition cdn_ListImports :: "ListImportsRequest option \<Rightarrow> 'b call option" where
  "cdn_ListImports req =
     (case req of
        None \<Rightarrow> None
      | Some req \<Rightarrow>
          (let params = [];
               params = Values_Set params ''projectSlug'' (ListImportsRequest.ProjectSlug req);
               params = set_if_present ''environment'' (ListImportsRequest.Environment req) params;
               params = set_if_present ''status'' (ListImportsRequest.Status req) params;
               params = set_if_present ''sortBy'' (ListImportsRequest.SortBy req) params;
               params = set_if_present ''sortOrder'' (ListImportsRequest.SortOrder req) params;
               params = set_if_present ''limit''
                   (map_option Itoa (ListImportsRequest.Limit req)) params;
               params = set_if_present ''offset''
                   (map_option Itoa (ListImportsRequest.Offset req)) params;
               path = ''/cdn/imports'' @ ''?'' @ Values_Encode params
           in Some (HTTPClient_Get path)))"

text \<open>\<^verbatim>\<open>type ListImportFilesRequest struct\<close> of package \<^verbatim>\<open>cdn\<close>\<close>

record ListImportFilesRequest =
  ImportID :: string
  Status :: "string option"
  SortBy :: "string option"
  SortOrder :: "string option"
  Limit :: "go_int option"
  Offset :: "go_int option"

text \<open>\<^verbatim>\<open>func (c *Client) ListImportFiles(ctx context.Context, req *ListImportFilesRequest)\<close>
  of package \<^verbatim>\<open>cdn\<close>\<close>

definition cdn_ListImportFiles ::
  "ListImportFilesRequest option \<Rightarrow> 'b call option" where
  "cdn_ListImportFiles req =
     (case req of
        None \<Rightarrow> None
      | Some req \<Rightarrow>
          (let params = [];
               params = set_if_present ''status'' (ListImportFilesRequest.Status req) params;
               params = set_if_present ''sortBy'' (ListImportFilesRequest.SortBy req) params;
               params = set_if_present ''sortOrder'' (ListImportFilesRequest.SortOrder req) params;
               params = set_if_present ''limit''
                   (map_option Itoa (ListImportFilesRequest.Limit req)) params;
               params = set_if_present ''offset''
                   (map_option Itoa (ListImportFilesRequest.Offset req)) params;
               path = ''/cdn/imports/'' @ ListImportFilesRequest.ImportID req @ ''/files'';
               path = (if 0 < length params then path @ ''?'' @ Values_Encode params else path)
           in Some (HTTPClient_Get path)))"

text \<open>\<^verbatim>\<open>type ListEmailsRequest struct\<close> of package \<^verbatim>\<open>mail\<close>\<close>

record 't ListEmailsRequest =
  ProjectSlug :: "string option"
  Environment :: "string option"
  Limit :: "go_int option"
  Offset :: "go_int option"
  Status :: "string option"
  From :: "string option"
  To :: "string option"
  Subject :: "string option"
  Tag :: "string option"
  StartDate :: "'t option"
  EndDate :: "'t option"
  SortBy :: "string option"
  SortOrder :: "string option"

text \<open>\<^verbatim>\<open>func (c *Client) List(ctx context.Context, req *ListEmailsRequest)\<close>
  of package \<^verbatim>\<open>mail\<close>\<close>

definition mail_List ::
  "('t \<Rightarrow> string) \<Rightarrow> 't ListEmailsRequest option \<Rightarrow> 'b call option" where
  "mail_List rfc3339 req =
     (let params = [];
          params = (case req of
                      None \<Rightarrow> params
                    | Some req \<Rightarrow>
                        (let params = set_if_present ''projectSlug''
                                 (ListEmailsRequest.ProjectSlug req) params;
                             params = set_if_present ''environment''
                                 (ListEmailsRequest.Environment req) params;
                             params = set_if_present ''limit''
                                 (map_option Itoa (ListEmailsRequest.Limit req)) params;
                             params = set_if_present ''offset''
                                 (map_option Itoa (ListEmailsRequest.Offset req)) params;
                             params = set_if_present ''status''
                                 (ListEmailsRequest.Status req) params;
                             params = set_if_present ''from'' (ListEmailsRequest.From req) params;
                             params = set_if_present ''to'' (ListEmailsRequest.To req) params;
                             params = set_if_present ''subject''
                                 (ListEmailsRequest.Subject req) params;
                             params = set_if_present ''tag'' (ListEmailsRequest.Tag req) params;
                             params = set_if_present ''startDate''
                                 (map_option rfc3339 (ListEmailsRequest.StartDate req)) params;
                             params = set_if_present ''endDate''
                                 (map_option rfc3339 (ListEmailsRequest.EndDate req)) params;
                             params = set_if_present ''sortBy''
                                 (ListEmailsRequest.SortBy req) params;
                             params = set_if_present ''sortOrder''
                                 (ListEmailsRequest.SortOrder req) params
                         in params));
          path = ''/mail'';
          path = (if 0 < length params then path @ ''?'' @ Values_Encode params else path)
      in Some (HTTPClient_Get path))"

text \<open>\<^verbatim>\<open>type ListSendersRequest struct\<close> of package \<^verbatim>\<open>mail\<close>\<close>

record ListSendersRequest =
  ProjectSlug :: "string option"
  Environment :: "string option"
  Search :: "string option"

text \<open>\<^verbatim>\<open>func (c *Client) ListSenders(ctx context.Context, req *ListSendersRequest)\<close>
  of package \<^verbatim>\<open>mail\<close>\<close>

definition mail_ListSenders :: "ListSendersRequest option \<Rightarrow> 'b call option" where
  "mail_ListSenders req =
     (let params = [];
          params = (case req of
                      None \<Rightarrow> params
                    | Some req \<Rightarrow>
                        (let params = set_if_present ''projectSlug''
                                 (ListSendersRequest.ProjectSlug req) params;
                             params = set_if_present ''environment''
                                 (ListSendersRequest.Environment req) params;
                             params = set_if_present ''search''
                                 (ListSendersRequest.Search req) params
                         in params));
          path = ''/mail/senders'';
          path = (if 0 < length params then path @ ''?'' @ Values_Encode params else path)
      in Some (HTTPClient_Get path))"

text \<open>\<^verbatim>\<open>type ListCampaignsRequest struct\<close> of package \<^verbatim>\<open>mail\<close>\<close>

record ListCampaignsRequest =
  Environment :: "string option"
  Limit :: "go_int option"
  Offset :: "go_int option"
  Search :: "string option"
  Status :: "string option"

text \<open>\<^verbatim>\<open>func (c *CampaignsClient) List(ctx context.Context, req *ListCampaignsRequest)\<close>
  of package \<^verbatim>\<open>mail\<close>\<close>

definition mail_Campaigns_List :: "ListCampaignsRequest option \<Rightarrow> 'b call option" where
  "mail_Campaigns_List req =
     (let params = [];
          params = (case req of
                      None \<Rightarrow> params
                    | Some req \<Rightarrow>
                        (let params = set_if_present ''environment''
                                 (ListCampaignsRequest.Environment req) params;
                             params = set_if_present ''limit''
                                 (map_option Itoa (ListCampaignsRequest.Limit req)) params;
                             params = set_if_present ''offset''
                                 (map_option Itoa (ListCampaignsRequest.Offset req)) params;
                             params = set_if_present ''search''
                                 (ListCampaignsRequest.Search req) params;
                             params = set_if_present ''status''
                                 (ListCampaignsRequest.Status req) params
                         in params));
          path = ''/mail/campaigns'';
          path = (if 0 < length params then path @ ''?'' @ Values_Encode params else path)
      in Some (HTTPClient_Get path))"

text \<open>\<^verbatim>\<open>type ListDomainsRequest struct\<close> of package \<^verbatim>\<open>mail\<close>\<close>

record ListDomainsRequest =
  ProjectSlug :: string
  Environment :: "string option"

text \<open>\<^verbatim>\<open>func (c *DomainsClient) List(ctx context.Context, req *ListDomainsRequest)\<close>
  of package \<^verbatim>\<open>mail\<close>\<close>

definition mail_Domains_List :: "ListDomainsRequest option \<Rightarrow> 'b call option" where
  "mail_Domains_List req =
     (case req of
        None \<Rightarrow> None
      | Some req \<Rightarrow>
          (let params = [];
               params = Values_Set params ''projectSlug'' (ListDomainsRequest.ProjectSlug req);
               params = set_if_present ''environment'' (ListDomainsRequest.Environment req) params;
               path = ''/mail/domains'' @ ''?'' @ Values_Encode params
           in Some (HTTPClient_Get path)))"

text \<open>\<^verbatim>\<open>type ListEventsRequest struct\<close> of package \<^verbatim>\<open>mail\<close>\<close>

record ListEventsRequest =
  ProjectSlug :: "string option"
  Environment :: "string option"
  Limit :: "go_int option"
  Offset :: "go_int option"
  Search :: "string option"

text \<open>\<^verbatim>\<open>func (c *EventsClient) List(ctx context.Context, req *ListEventsRequest)\<close>
  of package \<^verbatim>\<open>mail\<close>\<close>

definition mail_Events_List :: "ListEventsRequest option \<Rightarrow> 'b call option" where
  "mail_Events_List req =
     (let params = [];
          params = (case req of
                      None \<Rightarrow> params
                    | Some req \<Rightarrow>
                        (let params = set_if_present ''projectSlug''
                                 (ListEventsRequest.ProjectSlug req) params;
                             params = set_if_present ''environment''
                                 (ListEventsRequest.Environment req) params;
                             params = set_if_present ''limit''
                                 (map_option Itoa (ListEventsRequest.Limit req)) params;
                             params = set_if_present ''offset''
                                 (map_option Itoa (ListEventsRequest.Offset req)) params;
                             params = set_if_present ''search''
                                 (ListEventsRequest.Search req) params
                         in params));
          path = ''/mail/events'';
          path = (if 0 < length params then path @ ''?'' @ Values_Encode params else path)
      in Some (HTTPClient_Get path))"

text \<open>\<^verbatim>\<open>type ListEventOccurrencesRequest struct\<close> of package \<^verbatim>\<open>mail\<close>\<close>

record 't ListEventOccurrencesRequest =
  EventID :: "string option"
  ContactID :: "string option"
  StartDate :: "'t option"
  EndDate :: "'t option"
  Limit :: "go_int option"
  Offset :: "go_int option"

text \<open>\<^verbatim>\<open>func (c *EventsClient) ListOccurrences(ctx context.Context, req *ListEventOccurrencesRequest)\<close>
  of package \<^verbatim>\<open>mail\<close>\<close>

definition mail_Events_ListOccurrences ::
  "('t \<Rightarrow> string) \<Rightarrow> 't ListEventOccurrencesRequest option \<Rightarrow> 'b call option" where
  "mail_Events_ListOccurrences rfc3339 req =
     (let params = [];
          params = (case req of
                      None \<Rightarrow> params
                    | Some req \<Rightarrow>
                        (let params = set_if_present ''eventId''
                                 (ListEventOccurrencesRequest.EventID req) params;
                             params = set_if_present ''contactId''
                                 (ListEventOccurrencesRequest.ContactID req) params;
                             params = set_if_present ''limit''
                                 (map_option Itoa (ListEventOccurrencesRequest.Limit req)) params;
                             params = set_if_present ''offset''
                                 (map_option Itoa (ListEventOccurrencesRequest.Offset req)) params;
                             params = set_if_present ''startDate''
                                 (map_option rfc3339 (ListEventOccurrencesRequest.StartDate req)) params;
                             params = set_if_present ''endDate''
                                 (map_option rfc3339 (ListEventOccurrencesRequest.EndDate req)) params
                         in params));
          path = ''/mail/events/occurrences'';
          path = (if 0 < length params then path @ ''?'' @ Values_Encode params else path)
      in Some (HTTPClient_Get path))"

text \<open>\<^verbatim>\<open>type ListSequencesRequest struct\<close> of package \<^verbatim>\<open>mail\<close>\<close>

record ListSequencesRequest =
  Environment :: "string option"
  Limit :: "go_int option"
  Offset :: "go_int option"
  Search :: "string option"
  Status :: "string option"
  TriggerType :: "string option"

text \<open>\<^verbatim>\<open>func (c *SequencesClient) List(ctx context.Context, req *ListSequencesRequest)\<close>
  of package \<^verbatim>\<open>mail\<close>\<close>

definition mail_Sequences_List :: "ListSequencesRequest option \<Rightarrow> 'b call option" where
  "mail_Sequences_List req =
     (let params = [];
          params = (case req of
                      None \<Rightarrow> params
                    | Some req \<Rightarrow>
                        (let params = set_if_present ''environment''
                                 (ListSequencesRequest.Environment req) params;
                             params = set_if_present ''limit''
                                 (map_option Itoa (ListSequencesRequest.Limit req)) params;
                             params = set_if_present ''offset''
                                 (map_option Itoa (ListSequencesRequest.Offset req)) params;
                             params = set_if_present ''search''
                                 (ListSequencesRequest.Search req) params;
                             params = set_if_present ''status''
                                 (ListSequencesRequest.Status req) params;
                             params = set_if_present ''triggerType''
                                 (ListSequencesRequest.TriggerType req) params
                         in params));
          path = ''/mail/sequences'';
          path = (if 0 < length params then path @ ''?'' @ Values_Encode params else path)
      in Some (HTTPClient_Get path))"

text \<open>\<^verbatim>\<open>type ListSequenceEntriesRequest struct\<close> of package \<^verbatim>\<open>mail\<close>\<close>

record ListSequenceEntriesRequest =
  ID :: string
  Status :: "string option"
  Limit :: "go_int option"
  Offset :: "go_int option"

text \<open>\<^verbatim>\<open>func (c *SequencesClient) ListEntries(ctx context.Context, req *ListSequenceEntriesRequest)\<close>
  of package \<^verbatim>\<open>mail\<close>\<close>

definition mail_Sequences_ListEntries ::
  "ListSequenceEntriesRequest option \<Rightarrow> 'b call option" where
  "mail_Sequences_ListEntries req =
     (case req of
        None \<Rightarrow> None
      | Some req \<Rightarrow>
          (let params = [];
               params = set_if_present ''limit''
                   (map_option Itoa (ListSequenceEntriesRequest.Limit req)) params;
               params = set_if_present ''offset''
                   (map_option Itoa (ListSequenceEntriesRequest.Offset req)) params;
               params = set_if_present ''status'' (ListSequenceEntriesRequest.Status req) params;
               path = ''/mail/sequences/'' @ ListSequenceEntriesRequest.ID req @ ''/entries'';
               path = (if 0 < length params then path @ ''?'' @ Values_Encode params else path)
           in Some (HTTPClient_Get path)))"

text \<open>\<^verbatim>\<open>type ListTemplatesRequest struct\<close> of package \<^verbatim>\<open>mail\<close>\<close>

record ListTemplatesRequest =
  Environment :: "string option"
  Limit :: "go_int option"
  Offset :: "go_int option"
  IsActive :: "bool option"
  Search :: "string option"

text \<open>\<^verbatim>\<open>func (c *TemplatesClient) List(ctx context.Context, req *ListTemplatesRequest)\<close>
  of package \<^verbatim>\<open>mail\<close>\<close>

definition mail_Templates_List :: "ListTemplatesRequest option \<Rightarrow> 'b call option" where
  "mail_Templates_List req =
     (let params = [];
          params = (case req of
                      None \<Rightarrow> params
                    | Some req \<Rightarrow>
                        (let params = set_if_present ''environment''
                                 (ListTemplatesRequest.Environment req) params;
                             params = set_if_present ''limit''
                                 (map_option Itoa (ListTemplatesRequest.Limit req)) params;
                             params = set_if_present ''offset''
                                 (map_option Itoa (ListTemplatesRequest.Offset req)) params;
                             params = set_if_present ''isActive''
                                 (map_option FormatBool (ListTemplatesRequest.IsActive req)) params;
                             params = set_if_present ''search''
                                 (ListTemplatesRequest.Search req) params
                         in params));
          path = ''/mail/templates'';
          path = (if 0 < length params then path @ ''?'' @ Values_Encode params else path)
      in Some (HTTPClient_Get path))"

text \<open>\<^verbatim>\<open>type ListAudiencesRequest struct\<close> of package \<^verbatim>\<open>mail\<close>\<close>

record ListAudiencesRequest =
  Environment :: "string option"
  Limit :: "go_int option"
  Offset :: "go_int option"
  Search :: "string option"

text \<open>\<^verbatim>\<open>func (c *AudiencesClient) List(ctx context.Context, req *ListAudiencesRequest)\<close>
  of package \<^verbatim>\<open>mail\<close>\<close>

definition mail_Audiences_List :: "ListAudiencesRequest option \<Rightarrow> 'b call option" where
  "mail_Audiences_List req =
     (let params = [];
          params = (case req of
                      None \<Rightarrow> params
                    | Some req \<Rightarrow>
                        (let params = set_if_present ''environment''
                                 (ListAudiencesRequest.Environment req) params;
                             params = set_if_present ''limit''
                                 (map_option Itoa (ListAudiencesRequest.Limit req)) params;
                             params = set_if_present ''offset''
                                 (map_option Itoa (ListAudiencesRequest.Offset req)) params;
                             params = set_if_present ''search''
                                 (ListAudiencesRequest.Search req) params
                         in params));
          path = ''/mail/audiences'';
          path = (if 0 < length params then path @ ''?'' @ Values_Encode params else path)
      in Some (HTTPClient_Get path))"

text \<open>\<^verbatim>\<open>type ListAudienceContactsRequest struct\<close> of package \<^verbatim>\<open>mail\<close>\<close>

record ListAudienceContactsRequest =
  ID :: string
  Environment :: "string option"
  Limit :: "go_int option"
  Offset :: "go_int option"
  Search :: "string option"
  Status :: "string option"

text \<open>\<^verbatim>\<open>func (c *AudiencesClient) ListContacts(ctx context.Context, req *ListAudienceContactsRequest)\<close>
  of package \<^verbatim>\<open>mail\<close>\<close>

definition mail_Audiences_ListContacts ::
  "ListAudienceContactsRequest option \<Rightarrow> 'b call option" where
  "mail_Audiences_ListContacts req =
     (case req of
        None \<Rightarrow> None
      | Some req \<Rightarrow>
          (let params = [];
               params = set_if_present ''environment''
                   (ListAudienceContactsRequest.Environment req) params;
               params = set_if_present ''limit''
                   (map_option Itoa (ListAudienceContactsRequest.Limit req)) params;
               params = set_if_present ''offset''
                   (map_option Itoa (ListAudienceContactsRequest.Offset req)) params;
               params = set_if_present ''search'' (ListAudienceContactsRequest.Search req) params;
               params = set_if_present ''status'' (ListAudienceContactsRequest.Status req) params;
               path = ''/mail/audiences/'' @ ListAudienceContactsRequest.ID req @ ''/contacts'';
               path = (if 0 < length params then path @ ''?'' @ Values_Encode params else path)
           in Some (HTTPClient_Get path)))"

text \<open>\<^verbatim>\<open>type ListContactsRequest struct\<close> of package \<^verbatim>\<open>mail\<close>\<close>

record ListContactsRequest =
  Environment :: "string option"
  Limit :: "go_int option"
  Offset :: "go_int option"
  Search :: "string option"
  Status :: "string option"

text \<open>\<^verbatim>\<open>func (c *ContactsClient) List(ctx context.Context, req *ListContactsRequest)\<close>
  of package \<^verbatim>\<open>mail\<close>\<close>

definition mail_Contacts_List :: "ListContactsRequest option \<Rightarrow> 'b call option" where
  "mail_Contacts_List req =
     (let params = [];
          params = (case req of
                      None \<Rightarrow> params
                    | Some req \<Rightarrow>
                        (let params = set_if_present ''environment''
                                 (ListContactsRequest.Environment req) params;
                             params = set_if_present ''limit''
                                 (map_option Itoa (ListContactsRequest.Limit req)) params;
                             params = set_if_present ''offset''
                                 (map_option Itoa (ListContactsRequest.Offset req)) params;
                             params = set_if_present ''search''
                                 (ListContactsRequest.Search req) params;
                             params = set_if_present ''status''
                                 (ListContactsRequest.Status req) params
                         in params));
          path = ''/mail/contacts'';
          path = (if 0 < length params then path @ ''?'' @ Values_Encode params else path)
      in Some (HTTPClient_Get path))"
section \<open>The clock, the context and the remote service\<close>

text \<open>
  The pollers run against three things outside the repository: the monotonic clock, the
  caller's \<^verbatim>\<open>context.Context\<close> and the remote API behind \<^verbatim>\<open>c.http\<close>. They are
  modelled as explicit state and oracles.

  A context is done from instant \<open>Done_at\<close> on (never, if \<open>None\<close>), and then
  \<^verbatim>\<open>ctx.Err()\<close> is \<open>Err\<close>.
\<close>

record Context =
  Done_at :: "int option"
  Err :: context_error

text \<open>
  The remote service: what the start call (\<^verbatim>\<open>Extract\<close>, \<^verbatim>\<open>Capture\<close>, \<^verbatim>\<open>Batch\<close>)
  returns for a request and how many nanoseconds it takes, and what the \<open>k\<close>-th get
  call (\<^verbatim>\<open>Get\<close>, \<^verbatim>\<open>GetBatchJob\<close>; counted from 0) returns and takes. Every error of the
  transport and of JSON decoding is a possible reply.
\<close>

record ('r, 's, 'g, 'j) remote =
  start_reply :: "'r \<Rightarrow> error + 's"
  start_nanos :: nat
  get_reply :: "nat \<Rightarrow> 'g \<Rightarrow> error + 'j"
  get_nanos :: "nat \<Rightarrow> nat"

text \<open>
  The state a run threads through: the clock reading in nanoseconds, the number of start
  calls made and the get requests sent so far, oldest first.
\<close>

record 'g world =
  now :: int
  starts :: nat
  gets :: "'g list"

definition call_start ::
  "('r, 's, 'g, 'j) remote \<Rightarrow> 'r \<Rightarrow> 'g world \<Rightarrow> (error + 's) \<times> 'g world" where
  "call_start srv req w =
     (start_reply srv req,
      w\<lparr>now := now w + int (start_nanos srv), starts := Suc (starts w)\<rparr>)"

definition call_get ::
  "('r, 's, 'g, 'j) remote \<Rightarrow> 'g \<Rightarrow> 'g world \<Rightarrow> (error + 'j) \<times> 'g world" where
  "call_get srv greq w =
     (get_reply srv (length (gets w)) greq,
      w\<lparr>now := now w + int (get_nanos srv (length (gets w))), gets := gets w @ [greq]\<rparr>)"

text \<open>
  \<^verbatim>\<open>select { case <-ctx.Done(): return nil, ctx.Err(); case <-time.After(pollInterval): }\<close>
  The context wins when it is done on entry or before the timer fires; otherwise the
  clock advances by the poll interval (a timer with a non-positive duration fires at
  once). Where Go picks at random between two ready channels the model picks the context
  if it was done on entry and the timer if both become ready at the same instant.
\<close>

definition select_wait ::
  "Context \<Rightarrow> int \<Rightarrow> 'g world \<Rightarrow> context_error option \<times> 'g world" where
  "select_wait ctx pollInterval w =
     (case Done_at ctx of
        Some c \<Rightarrow>
          if c \<le> now w \<or> c < now w + pollInterval
          then (Some (Err ctx), w\<lparr>now := max (now w) c\<rparr>)
          else (None, w\<lparr>now := now w + max 0 pollInterval\<rparr>)
      | None \<Rightarrow> (None, w\<lparr>now := now w + max 0 pollInterval\<rparr>))"

text \<open>The \<open>k\<close>-th get call (counted over the whole history) was made during the run that
  led from \<open>w\<close> to \<open>w'\<close>.\<close>

definition polled :: "'g world \<Rightarrow> 'g world \<Rightarrow> nat \<Rightarrow> bool" where
  "polled w w' k \<longleftrightarrow> length (gets w) \<le> k \<and> k < length (gets w')"

section \<open>The polling loop of the async-wait helpers\<close>

text \<open>
  The four helpers run the same loop; it is written once, with the places where the
  copies differ as parameters: the get request \<open>greq\<close>, the treatment \<open>terminal\<close> of a
  polled record (\<open>None\<close>: keep polling; \<open>Some r\<close>: return \<open>r\<close>) and the text of the
  timeout error.
  \<^verbatim>\<open>
  for time.Since(startTime) < timeout {
      job, err := c.Get(ctx, greq)
      if err != nil { return nil, err }
      if <terminal status> { return ... }
      select {
      case <-ctx.Done(): return nil, ctx.Err()
      case <-time.After(pollInterval):
      }
  }
  return nil, types.NewTimeoutError(message)
  \<close>
  \<^verbatim>\<open>time.Since\<close> saturates at the largest \<^verbatim>\<open>Duration\<close>, which is not below any
  \<^verbatim>\<open>timeout\<close>, so the comparison is the one on unbounded integers. The loop need not
  end when the clock stands still; a run that never returns is \<open>None\<close>.
\<close>

partial_function (option) poll ::
  "Context \<Rightarrow> ('r, 's, 'g, 'j) remote \<Rightarrow> ('j \<Rightarrow> (error + 'j) option) \<Rightarrow> string \<Rightarrow> 'g \<Rightarrow>
   Duration \<Rightarrow> Duration \<Rightarrow> int \<Rightarrow> 'g world \<Rightarrow> ((error + 'j) \<times> 'g world) option" where
  "poll ctx srv terminal message greq pollInterval timeout startTime w =
     (if now w - startTime < sint timeout then
        (case call_get srv greq w of
           (Inl err, w1) \<Rightarrow> Some (Inl err, w1)
         | (Inr job, w1) \<Rightarrow>
             (case terminal job of
                Some r \<Rightarrow> Some (r, w1)
              | None \<Rightarrow>
                  (case select_wait ctx (sint pollInterval) w1 of
                     (Some e, w2) \<Rightarrow> Some (Inl (ContextError e), w2)
                   | (None, w2) \<Rightarrow>
                       poll ctx srv terminal message greq pollInterval timeout startTime w2)))
      else Some (Inl (NewTimeoutError message), w))"

text \<open>\<^verbatim>\<open>time.Second\<close>, in nanoseconds.\<close>

definition Second :: Duration where
  "Second = 1000000000"

subsection \<open>Extraction client (extraction/client.go)\<close>

record CreateExtractionRequest =
  URL :: string
  Environment :: "string option"
  ProjectID :: "string option"

record CreateExtractionResponse =
  ID :: string
  Status :: string

record GetExtractionRequest =
  ID :: string
  Environment :: "string option"
  ProjectID :: "string option"

text \<open>Of \<^verbatim>\<open>ExtractionResult\<close> the fields the poller reads; \<^verbatim>\<open>Status\<close> is a Go string
  type, so any string can arrive from the server.\<close>

record ExtractionResult =
  ID :: string
  Status :: string
  Error :: "string option"

record ExtractAndWaitOptions =
  PollInterval :: Duration
  Timeout :: Duration

definition ExtractionStatusCompleted :: string where
  "ExtractionStatusCompleted = ''completed''"

definition ExtractionStatusFailed :: string where
  "ExtractionStatusFailed = ''failed''"

text \<open>Lines 129 to 138 of \<^verbatim>\<open>ExtractAndWait\<close>: the poll interval and the timeout in force.\<close>

definition ExtractAndWait_durations :: "ExtractAndWaitOptions option \<Rightarrow> Duration \<times> Duration" where
  "ExtractAndWait_durations opts =
     (let pollInterval = 1 * Second; timeout = 60 * Second in
      case opts of
        None \<Rightarrow> (pollInterval, timeout)
      | Some os \<Rightarrow>
          (if 0 <s ExtractAndWaitOptions.PollInterval os
           then ExtractAndWaitOptions.PollInterval os else pollInterval,
           if 0 <s ExtractAndWaitOptions.Timeout os
           then ExtractAndWaitOptions.Timeout os else timeout))"

text \<open>Lines 156 to 165: what the loop does with a polled extraction.\<close>

definition ExtractAndWait_terminal :: "ExtractionResult \<Rightarrow> (error + ExtractionResult) option" where
  "ExtractAndWait_terminal extraction =
     (if ExtractionResult.Status extraction = ExtractionStatusCompleted
         \<or> ExtractionResult.Status extraction = ExtractionStatusFailed
      then
        (if ExtractionResult.Status extraction = ExtractionStatusFailed
         then Some (Inl (ErrorString
                (case ExtractionResult.Error extraction of
                   Some errMsg \<Rightarrow> errMsg
                 | None \<Rightarrow> ''Extraction failed'')))
         else Some (Inr extraction))
      else None)"

definition ExtractAndWait ::
  "Context \<Rightarrow>
   (CreateExtractionRequest, CreateExtractionResponse, GetExtractionRequest, ExtractionResult) remote \<Rightarrow>
   CreateExtractionRequest \<Rightarrow> ExtractAndWaitOptions option \<Rightarrow> GetExtractionRequest world \<Rightarrow>
   ((error + ExtractionResult) \<times> GetExtractionRequest world) option" where
  "ExtractAndWait ctx c req opts w =
     (case ExtractAndWait_durations opts of
        (pollInterval, timeout) \<Rightarrow>
          (case call_start c req w of
             (Inl err, w1) \<Rightarrow> Some (Inl err, w1)
           | (Inr resp, w1) \<Rightarrow>
               poll ctx c ExtractAndWait_terminal ''Extraction timed out''
                 \<lparr>GetExtractionRequest.ID = CreateExtractionResponse.ID resp,
                  GetExtractionRequest.Environment = CreateExtractionRequest.Environment req,
                  GetExtractionRequest.ProjectID = CreateExtractionRequest.ProjectID req\<rparr>
                 pollInterval timeout (now w1) w1))"

record CreateBatchExtractionsRequest =
  URLs :: "string list"
  Environment :: "string option"
  ProjectID :: "string option"

record extraction_CreateBatchResponse =
  ID :: string
  TotalURLs :: go_int

record extraction_GetBatchJobRequest =
  ID :: string
  Environment :: "string option"
  ProjectID :: "string option"

record BatchExtractionJob =
  ID :: string
  Status :: string

definition BatchJobStatusCompleted :: string where
  "BatchJobStatusCompleted = ''completed''"

definition BatchJobStatusFailed :: string where
  "BatchJobStatusFailed = ''failed''"

definition BatchJobStatusCancelled :: string where
  "BatchJobStatusCancelled = ''cancelled''"

definition extraction_BatchAndWait_durations ::
  "ExtractAndWaitOptions option \<Rightarrow> Duration \<times> Duration" where
  "extraction_BatchAndWait_durations opts =
     (let pollInterval = 2 * Second; timeout = 300 * Second in
      case opts of
        None \<Rightarrow> (pollInterval, timeout)
      | Some os \<Rightarrow>
          (if 0 <s ExtractAndWaitOptions.PollInterval os
           then ExtractAndWaitOptions.PollInterval os else pollInterval,
           if 0 <s ExtractAndWaitOptions.Timeout os
           then ExtractAndWaitOptions.Timeout os else timeout))"

definition extraction_BatchAndWait_terminal ::
  "BatchExtractionJob \<Rightarrow> (error + BatchExtractionJob) option" where
  "extraction_BatchAndWait_terminal job =
     (if BatchExtractionJob.Status job = BatchJobStatusCompleted
         \<or> BatchExtractionJob.Status job = BatchJobStatusFailed
         \<or> BatchExtractionJob.Status job = BatchJobStatusCancelled
      then Some (Inr job)
      else None)"

definition extraction_BatchAndWait ::
  "Context \<Rightarrow>
   (CreateBatchExtractionsRequest, extraction_CreateBatchResponse,
    extraction_GetBatchJobRequest, BatchExtractionJob) remote \<Rightarrow>
   CreateBatchExtractionsRequest \<Rightarrow> ExtractAndWaitOptions option \<Rightarrow>
   extraction_GetBatchJobRequest world \<Rightarrow>
   ((error + BatchExtractionJob) \<times> extraction_GetBatchJobRequest world) option" where
  "extraction_BatchAndWait ctx c req opts w =
     (case extraction_BatchAndWait_durations opts of
        (pollInterval, timeout) \<Rightarrow>
          (case call_start c req w of
             (Inl err, w1) \<Rightarrow> Some (Inl err, w1)
           | (Inr resp, w1) \<Rightarrow>
               poll ctx c extraction_BatchAndWait_terminal ''Batch job timed out''
                 \<lparr>extraction_GetBatchJobRequest.ID = extraction_CreateBatchResponse.ID resp,
                  extraction_GetBatchJobRequest.Environment =
                    CreateBatchExtractionsRequest.Environment req,
                  extraction_GetBatchJobRequest.ProjectID =
                    CreateBatchExtractionsRequest.ProjectID req\<rparr>
                 pollInterval timeout (now w1) w1))"

subsection \<open>Screenshots client (screenshots/client.go)\<close>

record CreateScreenshotRequest =
  URL :: string
  Environment :: "string option"
  ProjectID :: "string option"

record CreateScreenshotResponse =
  ID :: string
  Status :: string

record GetScreenshotRequest =
  ID :: string
  Environment :: "string option"
  ProjectID :: "string option"

record Screenshot =
  ID :: string
  Status :: string
  Error :: "string option"

record CaptureAndWaitOptions =
  PollInterval :: Duration
  Timeout :: Duration

definition ScreenshotStatusCompleted :: string where
  "ScreenshotStatusCompleted = ''completed''"

definition ScreenshotStatusFailed :: string where
  "ScreenshotStatusFailed = ''failed''"

definition CaptureAndWait_durations :: "CaptureAndWaitOptions option \<Rightarrow> Duration \<times> Duration" where
  "CaptureAndWait_durations opts =
     (let pollInterval = 1 * Second; timeout = 60 * Second in
      case opts of
        None \<Rightarrow> (pollInterval, timeout)
      | Some os \<Rightarrow>
          (if 0 <s CaptureAndWaitOptions.PollInterval os
           then CaptureAndWaitOptions.PollInterval os else pollInterval,
           if 0 <s CaptureAndWaitOptions.Timeout os
           then CaptureAndWaitOptions.Timeout os else timeout))"

definition CaptureAndWait_terminal :: "Screenshot \<Rightarrow> (error + Screenshot) option" where
  "CaptureAndWait_terminal screenshot =
     (if Screenshot.Status screenshot = ScreenshotStatusCompleted
         \<or> Screenshot.Status screenshot = ScreenshotStatusFailed
      then
        (if Screenshot.Status screenshot = ScreenshotStatusFailed
         then Some (Inl (ErrorString
                (case Screenshot.Error screenshot of
                   Some errMsg \<Rightarrow> errMsg
                 | None \<Rightarrow> ''Screenshot failed'')))
         else Some (Inr screenshot))
      else None)"

definition CaptureAndWait ::
  "Context \<Rightarrow>
   (CreateScreenshotRequest, CreateScreenshotResponse, GetScreenshotRequest, Screenshot) remote \<Rightarrow>
   CreateScreenshotRequest \<Rightarrow> CaptureAndWaitOptions option \<Rightarrow> GetScreenshotRequest world \<Rightarrow>
   ((error + Screenshot) \<times> GetScreenshotRequest world) option" where
  "CaptureAndWait ctx c req opts w =
     (case CaptureAndWait_durations opts of
        (pollInterval, timeout) \<Rightarrow>
          (case call_start c req w of
             (Inl err, w1) \<Rightarrow> Some (Inl err, w1)
           | (Inr resp, w1) \<Rightarrow>
               poll ctx c CaptureAndWait_terminal ''Screenshot timed out''
                 \<lparr>GetScreenshotRequest.ID = CreateScreenshotResponse.ID resp,
                  GetScreenshotRequest.Environment = CreateScreenshotRequest.Environment req,
                  GetScreenshotRequest.ProjectID = CreateScreenshotRequest.ProjectID req\<rparr>
                 pollInterval timeout (now w1) w1))"

record CreateBatchScreenshotsRequest =
  URLs :: "string list"
  Environment :: "string option"
  ProjectID :: "string option"

record screenshots_CreateBatchResponse =
  ID :: string
  TotalURLs :: go_int

record screenshots_GetBatchJobRequest =
  ID :: string
  Environment :: "string option"
  ProjectID :: "string option"

record BatchScreenshotJob =
  ID :: string
  Status :: string

definition screenshots_BatchAndWait_durations ::
  "CaptureAndWaitOptions option \<Rightarrow> Duration \<times> Duration" where
  "screenshots_BatchAndWait_durations opts =
     (let pollInterval = 2 * Second; timeout = 300 * Second in
      case opts of
        None \<Rightarrow> (pollInterval, timeout)
      | Some os \<Rightarrow>
          (if 0 <s CaptureAndWaitOptions.PollInterval os
           then CaptureAndWaitOptions.PollInterval os else pollInterval,
           if 0 <s CaptureAndWaitOptions.Timeout os
           then CaptureAndWaitOptions.Timeout os else timeout))"

definition screenshots_BatchAndWait_terminal ::
  "BatchScreenshotJob \<Rightarrow> (error + BatchScreenshotJob) option" where
  "screenshots_BatchAndWait_terminal job =
     (if BatchScreenshotJob.Status job = BatchJobStatusCompleted
         \<or> BatchScreenshotJob.Status job = BatchJobStatusFailed
         \<or> BatchScreenshotJob.Status job = BatchJobStatusCancelled
      then Some (Inr job)
      else None)"

definition screenshots_BatchAndWait ::
  "Context \<Rightarrow>
   (CreateBatchScreenshotsRequest, screenshots_CreateBatchResponse,
    screenshots_GetBatchJobRequest, BatchScreenshotJob) remote \<Rightarrow>
   CreateBatchScreenshotsRequest \<Rightarrow> CaptureAndWaitOptions option \<Rightarrow>
   screenshots_GetBatchJobRequest world \<Rightarrow>
   ((error + BatchScreenshotJob) \<times> screenshots_GetBatchJobRequest world) option" where
  "screenshots_BatchAndWait ctx c req opts w =
     (case screenshots_BatchAndWait_durations opts of
        (pollInterval, timeout) \<Rightarrow>
          (case call_start c req w of
             (Inl err, w1) \<Rightarrow> Some (Inl err, w1)
           | (Inr resp, w1) \<Rightarrow>
               poll ctx c screenshots_BatchAndWait_terminal ''Batch job timed out''
                 \<lparr>screenshots_GetBatchJobRequest.ID = screenshots_CreateBatchResponse.ID resp,
                  screenshots_GetBatchJobRequest.Environment =
                    CreateBatchScreenshotsRequest.Environment req,
                  screenshots_GetBatchJobRequest.ProjectID =
                    CreateBatchScreenshotsRequest.ProjectID req\<rparr>
                 pollInterval timeout (now w1) w1))"

section \<open>CDN client: transform URLs (cdn/client.go)\<close>

text \<open>Of \<^verbatim>\<open>cdn.Client\<close> the configuration that \<^verbatim>\<open>GetTransformURL\<close> reads.\<close>

record cdn_Client =
  cdnURL :: string

record TransformOptions =
  Width :: "go_int option"
  Height :: "go_int option"
  Fit :: "string option"
  Format :: "string option"
  Quality :: "go_int option"
  Crop :: "string option"
  CropX :: "go_int option"
  CropY :: "go_int option"
  CropWidth :: "go_int option"
  CropHeight :: "go_int option"
  Blur :: "go_int option"
  Sharpen :: "go_int option"
  Brightness :: "go_int option"
  Saturation :: "go_int option"
  Grayscale :: bool
  Rotate :: "go_int option"
  Flip :: bool
  Flop :: bool

text \<open>The parameters \<^verbatim>\<open>buildTransformQuery\<close> collects, statement by statement, before it
  encodes them.\<close>

definition transform_params :: "TransformOptions \<Rightarrow> Values" where
  "transform_params options =
     (let params = [];
          params = set_if_present ''f'' (Format options) params;
          params = set_if_present ''q'' (map_option Itoa (Quality options)) params;
          params = set_if_present ''w''
                     (map_option (\<lambda>width. Itoa (getNearestWidth width)) (Width options)) params;
          params = set_if_present ''h'' (map_option Itoa (Height options)) params;
          params = set_if_present ''fit'' (Fit options) params;
          params = set_if_present ''crop'' (Crop options) params;
          params = set_if_present ''crop-x'' (map_option Itoa (CropX options)) params;
          params = set_if_present ''crop-y'' (map_option Itoa (CropY options)) params;
          params = set_if_present ''crop-w'' (map_option Itoa (CropWidth options)) params;
          params = set_if_present ''crop-h'' (map_option Itoa (CropHeight options)) params;
          params = set_if_present ''blur'' (map_option Itoa (Blur options)) params;
          params = set_if_present ''sharpen'' (map_option Itoa (Sharpen options)) params;
          params = set_if_present ''brightness'' (map_option Itoa (Brightness options)) params;
          params = set_if_present ''saturation'' (map_option Itoa (Saturation options)) params;
          params = set_if_true ''grayscale'' (Grayscale options) ''true'' params;
          params = set_if_present ''rotate'' (map_option Itoa (Rotate options)) params;
          params = set_if_true ''flip'' (Flip options) ''y'' params;
          params = set_if_true ''flop'' (Flop options) ''x'' params
      in params)"

definition buildTransformQuery :: "TransformOptions option \<Rightarrow> string" where
  "buildTransformQuery options =
     (case options of
        None \<Rightarrow> ''''
      | Some os \<Rightarrow> Values_Encode (transform_params os))"

text \<open>Lines 493 to 505 of \<^verbatim>\<open>GetTransformURL\<close>: the base URL, or the error.\<close>

definition baseURL_of ::
  "(string \<Rightarrow> string + URL) \<Rightarrow> cdn_Client \<Rightarrow> string \<Rightarrow> error + string" where
  "baseURL_of parse c assetURLOrS3Key =
     (if HasPrefix assetURLOrS3Key ''http://'' \<or> HasPrefix assetURLOrS3Key ''https://''
      then
        (case parse assetURLOrS3Key of
           Inl err \<Rightarrow> Inl (LibraryError err)
         | Inr parsed \<Rightarrow> Inr (Scheme parsed @ ''://'' @ Host parsed @ Path parsed))
      else if cdnURL c \<noteq> ''''
      then Inr (TrimSuffix (cdnURL c) ''/'' @ ''/'' @ assetURLOrS3Key)
      else Inl (ErrorString
             ''getTransformURL requires either a full URL or cdnURL to be configured''))"

definition GetTransformURL ::
  "(string \<Rightarrow> string + URL) \<Rightarrow> cdn_Client \<Rightarrow> string \<Rightarrow> TransformOptions option
   \<Rightarrow> error + string" where
  "GetTransformURL parse c assetURLOrS3Key options =
     (case baseURL_of parse c assetURLOrS3Key of
        Inl err \<Rightarrow> Inl err
      | Inr baseURL \<Rightarrow>
          (let params = buildTransformQuery options in
           if params = '''' then Inr baseURL else Inr (baseURL @ ''?'' @ params)))"


section \<open>The HTTP client (package \<^verbatim>\<open>client\<close>)\<close>

text \<open>
  \<^verbatim>\<open>type HTTPClient struct { apiKey, baseURL string; httpClient *http.Client }\<close>. The two
  strings are data; what \<^verbatim>\<open>httpClient\<close> and the standard library do is the environment
  of a request, given below.
\<close>

record HTTPClient =
  apiKey :: string
  baseURL :: string








subsection \<open>\<^verbatim>\<open>json.Unmarshal\<close> into a \<^verbatim>\<open>types.ErrorResponse\<close> (standard library)\<close>







section \<open>Servers and requests of the test suite\<close>

text \<open>
  The handlers of \<^verbatim>\<open>extraction/client_test.go\<close> and \<^verbatim>\<open>screenshots/client_test.go\<close> as
  remote services, with a latency of one millisecond per call; \<open>Background\<close> is
  \<^verbatim>\<open>context.Background()\<close>, which is never done, and \<open>boot\<close> the state before the first
  call.
\<close>

definition Millisecond :: Duration where
  "Millisecond = 1000000"

definition Background :: Context where
  "Background = \<lparr>Done_at = None, Err = Canceled\<rparr>"

definition boot :: "'g world" where
  "boot = \<lparr>now = 0, starts = 0, gets = []\<rparr>"

definition example_request :: CreateExtractionRequest where
  "example_request =
     \<lparr>CreateExtractionRequest.URL = ''https://example.com'',
      CreateExtractionRequest.Environment = None,
      CreateExtractionRequest.ProjectID = None\<rparr>"

definition ext_123 :: GetExtractionRequest where
  "ext_123 =
     \<lparr>GetExtractionRequest.ID = ''ext-123'',
      GetExtractionRequest.Environment = None,
      GetExtractionRequest.ProjectID = None\<rparr>"

definition extraction_with :: "string \<Rightarrow> string option \<Rightarrow> ExtractionResult" where
  "extraction_with status err =
     \<lparr>ExtractionResult.ID = ''ext-123'', ExtractionResult.Status = status,
      ExtractionResult.Error = err\<rparr>"

text \<open>\<^verbatim>\<open>TestClient_ExtractAndWait_Failed\<close>: "processing" on the first get call, then
  "failed" with an error text.\<close>

definition failing_extraction_server ::
  "(CreateExtractionRequest, CreateExtractionResponse, GetExtractionRequest, ExtractionResult) remote" where
  "failing_extraction_server =
     \<lparr>start_reply = (\<lambda>req. Inr \<lparr>CreateExtractionResponse.ID = ''ext-123'',
                                    CreateExtractionResponse.Status = ''pending''\<rparr>),
      start_nanos = 1000000,
      get_reply = (\<lambda>k greq.
         if Suc k < 2 then Inr (extraction_with ''processing'' None)
         else Inr (extraction_with ''failed'' (Some ''Failed to extract content''))),
      get_nanos = (\<lambda>k. 1000000)\<rparr>"

text \<open>\<^verbatim>\<open>TestClient_ExtractAndWait_Timeout\<close>: always "processing".\<close>

definition slow_extraction_server ::
  "(CreateExtractionRequest, CreateExtractionResponse, GetExtractionRequest, ExtractionResult) remote" where
  "slow_extraction_server =
     \<lparr>start_reply = (\<lambda>req. Inr \<lparr>CreateExtractionResponse.ID = ''ext-123'',
                                    CreateExtractionResponse.Status = ''pending''\<rparr>),
      start_nanos = 1000000,
      get_reply = (\<lambda>k greq. Inr (extraction_with ''processing'' None)),
      get_nanos = (\<lambda>k. 1000000)\<rparr>"

text \<open>A server that rejects the start call, and one that accepts it and then rejects every
  get call.\<close>

definition service_unavailable :: error where
  "service_unavailable =
     APIError 503 ''UNAVAILABLE'' ''Service unavailable''
       \<lparr>Message = ''Service unavailable'', Code = ''UNAVAILABLE''\<rparr>"

definition not_found :: error where
  "not_found = APIError 404 ''NOT_FOUND'' ''Not found'' \<lparr>Message = ''Not found'', Code = ''NOT_FOUND''\<rparr>"

definition rejecting_extraction_server ::
  "(CreateExtractionRequest, CreateExtractionResponse, GetExtractionRequest, ExtractionResult) remote" where
  "rejecting_extraction_server =
     \<lparr>start_reply = (\<lambda>req. Inl service_unavailable),
      start_nanos = 1000000,
      get_reply = (\<lambda>k greq. Inr (extraction_with ''completed'' None)),
      get_nanos = (\<lambda>k. 1000000)\<rparr>"

definition forgetful_extraction_server ::
  "(CreateExtractionRequest, CreateExtractionResponse, GetExtractionRequest, ExtractionResult) remote" where
  "forgetful_extraction_server =
     \<lparr>start_reply = (\<lambda>req. Inr \<lparr>CreateExtractionResponse.ID = ''ext-123'',
                                    CreateExtractionResponse.Status = ''pending''\<rparr>),
      start_nanos = 1000000,
      get_reply = (\<lambda>k greq. Inl not_found),
      get_nanos = (\<lambda>k. 1000000)\<rparr>"

text \<open>A batch job that is "processing" on the first get call and "cancelled" afterwards.\<close>

definition example_batch_request :: CreateBatchScreenshotsRequest where
  "example_batch_request =
     \<lparr>CreateBatchScreenshotsRequest.URLs = [''https://example1.com'', ''https://example2.com''],
      CreateBatchScreenshotsRequest.Environment = None,
      CreateBatchScreenshotsRequest.ProjectID = None\<rparr>"

definition batch_123 :: screenshots_GetBatchJobRequest where
  "batch_123 =
     \<lparr>screenshots_GetBatchJobRequest.ID = ''batch-123'',
      screenshots_GetBatchJobRequest.Environment = None,
      screenshots_GetBatchJobRequest.ProjectID = None\<rparr>"

definition cancelled_batch_server ::
  "(CreateBatchScreenshotsRequest, screenshots_CreateBatchResponse,
    screenshots_GetBatchJobRequest, BatchScreenshotJob) remote" where
  "cancelled_batch_server =
     \<lparr>start_reply = (\<lambda>req. Inr \<lparr>screenshots_CreateBatchResponse.ID = ''batch-123'',
                                    screenshots_CreateBatchResponse.TotalURLs = 2\<rparr>),
      start_nanos = 1000000,
      get_reply = (\<lambda>k greq.
         if Suc k < 2
         then Inr \<lparr>BatchScreenshotJob.ID = ''batch-123'', BatchScreenshotJob.Status = ''processing''\<rparr>
         else Inr \<lparr>BatchScreenshotJob.ID = ''batch-123'', BatchScreenshotJob.Status = ''cancelled''\<rparr>),
      get_nanos = (\<lambda>k. 1000000)\<rparr>"

text \<open>The options of the first case of \<^verbatim>\<open>TestClient_GetTransformURL\<close>: width 800 and
  quality 80.\<close>

definition only_width_and_quality :: TransformOptions where
  "only_width_and_quality =
     \<lparr>Width = Some 800, Height = None, Fit = None, Format = None, Quality = Some 80,
      Crop = None, CropX = None, CropY = None, CropWidth = None, CropHeight = None,
      Blur = None, Sharpen = None, Brightness = None, Saturation = None, Grayscale = False,
      Rotate = None, Flip = False, Flop = False\<rparr>"


subsection \<open>A server that rejects a request\<close>




section \<open>Auxiliary notions of the proofs\<close>

text \<open>The mathematical distance to a width, and the inputs on which no subtraction of
  \<^const>\<open>getNearestWidth\<close> overflows.\<close>

definition dist_to :: "go_int \<Rightarrow> go_int \<Rightarrow> int" where
  "dist_to width w = \<bar>sint w - sint width\<bar>"

definition safe_width :: "go_int \<Rightarrow> bool" where
  "safe_width width \<longleftrightarrow> - (2 ^ 63) + 3840 < sint width"

definition small_width :: "go_int \<Rightarrow> bool" where
  "small_width w \<longleftrightarrow> 0 \<le> sint w \<and> sint w \<le> 3840"


text \<open>From the \<open>k0\<close>-th get call on, every reply is a record the loop keeps polling on.\<close>

definition never_terminal ::
  "('r, 's, 'g, 'j) remote \<Rightarrow> ('j \<Rightarrow> (error + 'j) option) \<Rightarrow> 'g \<Rightarrow> nat \<Rightarrow> bool" where
  "never_terminal srv terminal greq k0 \<longleftrightarrow>
     (\<forall>k. k0 \<le> k \<longrightarrow> (\<exists>job. get_reply srv k greq = Inr job \<and> terminal job = None))"


text \<open>The common shape of the four helpers once the durations are fixed: the start call,
  then the loop.\<close>

definition start_then_poll ::
  "Context \<Rightarrow> ('r, 's, 'g, 'j) remote \<Rightarrow> ('j \<Rightarrow> (error + 'j) option) \<Rightarrow> string \<Rightarrow>
   ('s \<Rightarrow> 'g) \<Rightarrow> Duration \<Rightarrow> Duration \<Rightarrow> 'r \<Rightarrow> 'g world \<Rightarrow>
   ((error + 'j) \<times> 'g world) option" where
  "start_then_poll ctx c terminal message mk pollInterval timeout req w =
     (case call_start c req w of
        (Inl err, w1) \<Rightarrow> Some (Inl err, w1)
      | (Inr resp, w1) \<Rightarrow>
          poll ctx c terminal message (mk resp) pollInterval timeout (now w1) w1)"


text \<open>The parameters of a list of optional entries that are present, in the order of the
  list; and the application of \<^const>\<open>set_if_present\<close> to each entry in turn.\<close>

definition present :: "(string \<times> string option) list \<Rightarrow> Values" where
  "present es = concat (map (\<lambda>(k, vo). case vo of Some x \<Rightarrow> [(k, [x])] | None \<Rightarrow> []) es)"

definition set_all :: "(string \<times> string option) list \<Rightarrow> Values \<Rightarrow> Values" where
  "set_all es params = foldl (\<lambda>p (k, vo). set_if_present k vo p) params es"

text \<open>The \<^verbatim>\<open>key=value\<close> text of one optional parameter: nothing when it is unset.\<close>

definition query_param :: "string \<Rightarrow> string option \<Rightarrow> string list" where
  "query_param key field =
     (case field of Some val \<Rightarrow> [key_value (QueryEscape key) val] | None \<Rightarrow> [])"

text \<open>The entries of \<^const>\<open>transform_params\<close> in the order of the source.\<close>

definition transform_entries :: "TransformOptions \<Rightarrow> (string \<times> string option) list" where
  "transform_entries options =
     [(''f'', Format options),
      (''q'', map_option Itoa (Quality options)),
      (''w'', map_option (\<lambda>width. Itoa (getNearestWidth width)) (Width options)),
      (''h'', map_option Itoa (Height options)),
      (''fit'', Fit options),
      (''crop'', Crop options),
      (''crop-x'', map_option Itoa (CropX options)),
      (''crop-y'', map_option Itoa (CropY options)),
      (''crop-w'', map_option Itoa (CropWidth options)),
      (''crop-h'', map_option Itoa (CropHeight options)),
      (''blur'', map_option Itoa (Blur options)),
      (''sharpen'', map_option Itoa (Sharpen options)),
      (''brightness'', map_option Itoa (Brightness options)),
      (''saturation'', map_option Itoa (Saturation options)),
      (''grayscale'', if Grayscale options then Some ''true'' else None),
      (''rotate'', map_option Itoa (Rotate options)),
      (''flip'', if Flip options then Some ''y'' else None),
      (''flop'', if Flop options then Some ''x'' else None)]"

text \<open>No transform option is set: every optional field is nil and every flag is false.\<close>

definition unset :: "TransformOptions \<Rightarrow> bool" where
  "unset options \<longleftrightarrow>
     Width options = None \<and> Height options = None \<and> Fit options = None
     \<and> Format options = None \<and> Quality options = None \<and> Crop options = None
     \<and> CropX options = None \<and> CropY options = None \<and> CropWidth options = None
     \<and> CropHeight options = None \<and> Blur options = None \<and> Sharpen options = None
     \<and> Brightness options = None \<and> Saturation options = None \<and> \<not> Grayscale options
     \<and> Rotate options = None \<and> \<not> Flip options \<and> \<not> Flop options"

text \<open>The parameters of a transform URL in the order of their keys.\<close>

definition transform_query :: "TransformOptions \<Rightarrow> string list" where
  "transform_query options =
     query_param ''blur'' (map_option Itoa (Blur options))
     @ query_param ''brightness'' (map_option Itoa (Brightness options))
     @ query_param ''crop'' (Crop options)
     @ query_param ''crop-h'' (map_option Itoa (CropHeight options))
     @ query_param ''crop-w'' (map_option Itoa (CropWidth options))
     @ query_param ''crop-x'' (map_option Itoa (CropX options))
     @ query_param ''crop-y'' (map_option Itoa (CropY options))
     @ query_param ''f'' (Format options)
     @ query_param ''fit'' (Fit options)
     @ query_param ''flip'' (if Flip options then Some ''y'' else None)
     @ query_param ''flop'' (if Flop options then Some ''x'' else None)
     @ query_param ''grayscale'' (if Grayscale options then Some ''true'' else None)
     @ query_param ''h'' (map_option Itoa (Height options))
     @ query_param ''q'' (map_option Itoa (Quality options))
     @ query_param ''rotate'' (map_option Itoa (Rotate options))
     @ query_param ''saturation'' (map_option Itoa (Saturation options))
     @ query_param ''sharpen'' (map_option Itoa (Sharpen options))
     @ query_param ''w'' (map_option (\<lambda>width. Itoa (getNearestWidth width)) (Width options))"




text \<open>A path with the encoded parameters after a question mark, when there are any.\<close>

definition with_query :: "string \<Rightarrow> Values \<Rightarrow> string" where
  "with_query path params =
     (if 0 < length params then path @ ''?'' @ Values_Encode params else path)"
section \<open>Properties of the nearest allowed width\<close>

lemma sint_sub_exact:
  fixes w x :: go_int
  assumes "0 \<le> sint w" "sint w \<le> 3840" "- (2 ^ 63) + 3840 < sint x"
  shows "sint (w - x) = sint w - sint x"
proof -
  have ub: "sint x < 2 ^ 63" using sint_lt [of x] by simp
  have "sint (w - x) = signed_take_bit 63 (sint w - sint x)"
    by (simp add: sint_word_ariths)
  also have "\<dots> = sint w - sint x"
    using assms ub by (intro signed_take_bit_int_eq_self) simp_all
  finally show ?thesis .
qed

lemma sint_abs_go:
  fixes y :: go_int
  assumes "- (2 ^ 63) < sint y"
  shows "sint (abs_go y) = \<bar>sint y\<bar>"
proof -
  have ub: "sint y < 2 ^ 63" using sint_lt [of y] by simp
  have "sint (- y) = signed_take_bit 63 (- sint y)"
    by (simp add: sint_word_ariths)
  also have "\<dots> = - sint y"
    using assms ub by (intro signed_take_bit_int_eq_self) simp_all
  finally show ?thesis
    by (simp add: abs_go_def word_sless_alt)
qed

lemma abs_sub_exact:
  assumes "small_width w" "safe_width x"
  shows "sint (abs_go (w - x)) = dist_to x w"
proof -
  have e: "sint (w - x) = sint w - sint x"
    using assms by (intro sint_sub_exact) (simp_all add: small_width_def safe_width_def)
  have "- (2 ^ 63) < sint (w - x)"
    using assms sint_lt [of x] by (simp add: e small_width_def safe_width_def)
  then show ?thesis
    by (simp add: sint_abs_go e dist_to_def)
qed

lemma nearer_exact:
  assumes "small_width w" "small_width n" "safe_width x"
  shows "nearer x w n = (if dist_to x w < dist_to x n then w else n)"
  using assms by (simp add: nearer_def word_sless_alt abs_sub_exact)

text \<open>The scan keeps the first of the nearest candidates; on an ascending list that is
  the smallest of them.\<close>

lemma fold_nearer:
  assumes "safe_width x" "\<forall>w \<in> set (n # ws). small_width w"
    and "sorted_wrt (\<lambda>a b. sint a \<le> sint b) (n # ws)"
  shows "fold (nearer x) ws n \<in> set (n # ws) \<and>
         (\<forall>w \<in> set (n # ws). dist_to x (fold (nearer x) ws n) \<le> dist_to x w \<and>
            (dist_to x w = dist_to x (fold (nearer x) ws n)
               \<longrightarrow> sint (fold (nearer x) ws n) \<le> sint w))"
  using assms
proof (induction ws arbitrary: n)
  case Nil
  then show ?case by simp
next
  case (Cons a ws)
  let ?n' = "nearer x a n"
  have n': "?n' = (if dist_to x a < dist_to x n then a else n)"
    using Cons.prems by (intro nearer_exact) simp_all
  have sm: "\<forall>w \<in> set (?n' # ws). small_width w"
    using Cons.prems(2) by (simp add: n')
  have so: "sorted_wrt (\<lambda>a b. sint a \<le> sint b) (?n' # ws)"
    using Cons.prems(3) by (auto simp: n')
  note IH = Cons.IH [OF Cons.prems(1) sm so]
  let ?r = "fold (nearer x) ws ?n'"
  have r_in: "?r \<in> set (?n' # ws)" using IH by blast
  have r_n': "dist_to x ?r \<le> dist_to x ?n'"
    "dist_to x ?n' = dist_to x ?r \<Longrightarrow> sint ?r \<le> sint ?n'"
    using IH by simp_all
  have r_ws: "\<And>w. w \<in> set ws \<Longrightarrow>
      dist_to x ?r \<le> dist_to x w \<and> (dist_to x w = dist_to x ?r \<longrightarrow> sint ?r \<le> sint w)"
    using IH by simp
  have na: "sint n \<le> sint a" using Cons.prems(3) by simp
  have r_n: "dist_to x ?r \<le> dist_to x n \<and> (dist_to x n = dist_to x ?r \<longrightarrow> sint ?r \<le> sint n)"
    using r_n' by (auto simp: n' split: if_splits)
  have r_a: "dist_to x ?r \<le> dist_to x a \<and> (dist_to x a = dist_to x ?r \<longrightarrow> sint ?r \<le> sint a)"
    using r_n' na by (auto simp: n' split: if_splits)
  have mem: "?r \<in> set (n # a # ws)"
    using r_in by (auto simp: n' split: if_splits)
  show ?case
    using mem r_n r_a r_ws by auto
qed

lemma AllowedWidths_small: "\<forall>w \<in> set (AllowedWidths ! 0 # AllowedWidths). small_width w"
  by (simp add: AllowedWidths_def small_width_def)

lemma AllowedWidths_sorted:
  "sorted_wrt (\<lambda>a b. sint a \<le> sint b) (AllowedWidths ! 0 # AllowedWidths)"
  by (simp add: AllowedWidths_def)

text \<open>Whatever the input, the scan returns one of the allowed widths: each step keeps
  the current candidate or takes the next one.\<close>

lemma fold_nearer_member: "fold (nearer x) ws n \<in> set (n # ws)"
proof (induction ws arbitrary: n)
  case Nil
  then show ?case by simp
next
  case (Cons a ws)
  have step: "nearer x a n = a \<or> nearer x a n = n" by (simp add: nearer_def)
  have "fold (nearer x) ws (nearer x a n) \<in> set (nearer x a n # ws)" by (rule Cons.IH)
  then have "fold (nearer x) ws (nearer x a n) \<in> set (n # a # ws)"
    using step by auto
  then show ?case by simp
qed

lemma getNearestWidth_member: "getNearestWidth width \<in> set AllowedWidths"
proof -
  have "getNearestWidth width \<in> set (AllowedWidths ! 0 # AllowedWidths)"
    unfolding getNearestWidth_def by (rule fold_nearer_member)
  then show ?thesis by (simp add: AllowedWidths_def)
qed

text \<open>
  For every width above \<open>- 2^63 + 3840\<close> (so for every non-negative width) no
  subtraction overflows, and \<^const>\<open>getNearestWidth\<close> returns a member of the fixed list
  that minimises the absolute difference to the input, ties going to the smaller value;
  and \<open>getNearestWidth 100 = 256\<close>, \<open>getNearestWidth 1100 = 1080\<close>,
  \<open>getNearestWidth 4000 = 3840\<close>.
\<close>

lemma getNearestWidth_nearest:
  assumes "- (2 ^ 63) + 3840 < sint width"
  shows "getNearestWidth width \<in> set AllowedWidths \<and>
         (\<forall>w \<in> set AllowedWidths.
            \<bar>sint (getNearestWidth width) - sint width\<bar> \<le> \<bar>sint w - sint width\<bar> \<and>
            (\<bar>sint w - sint width\<bar> = \<bar>sint (getNearestWidth width) - sint width\<bar>
               \<longrightarrow> sint (getNearestWidth width) \<le> sint w)) \<and>
         getNearestWidth 100 = 256 \<and> getNearestWidth 1100 = 1080 \<and>
         getNearestWidth 4000 = 3840"
proof -
  have sw: "safe_width width" using assms by (simp add: safe_width_def)
  have ex: "getNearestWidth 100 = 256 \<and> getNearestWidth 1100 = 1080 \<and>
            getNearestWidth 4000 = 3840"
    by (simp add: getNearestWidth_def AllowedWidths_def nearer_def abs_go_def word_sless_alt)
  have hd_in: "AllowedWidths ! 0 \<in> set AllowedWidths" by (simp add: AllowedWidths_def)
  from fold_nearer [OF sw AllowedWidths_small AllowedWidths_sorted] hd_in ex
  show ?thesis
    unfolding getNearestWidth_def [symmetric] dist_to_def by auto
qed

text \<open>Width 320 is equally far from 256 and 384; the smaller one is returned.\<close>

lemma getNearestWidth_tie: "getNearestWidth 320 = 256"
  by (simp add: getNearestWidth_def AllowedWidths_def nearer_def abs_go_def word_sless_alt)

text \<open>
  Claim C5: for every integer input \<^verbatim>\<open>getNearestWidth\<close> returns a member of the fixed list
  that minimises the absolute difference to the input. The code computes the distance as
  \<^verbatim>\<open>abs(w-width)\<close> in 64-bit arithmetic, which wraps around for the most negative
  widths. At the least 64-bit integer the result is 3840, the member farthest from the
  input, although 256 is a member and strictly nearer. The result is still a member of
  the list (\<open>getNearestWidth_member\<close>), and on every width above \<open>- 2^63 + 3840\<close> the
  function does what the claim says (\<open>getNearestWidth_nearest\<close>).
\<close>

theorem getNearestWidth_at_least_int:
  "getNearestWidth (- 9223372036854775808) = 3840 \<and>
   (256 :: go_int) \<in> set AllowedWidths \<and>
   \<bar>sint (256 :: go_int) - sint (- 9223372036854775808 :: go_int)\<bar>
     < \<bar>sint (getNearestWidth (- 9223372036854775808)) - sint (- 9223372036854775808 :: go_int)\<bar>"
proof -
  have r: "getNearestWidth (- 9223372036854775808) = 3840"
    by (simp add: getNearestWidth_def AllowedWidths_def nearer_def abs_go_def word_sless_alt)
  show ?thesis
    unfolding r by (simp add: AllowedWidths_def)
qed
section \<open>Properties of the async-wait helpers\<close>

lemma select_wait_None:
  "select_wait ctx d w = (None, w2) \<Longrightarrow>
     now w2 = now w + max 0 d \<and> starts w2 = starts w \<and> gets w2 = gets w"
  by (auto simp: select_wait_def split: option.splits if_splits)

lemma select_wait_Some:
  "select_wait ctx d w = (Some e, w2) \<Longrightarrow>
     Done_at ctx \<noteq> None \<and> e = Err ctx \<and> now w \<le> now w2 \<and> starts w2 = starts w \<and> gets w2 = gets w"
  by (auto simp: select_wait_def split: option.splits if_splits)

lemma call_get_fields:
  "call_get srv greq w = (r, w1) \<Longrightarrow>
     now w \<le> now w1 \<and> starts w1 = starts w \<and> gets w1 = gets w @ [greq]"
  by (auto simp: call_get_def)

lemma call_get_reply:
  "call_get srv greq w = (r, w1) \<Longrightarrow> get_reply srv (length (gets w)) greq = r"
  by (auto simp: call_get_def)

text \<open>With a positive poll interval every run of the loop returns, and a property of its
  result can be shown by following the loop.\<close>

lemma poll_cases:
  assumes pos: "0 < sint pollInterval"
    and expired: "\<And>w. \<not> now w - startTime < sint timeout \<Longrightarrow> P w (Inl (TimeoutError message)) w"
    and get_failed: "\<And>w e w1. now w - startTime < sint timeout \<Longrightarrow>
        call_get srv greq w = (Inl e, w1) \<Longrightarrow> P w (Inl e) w1"
    and finished: "\<And>w job w1 r. now w - startTime < sint timeout \<Longrightarrow>
        call_get srv greq w = (Inr job, w1) \<Longrightarrow> terminal job = Some r \<Longrightarrow> P w r w1"
    and cancelled: "\<And>w job w1 e w2. now w - startTime < sint timeout \<Longrightarrow>
        call_get srv greq w = (Inr job, w1) \<Longrightarrow> terminal job = None \<Longrightarrow>
        select_wait ctx (sint pollInterval) w1 = (Some e, w2) \<Longrightarrow> P w (Inl (ContextError e)) w2"
    and again: "\<And>w job w1 w2 res w'. now w - startTime < sint timeout \<Longrightarrow>
        call_get srv greq w = (Inr job, w1) \<Longrightarrow> terminal job = None \<Longrightarrow>
        select_wait ctx (sint pollInterval) w1 = (None, w2) \<Longrightarrow>
        poll ctx srv terminal message greq pollInterval timeout startTime w2 = Some (res, w') \<Longrightarrow>
        P w2 res w' \<Longrightarrow> P w res w'"
  shows "\<exists>res w'. poll ctx srv terminal message greq pollInterval timeout startTime w = Some (res, w')
           \<and> P w res w'"
proof (induction "nat (sint timeout - (now w - startTime))" arbitrary: w rule: less_induct)
  case less
  show ?case
  proof (cases "now w - startTime < sint timeout")
    case False
    then show ?thesis using expired [OF False]
      by (subst poll.simps) (simp add: NewTimeoutError_def)
  next
    case True
    obtain r w1 where g: "call_get srv greq w = (r, w1)" by (cases "call_get srv greq w")
    note gf = call_get_fields [OF g]
    show ?thesis
    proof (cases r)
      case (Inl e)
      then show ?thesis using True g get_failed [OF True, of e w1]
        by (subst poll.simps) simp
    next
      case (Inr job)
      show ?thesis
      proof (cases "terminal job")
        case (Some r')
        then show ?thesis using True g Inr finished [OF True, of job w1 r']
          by (subst poll.simps) simp
      next
        case None
        obtain s w2 where sw: "select_wait ctx (sint pollInterval) w1 = (s, w2)"
          by (cases "select_wait ctx (sint pollInterval) w1")
        show ?thesis
        proof (cases s)
          case (Some e)
          then show ?thesis using True g Inr None sw cancelled [OF True, of job w1 e w2]
            by (subst poll.simps) simp
        next
          case None2: None
          have "now w2 = now w1 + max 0 (sint pollInterval)"
            using select_wait_None sw None2 by blast
          then have "now w < now w2" using gf pos by simp
          then have "nat (sint timeout - (now w2 - startTime))
              < nat (sint timeout - (now w - startTime))"
            using True by simp
          from less [OF this] obtain res w' where
            p: "poll ctx srv terminal message greq pollInterval timeout startTime w2 = Some (res, w')"
            and P: "P w2 res w'" by blast
          have "P w res w'"
            using again [OF True _ None _ p P] g Inr sw None2 by simp
          then show ?thesis using True g Inr None sw None2 p
            by (subst poll.simps) simp
        qed
      qed
    qed
  qed
qed

lemma polled_one: "gets w1 = gets w @ [g] \<Longrightarrow> polled w w1 k \<longleftrightarrow> k = length (gets w)"
  by (auto simp: polled_def)

lemma polled_same: "gets w' = gets w \<Longrightarrow> \<not> polled w w' k"
  by (auto simp: polled_def)

lemma polled_none: "\<not> polled w w k"
  by (simp add: polled_def)

lemma polled_step:
  "length (gets w2) = Suc (length (gets w)) \<Longrightarrow> polled w w' k \<Longrightarrow> k \<noteq> length (gets w) \<Longrightarrow> polled w2 w' k"
  by (auto simp: polled_def)

lemma never_terminal_first:
  "never_terminal srv terminal greq k0 \<Longrightarrow> \<exists>job. get_reply srv k0 greq = Inr job \<and> terminal job = None"
  by (simp add: never_terminal_def)

lemma never_terminal_Suc:
  "never_terminal srv terminal greq k0 \<Longrightarrow> never_terminal srv terminal greq (Suc k0)"
  by (simp add: never_terminal_def)

lemma poll_run:
  assumes pos: "0 < sint pollInterval"
  shows "\<exists>res w'. poll ctx srv terminal message greq pollInterval timeout startTime w = Some (res, w')
    \<and> (starts w' = starts w \<and> (\<exists>n. gets w' = gets w @ replicate n greq)
    \<and> (\<forall>k e. polled w w' k \<and> get_reply srv k greq = Inl e
          \<longrightarrow> res = Inl e \<and> length (gets w') = Suc k)
    \<and> (\<forall>k job r. polled w w' k \<and> get_reply srv k greq = Inr job \<and> terminal job = Some r
          \<longrightarrow> res = r \<and> length (gets w') = Suc k)
    \<and> (never_terminal srv terminal greq (length (gets w)) \<and> Done_at ctx = None
          \<longrightarrow> res = Inl (TimeoutError message) \<and> sint timeout \<le> now w' - startTime))"
proof (rule poll_cases [OF pos], goal_cases)
  case (1 w)
  have "gets w = gets w @ replicate 0 greq" by simp
  then have rep: "\<exists>n. gets w = gets w @ replicate n greq" ..
  show ?case using 1 rep by (simp add: polled_none)
next
  case (2 w e w1)
  note gf = call_get_fields [OF 2(2)]
  have one: "\<And>k. polled w w1 k \<longleftrightarrow> k = length (gets w)"
    by (rule polled_one [of w1 w greq]) (simp add: gf)
  have k0: "get_reply srv (length (gets w)) greq = Inl e" using call_get_reply [OF 2(2)] .
  have nt: "\<not> never_terminal srv terminal greq (length (gets w))"
  proof
    assume "never_terminal srv terminal greq (length (gets w))"
    from never_terminal_first [OF this] k0 show False by simp
  qed
  have "gets w1 = gets w @ replicate (Suc 0) greq" using gf by simp
  then have rep: "\<exists>n. gets w1 = gets w @ replicate n greq" ..
  show ?case using gf k0 nt rep by (simp add: one)
next
  case (3 w job w1 r)
  note gf = call_get_fields [OF 3(2)]
  have one: "\<And>k. polled w w1 k \<longleftrightarrow> k = length (gets w)"
    by (rule polled_one [of w1 w greq]) (simp add: gf)
  have k0: "get_reply srv (length (gets w)) greq = Inr job" using call_get_reply [OF 3(2)] .
  have nt: "\<not> never_terminal srv terminal greq (length (gets w))"
  proof
    assume "never_terminal srv terminal greq (length (gets w))"
    from never_terminal_first [OF this] k0 3(3) show False by simp
  qed
  have "gets w1 = gets w @ replicate (Suc 0) greq" using gf by simp
  then have rep: "\<exists>n. gets w1 = gets w @ replicate n greq" ..
  show ?case using gf k0 nt 3(3) rep by (simp add: one)
next
  case (4 w job w1 e w2)
  note gf = call_get_fields [OF 4(2)] and sf = select_wait_Some [OF 4(4)]
  have one: "\<And>k. polled w w2 k \<longleftrightarrow> k = length (gets w)"
    by (rule polled_one [of w2 w greq]) (simp add: gf sf)
  have k0: "get_reply srv (length (gets w)) greq = Inr job" using call_get_reply [OF 4(2)] .
  have "gets w2 = gets w @ replicate (Suc 0) greq" using gf sf by simp
  then have rep: "\<exists>n. gets w2 = gets w @ replicate n greq" ..
  show ?case using gf sf k0 4(3) rep by (simp add: one)
next
  case (5 w job w1 w2 res w')
  note gf = call_get_fields [OF 5(2)] and sf = select_wait_None [OF 5(4)]
  have len: "length (gets w2) = Suc (length (gets w))" using gf sf by simp
  have k0: "get_reply srv (length (gets w)) greq = Inr job" using call_get_reply [OF 5(2)] .
  note IH = 5(6)
  show ?case
  proof (intro conjI allI impI)
    show "starts w' = starts w" using IH gf sf by simp
    from IH obtain n where "gets w' = gets w2 @ replicate n greq" by blast
    then have "gets w' = gets w @ replicate (Suc n) greq" using gf sf by simp
    then show "\<exists>n. gets w' = gets w @ replicate n greq" ..
  next
    fix k e
    assume a: "polled w w' k \<and> get_reply srv k greq = Inl e"
    then have "k \<noteq> length (gets w)" using k0 by auto
    then have b: "polled w2 w' k \<and> get_reply srv k greq = Inl e"
      using a polled_step [OF len, of w' k] by simp
    from IH have "\<forall>k e. polled w2 w' k \<and> get_reply srv k greq = Inl e
          \<longrightarrow> res = Inl e \<and> length (gets w') = Suc k" by (elim conjE)
    with b show "res = Inl e" "length (gets w') = Suc k" by blast+
  next
    fix k job' r
    assume a: "polled w w' k \<and> get_reply srv k greq = Inr job' \<and> terminal job' = Some r"
    then have "k \<noteq> length (gets w)" using k0 5(3) by auto
    then have b: "polled w2 w' k \<and> get_reply srv k greq = Inr job' \<and> terminal job' = Some r"
      using a polled_step [OF len, of w' k] by simp
    from IH have "\<forall>k job r. polled w2 w' k \<and> get_reply srv k greq = Inr job \<and> terminal job = Some r
          \<longrightarrow> res = r \<and> length (gets w') = Suc k" by (elim conjE)
    with b show "res = r" "length (gets w') = Suc k" by blast+
  next
    assume a: "never_terminal srv terminal greq (length (gets w)) \<and> Done_at ctx = None"
    then have b: "never_terminal srv terminal greq (length (gets w2)) \<and> Done_at ctx = None"
      using never_terminal_Suc [of srv terminal greq "length (gets w)"] by (simp add: len)
    from IH have "never_terminal srv terminal greq (length (gets w2)) \<and> Done_at ctx = None
          \<longrightarrow> res = Inl (TimeoutError message) \<and> sint timeout \<le> now w' - startTime" by (elim conjE)
    with b show "res = Inl (TimeoutError message)" "sint timeout \<le> now w' - startTime"
      by blast+
  qed
qed


lemma polled_nth:
  assumes "gets w' = gets w @ replicate n greq" "polled w w' k"
  shows "gets w' ! k = greq"
proof -
  have "k - length (gets w) < n" using assms by (auto simp: polled_def)
  then show ?thesis using assms by (simp add: polled_def nth_append)
qed

lemma start_then_poll_run:
  assumes pos: "0 < sint pollInterval"
  shows "\<exists>res w'. start_then_poll ctx c terminal message mk pollInterval timeout req w = Some (res, w')
    \<and> starts w' = Suc (starts w)
    \<and> (\<forall>e. start_reply c req = Inl e \<longrightarrow> res = Inl e \<and> gets w' = gets w)
    \<and> (\<forall>k e. polled w w' k \<and> get_reply c k (gets w' ! k) = Inl e
          \<longrightarrow> res = Inl e \<and> length (gets w') = Suc k)
    \<and> (\<forall>k job r. polled w w' k \<and> get_reply c k (gets w' ! k) = Inr job \<and> terminal job = Some r
          \<longrightarrow> res = r \<and> length (gets w') = Suc k)
    \<and> ((\<exists>resp. start_reply c req = Inr resp)
         \<and> (\<forall>k g. \<exists>job. get_reply c k g = Inr job \<and> terminal job = None)
         \<and> Done_at ctx = None
          \<longrightarrow> res = Inl (TimeoutError message)
              \<and> sint timeout \<le> now w' - (now w + int (start_nanos c)))"
proof (cases "start_reply c req")
  case (Inl e)
  have np: "\<And>k. \<not> polled w (w\<lparr>now := now w + int (start_nanos c), starts := Suc (starts w)\<rparr>) k"
    by (rule polled_same) simp
  show ?thesis using Inl
    by (simp add: start_then_poll_def call_start_def np)
next
  case (Inr resp)
  define w1 where "w1 = w\<lparr>now := now w + int (start_nanos c), starts := Suc (starts w)\<rparr>"
  have cs: "call_start c req w = (Inr resp, w1)"
    by (simp add: call_start_def Inr w1_def)
  have w1: "gets w1 = gets w" "starts w1 = Suc (starts w)" "now w1 = now w + int (start_nanos c)"
    by (simp_all add: w1_def)
  from poll_run [OF pos, of ctx c terminal message "mk resp" timeout "now w1" w1]
  obtain res w' where
    p: "poll ctx c terminal message (mk resp) pollInterval timeout (now w1) w1 = Some (res, w')"
    and st: "starts w' = starts w1"
    and rep: "\<exists>n. gets w' = gets w1 @ replicate n (mk resp)"
    and ge: "\<forall>k e. polled w1 w' k \<and> get_reply c k (mk resp) = Inl e
          \<longrightarrow> res = Inl e \<and> length (gets w') = Suc k"
    and gt: "\<forall>k job r. polled w1 w' k \<and> get_reply c k (mk resp) = Inr job \<and> terminal job = Some r
          \<longrightarrow> res = r \<and> length (gets w') = Suc k"
    and to: "never_terminal c terminal (mk resp) (length (gets w1)) \<and> Done_at ctx = None
          \<longrightarrow> res = Inl (TimeoutError message) \<and> sint timeout \<le> now w' - now w1"
    by blast
  from rep obtain n where n: "gets w' = gets w @ replicate n (mk resp)" using w1 by auto
  have pw: "\<And>k. polled w w' k = polled w1 w' k" by (simp add: polled_def w1)
  have nth: "\<And>k. polled w w' k \<Longrightarrow> gets w' ! k = mk resp"
    using polled_nth [OF n] .
  have run: "start_then_poll ctx c terminal message mk pollInterval timeout req w = Some (res, w')"
    by (simp add: start_then_poll_def cs p)
  show ?thesis
  proof (intro exI conjI allI impI)
    show "start_then_poll ctx c terminal message mk pollInterval timeout req w = Some (res, w')"
      by (rule run)
    show "starts w' = Suc (starts w)" using st w1 by simp
  next
    fix e assume "start_reply c req = Inl e"
    then show "res = Inl e" "gets w' = gets w" using Inr by simp_all
  next
    fix k e assume a: "polled w w' k \<and> get_reply c k (gets w' ! k) = Inl e"
    then have "gets w' ! k = mk resp" using nth by blast
    with a have "polled w1 w' k \<and> get_reply c k (mk resp) = Inl e" using pw by simp
    with ge show "res = Inl e" "length (gets w') = Suc k" by blast+
  next
    fix k job r
    assume a: "polled w w' k \<and> get_reply c k (gets w' ! k) = Inr job \<and> terminal job = Some r"
    then have "gets w' ! k = mk resp" using nth by blast
    with a have "polled w1 w' k \<and> get_reply c k (mk resp) = Inr job \<and> terminal job = Some r"
      using pw by simp
    with gt show "res = r" "length (gets w') = Suc k" by blast+
  next
    assume a: "(\<exists>resp. start_reply c req = Inr resp)
         \<and> (\<forall>k g. \<exists>job. get_reply c k g = Inr job \<and> terminal job = None)
         \<and> Done_at ctx = None"
    then have "never_terminal c terminal (mk resp) (length (gets w1))"
      by (simp add: never_terminal_def)
    with to a have "res = Inl (TimeoutError message) \<and> sint timeout \<le> now w' - now w1" by blast
    then show "res = Inl (TimeoutError message)" "sint timeout \<le> now w' - (now w + int (start_nanos c))"
      using w1 by simp_all
  qed
qed

lemma ExtractAndWait_shape:
  "ExtractAndWait ctx c req opts w =
     start_then_poll ctx c ExtractAndWait_terminal ''Extraction timed out''
       (\<lambda>resp. \<lparr>GetExtractionRequest.ID = CreateExtractionResponse.ID resp,
                  GetExtractionRequest.Environment = CreateExtractionRequest.Environment req,
                  GetExtractionRequest.ProjectID = CreateExtractionRequest.ProjectID req\<rparr>)
       (fst (ExtractAndWait_durations opts)) (snd (ExtractAndWait_durations opts)) req w"
  by (cases "ExtractAndWait_durations opts") (simp add: ExtractAndWait_def start_then_poll_def)

lemma ExtractAndWait_durations_pos: "0 < sint (fst (ExtractAndWait_durations opts))"
  by (simp add: ExtractAndWait_durations_def Second_def word_sless_alt split: option.splits)

lemma CaptureAndWait_shape:
  "CaptureAndWait ctx c req opts w =
     start_then_poll ctx c CaptureAndWait_terminal ''Screenshot timed out''
       (\<lambda>resp. \<lparr>GetScreenshotRequest.ID = CreateScreenshotResponse.ID resp,
                  GetScreenshotRequest.Environment = CreateScreenshotRequest.Environment req,
                  GetScreenshotRequest.ProjectID = CreateScreenshotRequest.ProjectID req\<rparr>)
       (fst (CaptureAndWait_durations opts)) (snd (CaptureAndWait_durations opts)) req w"
  by (cases "CaptureAndWait_durations opts") (simp add: CaptureAndWait_def start_then_poll_def)

lemma CaptureAndWait_durations_pos: "0 < sint (fst (CaptureAndWait_durations opts))"
  by (simp add: CaptureAndWait_durations_def Second_def word_sless_alt split: option.splits)

lemma extraction_BatchAndWait_shape:
  "extraction_BatchAndWait ctx c req opts w =
     start_then_poll ctx c extraction_BatchAndWait_terminal ''Batch job timed out''
       (\<lambda>resp. \<lparr>extraction_GetBatchJobRequest.ID = extraction_CreateBatchResponse.ID resp,
                  extraction_GetBatchJobRequest.Environment =
                    CreateBatchExtractionsRequest.Environment req,
                  extraction_GetBatchJobRequest.ProjectID =
                    CreateBatchExtractionsRequest.ProjectID req\<rparr>)
       (fst (extraction_BatchAndWait_durations opts))
       (snd (extraction_BatchAndWait_durations opts)) req w"
  by (cases "extraction_BatchAndWait_durations opts")
    (simp add: extraction_BatchAndWait_def start_then_poll_def)

lemma extraction_BatchAndWait_durations_pos:
  "0 < sint (fst (extraction_BatchAndWait_durations opts))"
  by (simp add: extraction_BatchAndWait_durations_def Second_def word_sless_alt
      split: option.splits)

lemma screenshots_BatchAndWait_shape:
  "screenshots_BatchAndWait ctx c req opts w =
     start_then_poll ctx c screenshots_BatchAndWait_terminal ''Batch job timed out''
       (\<lambda>resp. \<lparr>screenshots_GetBatchJobRequest.ID = screenshots_CreateBatchResponse.ID resp,
                  screenshots_GetBatchJobRequest.Environment =
                    CreateBatchScreenshotsRequest.Environment req,
                  screenshots_GetBatchJobRequest.ProjectID =
                    CreateBatchScreenshotsRequest.ProjectID req\<rparr>)
       (fst (screenshots_BatchAndWait_durations opts))
       (snd (screenshots_BatchAndWait_durations opts)) req w"
  by (cases "screenshots_BatchAndWait_durations opts")
    (simp add: screenshots_BatchAndWait_def start_then_poll_def)

lemma screenshots_BatchAndWait_durations_pos:
  "0 < sint (fst (screenshots_BatchAndWait_durations opts))"
  by (simp add: screenshots_BatchAndWait_durations_def Second_def word_sless_alt
      split: option.splits)

text \<open>The parts of the run lemma that the single claims use.\<close>

lemma start_then_poll_errors:
  assumes pos: "0 < sint pollInterval"
  shows "\<exists>res w'. start_then_poll ctx c terminal message mk pollInterval timeout req w = Some (res, w')
    \<and> starts w' = Suc (starts w)
    \<and> (\<forall>e. start_reply c req = Inl e \<longrightarrow> res = Inl e \<and> gets w' = gets w)
    \<and> (\<forall>k e. polled w w' k \<and> get_reply c k (gets w' ! k) = Inl e
          \<longrightarrow> res = Inl e \<and> length (gets w') = Suc k)"
proof -
  from start_then_poll_run [OF pos, of ctx c terminal message mk timeout req w]
  obtain res w' where
    "start_then_poll ctx c terminal message mk pollInterval timeout req w = Some (res, w')"
    "starts w' = Suc (starts w)"
    "\<forall>e. start_reply c req = Inl e \<longrightarrow> res = Inl e \<and> gets w' = gets w"
    "\<forall>k e. polled w w' k \<and> get_reply c k (gets w' ! k) = Inl e
          \<longrightarrow> res = Inl e \<and> length (gets w') = Suc k"
    by (elim exE conjE)
  then show ?thesis by (intro exI conjI)
qed

lemma start_then_poll_terminal:
  assumes pos: "0 < sint pollInterval"
  shows "\<exists>res w'. start_then_poll ctx c terminal message mk pollInterval timeout req w = Some (res, w')
    \<and> (\<forall>k job r. polled w w' k \<and> get_reply c k (gets w' ! k) = Inr job \<and> terminal job = Some r
          \<longrightarrow> res = r \<and> length (gets w') = Suc k)"
proof -
  from start_then_poll_run [OF pos, of ctx c terminal message mk timeout req w]
  obtain res w' where
    "start_then_poll ctx c terminal message mk pollInterval timeout req w = Some (res, w')"
    "\<forall>k job r. polled w w' k \<and> get_reply c k (gets w' ! k) = Inr job \<and> terminal job = Some r
          \<longrightarrow> res = r \<and> length (gets w') = Suc k"
    by (elim exE conjE)
  then show ?thesis by (intro exI conjI)
qed


text \<open>
  C1. Every invocation of \<^verbatim>\<open>ExtractAndWait\<close>, \<^verbatim>\<open>CaptureAndWait\<close> and the two
  \<^verbatim>\<open>BatchAndWait\<close> returns, having made exactly one start call. If the start call
  returns an error, that error is the result and no get call is made. If a get call of the
  run returns an error, that error is the result and that call is the last one of the run.
\<close>

theorem AndWait_errors_propagate:
  "(\<exists>res w'. ExtractAndWait ctx1 c1 req1 opts1 w1 = Some (res, w')
      \<and> starts w' = Suc (starts w1)
      \<and> (\<forall>e. start_reply c1 req1 = Inl e \<longrightarrow> res = Inl e \<and> gets w' = gets w1)
      \<and> (\<forall>k e. polled w1 w' k \<and> get_reply c1 k (gets w' ! k) = Inl e
            \<longrightarrow> res = Inl e \<and> length (gets w') = Suc k))
   \<and> (\<exists>res w'. CaptureAndWait ctx2 c2 req2 opts2 w2 = Some (res, w')
      \<and> starts w' = Suc (starts w2)
      \<and> (\<forall>e. start_reply c2 req2 = Inl e \<longrightarrow> res = Inl e \<and> gets w' = gets w2)
      \<and> (\<forall>k e. polled w2 w' k \<and> get_reply c2 k (gets w' ! k) = Inl e
            \<longrightarrow> res = Inl e \<and> length (gets w') = Suc k))
   \<and> (\<exists>res w'. extraction_BatchAndWait ctx3 c3 req3 opts3 w3 = Some (res, w')
      \<and> starts w' = Suc (starts w3)
      \<and> (\<forall>e. start_reply c3 req3 = Inl e \<longrightarrow> res = Inl e \<and> gets w' = gets w3)
      \<and> (\<forall>k e. polled w3 w' k \<and> get_reply c3 k (gets w' ! k) = Inl e
            \<longrightarrow> res = Inl e \<and> length (gets w') = Suc k))
   \<and> (\<exists>res w'. screenshots_BatchAndWait ctx4 c4 req4 opts4 w4 = Some (res, w')
      \<and> starts w' = Suc (starts w4)
      \<and> (\<forall>e. start_reply c4 req4 = Inl e \<longrightarrow> res = Inl e \<and> gets w' = gets w4)
      \<and> (\<forall>k e. polled w4 w' k \<and> get_reply c4 k (gets w' ! k) = Inl e
            \<longrightarrow> res = Inl e \<and> length (gets w') = Suc k))"
  unfolding ExtractAndWait_shape CaptureAndWait_shape extraction_BatchAndWait_shape
    screenshots_BatchAndWait_shape
  by (intro conjI start_then_poll_errors ExtractAndWait_durations_pos
      CaptureAndWait_durations_pos extraction_BatchAndWait_durations_pos
      screenshots_BatchAndWait_durations_pos)



lemma start_then_poll_terminal_as:
  assumes pos: "0 < sint pollInterval"
    and tmn: "\<And>job. Q job \<Longrightarrow> terminal job = Some (R job)"
  shows "\<exists>res w'. start_then_poll ctx c terminal message mk pollInterval timeout req w = Some (res, w')
    \<and> (\<forall>k job. polled w w' k \<and> get_reply c k (gets w' ! k) = Inr job \<and> Q job
          \<longrightarrow> res = R job \<and> length (gets w') = Suc k)"
proof -
  from start_then_poll_terminal [OF pos, of ctx c terminal message mk timeout req w]
  obtain res w' where
    r: "start_then_poll ctx c terminal message mk pollInterval timeout req w = Some (res, w')"
    and t: "\<forall>k job r. polled w w' k \<and> get_reply c k (gets w' ! k) = Inr job \<and> terminal job = Some r
          \<longrightarrow> res = r \<and> length (gets w') = Suc k"
    by blast
  have "\<forall>k job. polled w w' k \<and> get_reply c k (gets w' ! k) = Inr job \<and> Q job
          \<longrightarrow> res = R job \<and> length (gets w') = Suc k"
  proof (intro allI impI)
    fix k job
    assume a: "polled w w' k \<and> get_reply c k (gets w' ! k) = Inr job \<and> Q job"
    then have "terminal job = Some (R job)" using tmn by blast
    with a t show "res = R job \<and> length (gets w') = Suc k" by blast
  qed
  with r show ?thesis by blast
qed

lemma extraction_BatchAndWait_terminal_Some:
  "BatchExtractionJob.Status job = ''completed'' \<or> BatchExtractionJob.Status job = ''failed''
     \<or> BatchExtractionJob.Status job = ''cancelled''
   \<Longrightarrow> extraction_BatchAndWait_terminal job = Some (Inr job)"
  by (auto simp: extraction_BatchAndWait_terminal_def BatchJobStatusCompleted_def
      BatchJobStatusFailed_def BatchJobStatusCancelled_def)

lemma screenshots_BatchAndWait_terminal_Some:
  "BatchScreenshotJob.Status job = ''completed'' \<or> BatchScreenshotJob.Status job = ''failed''
     \<or> BatchScreenshotJob.Status job = ''cancelled''
   \<Longrightarrow> screenshots_BatchAndWait_terminal job = Some (Inr job)"
  by (auto simp: screenshots_BatchAndWait_terminal_def BatchJobStatusCompleted_def
      BatchJobStatusFailed_def BatchJobStatusCancelled_def)

text \<open>
  C2. In every run of the two batch pollers, a polled batch job whose status is
  "completed", "failed" or "cancelled" is returned as it is, without an error, and ends
  the run.
\<close>

theorem BatchAndWait_returns_terminal_job:
  "(\<exists>res w'. extraction_BatchAndWait ctx1 c1 req1 opts1 w1 = Some (res, w')
      \<and> (\<forall>k job. polled w1 w' k \<and> get_reply c1 k (gets w' ! k) = Inr job
              \<and> (BatchExtractionJob.Status job = ''completed''
                 \<or> BatchExtractionJob.Status job = ''failed''
                 \<or> BatchExtractionJob.Status job = ''cancelled'')
            \<longrightarrow> res = Inr job \<and> length (gets w') = Suc k))
   \<and> (\<exists>res w'. screenshots_BatchAndWait ctx2 c2 req2 opts2 w2 = Some (res, w')
      \<and> (\<forall>k job. polled w2 w' k \<and> get_reply c2 k (gets w' ! k) = Inr job
              \<and> (BatchScreenshotJob.Status job = ''completed''
                 \<or> BatchScreenshotJob.Status job = ''failed''
                 \<or> BatchScreenshotJob.Status job = ''cancelled'')
            \<longrightarrow> res = Inr job \<and> length (gets w') = Suc k))"
  unfolding extraction_BatchAndWait_shape screenshots_BatchAndWait_shape
proof (rule conjI)
  show "\<exists>res w'. start_then_poll ctx1 c1 extraction_BatchAndWait_terminal ''Batch job timed out''
      (\<lambda>resp. \<lparr>extraction_GetBatchJobRequest.ID = extraction_CreateBatchResponse.ID resp,
                  extraction_GetBatchJobRequest.Environment =
                    CreateBatchExtractionsRequest.Environment req1,
                  extraction_GetBatchJobRequest.ProjectID =
                    CreateBatchExtractionsRequest.ProjectID req1\<rparr>)
      (fst (extraction_BatchAndWait_durations opts1))
      (snd (extraction_BatchAndWait_durations opts1)) req1 w1 = Some (res, w')
      \<and> (\<forall>k job. polled w1 w' k \<and> get_reply c1 k (gets w' ! k) = Inr job
              \<and> (BatchExtractionJob.Status job = ''completed''
                 \<or> BatchExtractionJob.Status job = ''failed''
                 \<or> BatchExtractionJob.Status job = ''cancelled'')
            \<longrightarrow> res = Inr job \<and> length (gets w') = Suc k)"
    by (rule start_then_poll_terminal_as [OF extraction_BatchAndWait_durations_pos,
          where R = Inr]) (rule extraction_BatchAndWait_terminal_Some)
  show "\<exists>res w'. start_then_poll ctx2 c2 screenshots_BatchAndWait_terminal ''Batch job timed out''
      (\<lambda>resp. \<lparr>screenshots_GetBatchJobRequest.ID = screenshots_CreateBatchResponse.ID resp,
                  screenshots_GetBatchJobRequest.Environment =
                    CreateBatchScreenshotsRequest.Environment req2,
                  screenshots_GetBatchJobRequest.ProjectID =
                    CreateBatchScreenshotsRequest.ProjectID req2\<rparr>)
      (fst (screenshots_BatchAndWait_durations opts2))
      (snd (screenshots_BatchAndWait_durations opts2)) req2 w2 = Some (res, w')
      \<and> (\<forall>k job. polled w2 w' k \<and> get_reply c2 k (gets w' ! k) = Inr job
              \<and> (BatchScreenshotJob.Status job = ''completed''
                 \<or> BatchScreenshotJob.Status job = ''failed''
                 \<or> BatchScreenshotJob.Status job = ''cancelled'')
            \<longrightarrow> res = Inr job \<and> length (gets w') = Suc k)"
    by (rule start_then_poll_terminal_as [OF screenshots_BatchAndWait_durations_pos,
          where R = Inr]) (rule screenshots_BatchAndWait_terminal_Some)
qed

text \<open>Unfolding the test servers and the steps of a run, for the concrete runs below.\<close>

lemmas fixture_defs = Background_def boot_def example_request_def ext_123_def
  extraction_with_def failing_extraction_server_def slow_extraction_server_def
  service_unavailable_def not_found_def rejecting_extraction_server_def
  forgetful_extraction_server_def example_batch_request_def batch_123_def
  cancelled_batch_server_def Millisecond_def

lemmas run_defs = Second_def call_start_def call_get_def select_wait_def poll.simps
  NewTimeoutError_def

text \<open>A server that rejects the start call, and one that rejects the first get call.\<close>

theorem AndWait_errors_propagate_witness:
  "start_reply rejecting_extraction_server example_request = Inl service_unavailable
   \<and> ExtractAndWait Background rejecting_extraction_server example_request None boot
       = Some (Inl service_unavailable, \<lparr>now = 1000000, starts = 1, gets = []\<rparr>)
   \<and> polled boot \<lparr>now = 2000000, starts = 1, gets = [ext_123]\<rparr> 0
   \<and> get_reply forgetful_extraction_server 0 ([ext_123] ! 0) = Inl not_found
   \<and> ExtractAndWait Background forgetful_extraction_server example_request None boot
       = Some (Inl not_found, \<lparr>now = 2000000, starts = 1, gets = [ext_123]\<rparr>)"
proof -
  have h1: "start_reply rejecting_extraction_server example_request = Inl service_unavailable"
    by (simp add: rejecting_extraction_server_def)
  have r1: "ExtractAndWait Background rejecting_extraction_server example_request None boot
       = Some (Inl service_unavailable, \<lparr>now = 1000000, starts = 1, gets = []\<rparr>)"
    by (simp add: ExtractAndWait_def ExtractAndWait_durations_def run_defs
        rejecting_extraction_server_def boot_def)
  have h2: "polled boot \<lparr>now = 2000000, starts = 1, gets = [ext_123]\<rparr> 0"
    by (simp add: polled_def boot_def)
  have h3: "get_reply forgetful_extraction_server 0 ([ext_123] ! 0) = Inl not_found"
    by (simp add: forgetful_extraction_server_def)
  have ev: "\<exists>res. ExtractAndWait Background forgetful_extraction_server example_request None boot
       = Some (res, \<lparr>now = 2000000, starts = 1, gets = [ext_123]\<rparr>)"
    by (simp add: ExtractAndWait_def ExtractAndWait_durations_def run_defs
        forgetful_extraction_server_def boot_def example_request_def ext_123_def)
  from AndWait_errors_propagate
    [of Background forgetful_extraction_server example_request None boot, THEN conjunct1]
  obtain res w' where
    r: "ExtractAndWait Background forgetful_extraction_server example_request None boot
       = Some (res, w')"
    and t: "\<forall>k e. polled boot w' k \<and> get_reply forgetful_extraction_server k (gets w' ! k) = Inl e
       \<longrightarrow> res = Inl e \<and> length (gets w') = Suc k"
    by (elim exE conjE)
  from ev r have w': "w' = \<lparr>now = 2000000, starts = 1, gets = [ext_123]\<rparr>" by simp
  have "res = Inl not_found"
    using t [rule_format, of 0 not_found] h2 h3 by (simp add: w')
  with r w' h1 r1 h2 h3 show ?thesis by simp
qed

text \<open>A batch of screenshots that is found cancelled on the second get call.\<close>

theorem BatchAndWait_returns_terminal_job_witness:
  "polled boot \<lparr>now = 2003000000, starts = 1, gets = [batch_123, batch_123]\<rparr> 1
   \<and> get_reply cancelled_batch_server 1 ([batch_123, batch_123] ! 1)
       = Inr \<lparr>BatchScreenshotJob.ID = ''batch-123'', BatchScreenshotJob.Status = ''cancelled''\<rparr>
   \<and> screenshots_BatchAndWait Background cancelled_batch_server example_batch_request None boot
       = Some (Inr \<lparr>BatchScreenshotJob.ID = ''batch-123'', BatchScreenshotJob.Status = ''cancelled''\<rparr>,
           \<lparr>now = 2003000000, starts = 1, gets = [batch_123, batch_123]\<rparr>)"
proof -
  let ?job = "\<lparr>BatchScreenshotJob.ID = ''batch-123'', BatchScreenshotJob.Status = ''cancelled''\<rparr>"
  let ?w = "\<lparr>now = 2003000000, starts = 1, gets = [batch_123, batch_123]\<rparr>"
  have h1: "polled boot ?w 1"
    by (simp add: polled_def boot_def)
  have h2: "get_reply cancelled_batch_server 1 ([batch_123, batch_123] ! 1) = Inr ?job"
    by (simp add: cancelled_batch_server_def)
  have ev: "\<exists>res. screenshots_BatchAndWait Background cancelled_batch_server
        example_batch_request None boot = Some (res, ?w)"
    by (simp add: screenshots_BatchAndWait_def screenshots_BatchAndWait_durations_def run_defs
        screenshots_BatchAndWait_terminal_def BatchJobStatusCompleted_def
        BatchJobStatusFailed_def BatchJobStatusCancelled_def
        cancelled_batch_server_def boot_def example_batch_request_def batch_123_def
        Background_def)
  from BatchAndWait_returns_terminal_job
    [where ?ctx2.0 = Background and ?c2.0 = cancelled_batch_server
       and ?req2.0 = example_batch_request and ?opts2.0 = None and ?w2.0 = boot,
     THEN conjunct2]
  obtain res w' where
    r: "screenshots_BatchAndWait Background cancelled_batch_server example_batch_request None boot
       = Some (res, w')"
    and t: "\<forall>k job. polled boot w' k \<and> get_reply cancelled_batch_server k (gets w' ! k) = Inr job
              \<and> (BatchScreenshotJob.Status job = ''completed''
                 \<or> BatchScreenshotJob.Status job = ''failed''
                 \<or> BatchScreenshotJob.Status job = ''cancelled'')
            \<longrightarrow> res = Inr job \<and> length (gets w') = Suc k"
    by (elim exE conjE)
  from ev r have w': "w' = ?w" by simp
  have "res = Inr ?job"
    using t [rule_format, of 1 ?job] h1 h2 by (simp add: w')
  with r w' h1 h2 show ?thesis by simp
qed


lemma start_then_poll_failure_text:
  assumes pos: "0 < sint pollInterval"
    and tmn: "\<And>job. Q job \<Longrightarrow> terminal job = Some (Inl (ErrorString (M job)))"
  shows "\<exists>res w'. start_then_poll ctx c terminal message mk pollInterval timeout req w = Some (res, w')
    \<and> (\<forall>k job. polled w w' k \<and> get_reply c k (gets w' ! k) = Inr job \<and> Q job
          \<longrightarrow> (\<exists>err. res = Inl err \<and> Error_text err = M job) \<and> length (gets w') = Suc k)"
proof -
  from start_then_poll_terminal_as [OF pos, of Q terminal "\<lambda>job. Inl (ErrorString (M job))",
      OF tmn, of ctx c message mk timeout req w]
  obtain res w' where
    r: "start_then_poll ctx c terminal message mk pollInterval timeout req w = Some (res, w')"
    and t: "\<forall>k job. polled w w' k \<and> get_reply c k (gets w' ! k) = Inr job \<and> Q job
          \<longrightarrow> res = Inl (ErrorString (M job)) \<and> length (gets w') = Suc k"
    by blast
  have "\<forall>k job. polled w w' k \<and> get_reply c k (gets w' ! k) = Inr job \<and> Q job
          \<longrightarrow> (\<exists>err. res = Inl err \<and> Error_text err = M job) \<and> length (gets w') = Suc k"
  proof (intro allI impI)
    fix k job
    assume "polled w w' k \<and> get_reply c k (gets w' ! k) = Inr job \<and> Q job"
    with t have "res = Inl (ErrorString (M job)) \<and> length (gets w') = Suc k" by blast
    then show "(\<exists>err. res = Inl err \<and> Error_text err = M job) \<and> length (gets w') = Suc k"
      by simp
  qed
  with r show ?thesis by blast
qed

lemma ExtractAndWait_terminal_failed:
  "ExtractionResult.Status job = ''failed'' \<Longrightarrow>
   ExtractAndWait_terminal job =
     Some (Inl (ErrorString (case ExtractionResult.Error job of
        Some errMsg \<Rightarrow> errMsg | None \<Rightarrow> ''Extraction failed'')))"
  by (simp add: ExtractAndWait_terminal_def ExtractionStatusFailed_def)

lemma CaptureAndWait_terminal_failed:
  "Screenshot.Status job = ''failed'' \<Longrightarrow>
   CaptureAndWait_terminal job =
     Some (Inl (ErrorString (case Screenshot.Error job of
        Some errMsg \<Rightarrow> errMsg | None \<Rightarrow> ''Screenshot failed'')))"
  by (simp add: CaptureAndWait_terminal_def ScreenshotStatusFailed_def)

text \<open>
  C3. In every run of \<^verbatim>\<open>ExtractAndWait\<close> and \<^verbatim>\<open>CaptureAndWait\<close>, a polled record whose
  status is "failed" ends the run with an error whose text is the record's \<^verbatim>\<open>Error\<close>
  field when that field is present, and "Extraction failed" (respectively
  "Screenshot failed") when it is absent.
\<close>

theorem AndWait_failed_message:
  "(\<exists>res w'. ExtractAndWait ctx1 c1 req1 opts1 w1 = Some (res, w')
      \<and> (\<forall>k job. polled w1 w' k \<and> get_reply c1 k (gets w' ! k) = Inr job
              \<and> ExtractionResult.Status job = ''failed''
            \<longrightarrow> (\<exists>err. res = Inl err
                   \<and> Error_text err = (case ExtractionResult.Error job of
                        Some errMsg \<Rightarrow> errMsg | None \<Rightarrow> ''Extraction failed''))
                \<and> length (gets w') = Suc k))
   \<and> (\<exists>res w'. CaptureAndWait ctx2 c2 req2 opts2 w2 = Some (res, w')
      \<and> (\<forall>k job. polled w2 w' k \<and> get_reply c2 k (gets w' ! k) = Inr job
              \<and> Screenshot.Status job = ''failed''
            \<longrightarrow> (\<exists>err. res = Inl err
                   \<and> Error_text err = (case Screenshot.Error job of
                        Some errMsg \<Rightarrow> errMsg | None \<Rightarrow> ''Screenshot failed''))
                \<and> length (gets w') = Suc k))"
  unfolding ExtractAndWait_shape CaptureAndWait_shape
proof (intro conjI, goal_cases)
  case 1
  show ?case
    by (rule start_then_poll_failure_text [OF ExtractAndWait_durations_pos,
          where M = "\<lambda>job. case ExtractionResult.Error job of
             Some errMsg \<Rightarrow> errMsg | None \<Rightarrow> ''Extraction failed''"])
      (rule ExtractAndWait_terminal_failed)
next
  case 2
  show ?case
    by (rule start_then_poll_failure_text [OF CaptureAndWait_durations_pos,
          where M = "\<lambda>job. case Screenshot.Error job of
             Some errMsg \<Rightarrow> errMsg | None \<Rightarrow> ''Screenshot failed''"])
      (rule CaptureAndWait_terminal_failed)
qed


text \<open>The run of \<^verbatim>\<open>TestClient_ExtractAndWait_Failed\<close>, with a poll interval of 10 ms.\<close>

theorem AndWait_failed_message_witness:
  "polled boot \<lparr>now = 13000000, starts = 1, gets = [ext_123, ext_123]\<rparr> 1
   \<and> get_reply failing_extraction_server 1 ([ext_123, ext_123] ! 1)
       = Inr (extraction_with ''failed'' (Some ''Failed to extract content''))
   \<and> ExtractionResult.Status (extraction_with ''failed'' (Some ''Failed to extract content''))
       = ''failed''
   \<and> (\<exists>err. ExtractAndWait Background failing_extraction_server example_request
         (Some \<lparr>ExtractAndWaitOptions.PollInterval = 10 * Millisecond,
                ExtractAndWaitOptions.Timeout = 0\<rparr>) boot
       = Some (Inl err, \<lparr>now = 13000000, starts = 1, gets = [ext_123, ext_123]\<rparr>)
      \<and> Error_text err = ''Failed to extract content'')"
proof -
  let ?job = "extraction_with ''failed'' (Some ''Failed to extract content'')"
  let ?w = "\<lparr>now = 13000000, starts = 1, gets = [ext_123, ext_123]\<rparr>"
  let ?opts = "Some \<lparr>ExtractAndWaitOptions.PollInterval = 10 * Millisecond,
                ExtractAndWaitOptions.Timeout = 0\<rparr>"
  have h1: "polled boot ?w 1"
    by (simp add: polled_def boot_def)
  have h2: "get_reply failing_extraction_server 1 ([ext_123, ext_123] ! 1) = Inr ?job"
    by (simp add: failing_extraction_server_def)
  have h3: "ExtractionResult.Status ?job = ''failed''"
    by (simp add: extraction_with_def)
  have ev: "\<exists>res. ExtractAndWait Background failing_extraction_server example_request ?opts boot
      = Some (res, ?w)"
    by (simp add: ExtractAndWait_def ExtractAndWait_durations_def run_defs
        ExtractAndWait_terminal_def ExtractionStatusCompleted_def ExtractionStatusFailed_def
        failing_extraction_server_def boot_def example_request_def ext_123_def
        extraction_with_def Background_def Millisecond_def word_sless_alt)
  from AndWait_failed_message
    [of Background failing_extraction_server example_request ?opts boot, THEN conjunct1]
  obtain res w' where
    r: "ExtractAndWait Background failing_extraction_server example_request ?opts boot
       = Some (res, w')"
    and t: "\<forall>k job. polled boot w' k \<and> get_reply failing_extraction_server k (gets w' ! k) = Inr job
              \<and> ExtractionResult.Status job = ''failed''
            \<longrightarrow> (\<exists>err. res = Inl err
                   \<and> Error_text err = (case ExtractionResult.Error job of
                        Some errMsg \<Rightarrow> errMsg | None \<Rightarrow> ''Extraction failed''))
                \<and> length (gets w') = Suc k"
    by (elim exE conjE)
  from ev r have w': "w' = ?w" by simp
  have "\<exists>err. res = Inl err \<and> Error_text err = ''Failed to extract content''"
    using t [rule_format, of 1 ?job] h1 h2 h3 by (simp add: w' extraction_with_def)
  with r w' h1 h2 h3 show ?thesis by auto
qed























section \<open>Properties of the transform URL builder\<close>

lemma update_fresh: "k \<notin> fst ` set al \<Longrightarrow> AList.update k v al = al @ [(k, v)]"
  by (induction al) auto

lemma set_all_fresh:
  "distinct (map fst es) \<Longrightarrow> fst ` set es \<inter> fst ` set acc = {}
   \<Longrightarrow> set_all es acc = acc @ present es"
proof (induction es arbitrary: acc)
  case Nil
  then show ?case by (simp add: set_all_def present_def)
next
  case (Cons e es)
  obtain k vo where e: "e = (k, vo)" by (cases e)
  have fresh: "k \<notin> fst ` set acc" using Cons.prems(2) e by auto
  have d: "distinct (map fst es)" and kn: "k \<notin> fst ` set es" using Cons.prems(1) e by auto
  show ?case
  proof (cases vo)
    case None
    have "set_all (e # es) acc = set_all es acc"
      by (simp add: set_all_def e None set_if_present_def)
    also have "\<dots> = acc @ present es"
      using Cons.prems(2) by (intro Cons.IH d) auto
    finally show ?thesis by (simp add: present_def e None)
  next
    case (Some x)
    have "set_all (e # es) acc = set_all es (acc @ [(k, [x])])"
      using fresh by (simp add: set_all_def e Some set_if_present_def Values_Set_def update_fresh)
    also have "\<dots> = (acc @ [(k, [x])]) @ present es"
      using Cons.prems(2) kn by (intro Cons.IH d) auto
    finally show ?thesis by (simp add: present_def e Some)
  qed
qed

lemma Join_sep:
  assumes "\<forall>x \<in> set xs. x \<noteq> ''''"
  shows "foldl (\<lambda>buf x. (if buf \<noteq> '''' then buf @ sep else buf) @ x) acc xs
     = (if xs = [] then acc else if acc = '''' then Join xs sep else acc @ sep @ Join xs sep)"
  using assms
proof (induction xs arbitrary: acc)
  case Nil
  then show ?case by simp
next
  case (Cons x xs)
  then have x: "x \<noteq> ''''" and xs: "\<forall>x \<in> set xs. x \<noteq> ''''" by auto
  let ?F = "\<lambda>buf x. (if buf \<noteq> '''' then buf @ sep else buf) @ x"
  let ?acc = "(if acc \<noteq> '''' then acc @ sep else acc) @ x"
  have step: "foldl ?F acc (x # xs) = foldl ?F ?acc xs" by simp
  have ne: "?acc \<noteq> ''''" using x by simp
  have "foldl ?F ?acc xs = (if xs = [] then ?acc else ?acc @ sep @ Join xs sep)"
    using Cons.IH [OF xs, of ?acc] ne by presburger
  then show ?case
    unfolding step by (cases xs) auto
qed

lemma Join_sep_empty:
  assumes "\<forall>x \<in> set xs. x \<noteq> ''''"
  shows "foldl (\<lambda>buf x. (if buf \<noteq> '''' then buf @ sep else buf) @ x) '''' xs = Join xs sep"
proof (cases xs)
  case Nil
  then show ?thesis by simp
next
  case (Cons y ys)
  show ?thesis unfolding Join_sep [OF assms] by (simp add: Cons)
qed

lemma foldl_foldl_concat:
  "foldl (\<lambda>buf k. foldl f buf (g k)) acc ks = foldl f acc (concat (map g ks))"
  by (induction ks arbitrary: acc) simp_all

lemma Values_Encode_Join:
  "Values_Encode v =
     Join (concat (map (\<lambda>k. map (key_value (QueryEscape k))
              (case map_of v k of Some vs \<Rightarrow> vs | None \<Rightarrow> [])) (sort (map fst v)))) ''&''"
proof -
  let ?pieces = "concat (map (\<lambda>k. map (key_value (QueryEscape k))
              (case map_of v k of Some vs \<Rightarrow> vs | None \<Rightarrow> [])) (sort (map fst v)))"
  have ne: "\<forall>x \<in> set ?pieces. x \<noteq> ''''" by (auto simp: key_value_def)
  have "Values_Encode v
      = foldl (\<lambda>buf x. (if buf \<noteq> '''' then buf @ ''&'' else buf) @ x) '''' ?pieces"
    unfolding Values_Encode_def
    by (simp add: foldl_foldl_concat [symmetric] foldl_map)
  also have "\<dots> = Join ?pieces ''&''"
    by (rule Join_sep_empty [OF ne])
  finally show ?thesis .
qed

text \<open>Sorting the entries by key and then dropping the absent ones gives the keys of the
  present ones in sorted order.\<close>

lemma map_fst_present:
  "map fst (present es) = map fst (filter (\<lambda>e. snd e \<noteq> None) es)"
  by (induction es) (auto simp: present_def split: option.splits)

lemma map_sort_key: "map f (sort_key f xs) = sort (map f xs)"
proof (induction xs)
  case Nil
  then show ?case by simp
next
  case (Cons x xs)
  have ins: "\<And>ys. map f (insort_key f x ys) = insort (f x) (map f ys)"
  proof -
    fix ys show "map f (insort_key f x ys) = insort (f x) (map f ys)"
      by (induction ys) simp_all
  qed
  show ?case by (simp add: ins Cons.IH)
qed

lemma sort_keys_present:
  "sort (map fst (present es)) = map fst (filter (\<lambda>e. snd e \<noteq> None) (sort_key fst es))"
proof -
  have "sort (map fst (present es)) = sort (map fst (filter (\<lambda>e. snd e \<noteq> None) es))"
    by (simp add: map_fst_present)
  also have "\<dots> = map fst (sort_key fst (filter (\<lambda>e. snd e \<noteq> None) es))"
    by (simp add: map_sort_key)
  also have "\<dots> = map fst (filter (\<lambda>e. snd e \<noteq> None) (sort_key fst es))"
    by (simp add: filter_sort)
  finally show ?thesis .
qed

lemma map_of_present:
  assumes "distinct (map fst es)" "(k, Some x) \<in> set es"
  shows "map_of (present es) k = Some [x]"
  using assms
proof (induction es)
  case Nil
  then show ?case by simp
next
  case (Cons e es)
  obtain k' vo where e: "e = (k', vo)" by (cases e)
  show ?case
  proof (cases "e = (k, Some x)")
    case True
    then show ?thesis by (simp add: present_def)
  next
    case False
    then have in_es: "(k, Some x) \<in> set es" using Cons.prems(2) by simp
    then have "k \<in> fst ` set es" by force
    then have "k' \<noteq> k" using Cons.prems(1) e by auto
    moreover have "map_of (present es) k = Some [x]"
      using Cons.IH Cons.prems(1) in_es by simp
    ultimately show ?thesis
      by (cases vo) (simp_all add: present_def e)
  qed
qed

lemma pieces_present:
  assumes "distinct (map fst es)" "set ss \<subseteq> set es"
  shows "concat (map (\<lambda>k. map (key_value (QueryEscape k))
              (case map_of (present es) k of Some vs \<Rightarrow> vs | None \<Rightarrow> []))
            (map fst (filter (\<lambda>e. snd e \<noteq> None) ss)))
       = concat (map (\<lambda>(k, vo). query_param k vo) ss)"
  using assms(2)
proof (induction ss)
  case Nil
  then show ?case by simp
next
  case (Cons s ss)
  obtain k vo where s: "s = (k, vo)" by (cases s)
  show ?case
  proof (cases vo)
    case None
    then show ?thesis using Cons by (simp add: s query_param_def)
  next
    case (Some x)
    then have "(k, Some x) \<in> set es" using Cons.prems s by simp
    then have "map_of (present es) k = Some [x]"
      using map_of_present [OF assms(1)] by blast
    then show ?thesis using Cons by (simp add: s Some query_param_def)
  qed
qed

lemma Values_Encode_present:
  assumes "distinct (map fst es)"
  shows "Values_Encode (present es)
     = Join (concat (map (\<lambda>(k, vo). query_param k vo) (sort_key fst es))) ''&''"
  unfolding Values_Encode_Join sort_keys_present
  by (subst pieces_present [OF assms]) simp_all

lemma set_if_true_present:
  "set_if_true key flag val params = set_if_present key (if flag then Some val else None) params"
  by (simp add: set_if_true_def set_if_present_def Values_Set_def)

lemma transform_params_entries:
  "transform_params options = set_all (transform_entries options) []"
  by (simp add: transform_params_def set_all_def transform_entries_def set_if_true_present)

lemma transform_entries_distinct: "distinct (map fst (transform_entries options))"
  by (simp add: transform_entries_def)

lemma transform_entries_sorted:
  "concat (map (\<lambda>(k, vo). query_param k vo) (sort_key fst (transform_entries options)))
     = transform_query options"
  by (simp add: transform_entries_def transform_query_def)

lemma buildTransformQuery_Some:
  "buildTransformQuery (Some options) = Join (transform_query options) ''&''"
proof -
  have "transform_params options = present (transform_entries options)"
    using set_all_fresh [OF transform_entries_distinct, of options "[]"]
    by (simp add: transform_params_entries)
  then show ?thesis
    by (simp add: buildTransformQuery_def Values_Encode_present [OF transform_entries_distinct]
        transform_entries_sorted)
qed

lemma query_param_Nil: "query_param key field = [] \<longleftrightarrow> field = None"
  by (simp add: query_param_def split: option.splits)

lemma query_param_nonempty: "x \<in> set (query_param key field) \<Longrightarrow> x \<noteq> ''''"
  by (auto simp: query_param_def key_value_def split: option.splits)

lemma transform_query_Nil: "transform_query options = [] \<longleftrightarrow> unset options"
  by (simp add: transform_query_def unset_def query_param_Nil) blast

lemma transform_query_nonempty: "x \<in> set (transform_query options) \<Longrightarrow> x \<noteq> ''''"
  unfolding transform_query_def set_append Un_iff
  by (elim disjE) (erule query_param_nonempty)+

lemma Join_Nil_iff:
  assumes "\<forall>x \<in> set xs. x \<noteq> ''''"
  shows "Join xs sep = '''' \<longleftrightarrow> xs = []"
proof (cases xs)
  case Nil
  then show ?thesis by simp
next
  case (Cons y ys)
  then have "y \<noteq> ''''" using assms by simp
  then show ?thesis by (cases ys) (simp_all add: Cons)
qed

lemma buildTransformQuery_empty:
  "buildTransformQuery (Some options) = '''' \<longleftrightarrow> unset options"
  unfolding buildTransformQuery_Some
  using Join_Nil_iff [of "transform_query options" "''&''"] transform_query_nonempty [of _ options]
  by (simp add: transform_query_Nil)

lemma GetTransformURL_None:
  "GetTransformURL parse c ref None = baseURL_of parse c ref"
  by (simp add: GetTransformURL_def buildTransformQuery_def split: sum.splits)

lemma GetTransformURL_Some:
  "GetTransformURL parse c ref (Some os) =
     (case baseURL_of parse c ref of
        Inl err \<Rightarrow> Inl err
      | Inr base \<Rightarrow>
          if unset os then Inr base
          else Inr (base @ ''?'' @ Join (transform_query os) ''&''))"
  using buildTransformQuery_empty [of os]
  by (simp add: GetTransformURL_def Let_def buildTransformQuery_Some split: sum.splits)

text \<open>
  C6, as amended. With no transform option set (options nil, or every optional field unset
  and every flag false) \<^verbatim>\<open>GetTransformURL\<close> returns the base URL unchanged; with at least
  one option set it returns the base URL, \<^verbatim>\<open>?\<close> and a non-empty query string that
  lists, in the fixed order of the keys, \<^verbatim>\<open>key=value\<close> for the set options only. The
  base URL of a full-URL reference is the scheme, host and path of the parsed URL
  (its query string, fragment and user information are dropped); the base URL of a
  storage key is the CDN URL without its trailing slash, a slash and the key.
\<close>

theorem GetTransformURL_base_and_query:
  "((options = None \<or> (\<exists>os. options = Some os \<and> unset os))
      \<longrightarrow> GetTransformURL parse c ref options = baseURL_of parse c ref)
   \<and> (\<not> unset os
      \<longrightarrow> Join (transform_query os) ''&'' \<noteq> ''''
        \<and> GetTransformURL parse c ref (Some os) =
            (case baseURL_of parse c ref of
               Inl err \<Rightarrow> Inl err
             | Inr base \<Rightarrow> Inr (base @ ''?'' @ Join (transform_query os) ''&'')))
   \<and> ((HasPrefix ref ''http://'' \<or> HasPrefix ref ''https://'') \<and> parse ref = Inr parsed
      \<longrightarrow> baseURL_of parse c ref = Inr (Scheme parsed @ ''://'' @ Host parsed @ Path parsed))
   \<and> (\<not> HasPrefix ref ''http://'' \<and> \<not> HasPrefix ref ''https://'' \<and> cdnURL c \<noteq> ''''
      \<longrightarrow> baseURL_of parse c ref = Inr (TrimSuffix (cdnURL c) ''/'' @ ''/'' @ ref))"
proof (intro conjI impI)
  assume "options = None \<or> (\<exists>os. options = Some os \<and> unset os)"
  then show "GetTransformURL parse c ref options = baseURL_of parse c ref"
    by (auto simp: GetTransformURL_None GetTransformURL_Some split: sum.splits)
next
  assume n: "\<not> unset os"
  show "Join (transform_query os) ''&'' \<noteq> ''''"
    using n buildTransformQuery_empty [of os] by (simp add: buildTransformQuery_Some)
  show "GetTransformURL parse c ref (Some os) =
            (case baseURL_of parse c ref of
               Inl err \<Rightarrow> Inl err
             | Inr base \<Rightarrow> Inr (base @ ''?'' @ Join (transform_query os) ''&''))"
    using n by (simp add: GetTransformURL_Some split: sum.splits)
next
  assume "(HasPrefix ref ''http://'' \<or> HasPrefix ref ''https://'') \<and> parse ref = Inr parsed"
  then show "baseURL_of parse c ref = Inr (Scheme parsed @ ''://'' @ Host parsed @ Path parsed)"
    by (simp add: baseURL_of_def)
next
  assume "\<not> HasPrefix ref ''http://'' \<and> \<not> HasPrefix ref ''https://'' \<and> cdnURL c \<noteq> ''''"
  then show "baseURL_of parse c ref = Inr (TrimSuffix (cdnURL c) ''/'' @ ''/'' @ ref)"
    by (simp add: baseURL_of_def)
qed

lemmas url_Parse_defs = url_Parse_def Cut_def stringContainsCTLByte_def split_userinfo_def

text \<open>The first case of \<^verbatim>\<open>TestClient_GetTransformURL\<close>, and the same URL without options.\<close>

theorem GetTransformURL_base_and_query_witness:
  "\<not> unset only_width_and_quality
   \<and> HasPrefix ''https://cdn.example.com/image.jpg'' ''https://''
   \<and> url_Parse ''https://cdn.example.com/image.jpg''
       = Inr \<lparr>Scheme = ''https'', User = None, Host = ''cdn.example.com'', Path = ''/image.jpg'',
              RawQuery = '''', Fragment = ''''\<rparr>
   \<and> GetTransformURL url_Parse \<lparr>cdnURL = ''''\<rparr> ''https://cdn.example.com/image.jpg''
        (Some only_width_and_quality)
       = Inr ''https://cdn.example.com/image.jpg?q=80&w=828''
   \<and> GetTransformURL url_Parse \<lparr>cdnURL = ''''\<rparr> ''https://cdn.example.com/image.jpg'' None
       = Inr ''https://cdn.example.com/image.jpg''"
proof -
  let ?ref = "''https://cdn.example.com/image.jpg''"
  let ?u = "\<lparr>Scheme = ''https'', User = None, Host = ''cdn.example.com'', Path = ''/image.jpg'',
              RawQuery = '''', Fragment = ''''\<rparr>"
  let ?c = "\<lparr>cdnURL = ''''\<rparr>"
  have h1: "\<not> unset only_width_and_quality"
    by (simp add: unset_def only_width_and_quality_def)
  have h2: "HasPrefix ?ref ''https://''"
    by (simp add: HasPrefix_def)
  have h3: "url_Parse ?ref = Inr ?u"
    by (simp add: url_Parse_defs)
  have w: "getNearestWidth 800 = 828"
    by (simp add: getNearestWidth_def AllowedWidths_def nearer_def abs_go_def word_sless_alt)
  have q: "Join (transform_query only_width_and_quality) ''&'' = ''q=80&w=828''"
    by (simp add: transform_query_def only_width_and_quality_def query_param_def key_value_def
        QueryEscape_def escape_byte_def unreserved_def w Itoa_def)
  note T = GetTransformURL_base_and_query
    [where options = None and os = only_width_and_quality and parse = url_Parse and c = ?c
       and ref = ?ref and parsed = ?u]
  have b: "baseURL_of url_Parse ?c ?ref = Inr ?ref"
    using T h2 h3 by simp
  have r1: "GetTransformURL url_Parse ?c ?ref (Some only_width_and_quality)
      = Inr ''https://cdn.example.com/image.jpg?q=80&w=828''"
    using T h1 by (simp add: b q)
  have r2: "GetTransformURL url_Parse ?c ?ref None = Inr ?ref"
    using T by (simp add: b)
  show ?thesis using h1 h2 h3 r1 r2 by (intro conjI)
qed

text \<open>
  The claim as stated fails on a full URL that carries a query string: the builder
  returns the URL without it.
\<close>

theorem GetTransformURL_drops_query_counterexample:
  "HasPrefix ''https://cdn.example.com/image.jpg?v=2'' ''https://''
   \<and> GetTransformURL url_Parse \<lparr>cdnURL = ''''\<rparr> ''https://cdn.example.com/image.jpg?v=2'' None
       = Inr ''https://cdn.example.com/image.jpg''
   \<and> ''https://cdn.example.com/image.jpg'' \<noteq> ''https://cdn.example.com/image.jpg?v=2''"
  by (simp add: GetTransformURL_def baseURL_of_def HasPrefix_def url_Parse_defs
      buildTransformQuery_def)

lemma GetTransformURL_error_iff:
  "GetTransformURL parse c ref options = Inl err \<longleftrightarrow> baseURL_of parse c ref = Inl err"
  by (simp add: GetTransformURL_def Let_def split: sum.splits)

text \<open>
  C7, as amended. \<^verbatim>\<open>GetTransformURL\<close> returns the configuration error exactly when the
  asset reference is not a full URL and no CDN URL is configured. It fails in one more
  case, and in no other: on a full URL that \<^verbatim>\<open>url.Parse\<close> rejects it returns the parse
  error.
\<close>

theorem GetTransformURL_errors:
  "(GetTransformURL parse c ref options
      = Inl (ErrorString ''getTransformURL requires either a full URL or cdnURL to be configured'')
     \<longleftrightarrow> \<not> (HasPrefix ref ''http://'' \<or> HasPrefix ref ''https://'') \<and> cdnURL c = '''')
   \<and> ((\<exists>err. GetTransformURL parse c ref options = Inl err)
     \<longleftrightarrow> (\<not> (HasPrefix ref ''http://'' \<or> HasPrefix ref ''https://'') \<and> cdnURL c = '''')
        \<or> ((HasPrefix ref ''http://'' \<or> HasPrefix ref ''https://'') \<and> (\<exists>e. parse ref = Inl e)))
   \<and> ((HasPrefix ref ''http://'' \<or> HasPrefix ref ''https://'') \<and> parse ref = Inl e
      \<longrightarrow> GetTransformURL parse c ref options = Inl (LibraryError e))"
  unfolding GetTransformURL_error_iff
  by (auto simp: baseURL_of_def split: sum.splits)

text \<open>A URL that ends in a line feed: a full URL, which \<^verbatim>\<open>url.Parse\<close> rejects for its
  control character.\<close>

theorem GetTransformURL_errors_witness:
  "(HasPrefix (''https://cdn.example.com/image.jpg'' @ [CHR 0x0A]) ''http://''
      \<or> HasPrefix (''https://cdn.example.com/image.jpg'' @ [CHR 0x0A]) ''https://'')
   \<and> url_Parse (''https://cdn.example.com/image.jpg'' @ [CHR 0x0A])
       = Inl ''net/url: invalid control character in URL''
   \<and> GetTransformURL url_Parse \<lparr>cdnURL = ''''\<rparr>
        (''https://cdn.example.com/image.jpg'' @ [CHR 0x0A]) None
       = Inl (LibraryError ''net/url: invalid control character in URL'')"
proof -
  let ?ref = "''https://cdn.example.com/image.jpg'' @ [CHR 0x0A]"
  have h1: "HasPrefix ?ref ''http://'' \<or> HasPrefix ?ref ''https://''"
    by (simp add: HasPrefix_def)
  have h2: "url_Parse ?ref = Inl ''net/url: invalid control character in URL''"
    by (simp add: url_Parse_defs)
  from GetTransformURL_errors
    [of url_Parse "\<lparr>cdnURL = ''''\<rparr>" ?ref None "''net/url: invalid control character in URL''"]
    h1 h2
  have "GetTransformURL url_Parse \<lparr>cdnURL = ''''\<rparr> ?ref None
       = Inl (LibraryError ''net/url: invalid control character in URL'')"
    by blast
  with h1 h2 show ?thesis by (intro conjI)
qed

text \<open>
  The claim as stated fails on that URL: it is a full URL and a CDN URL is configured,
  and the builder returns an error all the same.
\<close>

theorem GetTransformURL_parse_error_counterexample:
  "HasPrefix (''https://cdn.example.com/image.jpg'' @ [CHR 0x0A]) ''https://''
   \<and> cdnURL \<lparr>cdnURL = ''https://cdn.example.com''\<rparr> \<noteq> ''''
   \<and> GetTransformURL url_Parse \<lparr>cdnURL = ''https://cdn.example.com''\<rparr>
        (''https://cdn.example.com/image.jpg'' @ [CHR 0x0A]) None
       = Inl (LibraryError ''net/url: invalid control character in URL'')"
  by (simp add: GetTransformURL_def baseURL_of_def HasPrefix_def url_Parse_defs)


section \<open>Unset filters of the list requests\<close>

lemma Values_Set_present: "Values_Set params key val = set_if_present key (Some val) params"
  by (simp add: set_if_present_def)

lemma if_set_present:
  "(if flag then set_if_present key (Some val) params else params)
     = set_if_present key (if flag then Some val else None) params"
  by (simp add: set_if_present_def)

lemma set_if_present_None: "set_if_present key None params = params"
  by (simp add: set_if_present_def)

lemma Values_Encode_single: "Values_Encode [(key, [val])] = key_value (QueryEscape key) val"
  by (simp add: Values_Encode_def)

lemma QueryEscape_projectSlug: "QueryEscape ''projectSlug'' = ''projectSlug''"
  by (simp add: QueryEscape_def escape_byte_def unreserved_def)

lemma QueryEscape_type: "QueryEscape ''type'' = ''type''"
  by (simp add: QueryEscape_def escape_byte_def unreserved_def)

lemma QueryEscape_extraction: "QueryEscape ''extraction'' = ''extraction''"
  by (simp add: QueryEscape_def escape_byte_def unreserved_def)

lemma QueryEscape_screenshot: "QueryEscape ''screenshot'' = ''screenshot''"
  by (simp add: QueryEscape_def escape_byte_def unreserved_def)

lemmas unset_simps = set_if_present_None Values_Set_def Values_Encode_single key_value_def
  QueryEscape_projectSlug QueryEscape_type QueryEscape_extraction QueryEscape_screenshot
  HTTPClient_Get_def Let_def

lemma extraction_List_nil:
  "extraction_List None = Some (HTTPClient_Get ''/webdata/extractions'')"
  by (simp add: extraction_List_def unset_simps)

lemma extraction_List_unset:
  "extraction_List (Some \<lparr>ListExtractionsRequest.Environment = None,
         ListExtractionsRequest.ProjectID = None,
         ListExtractionsRequest.Status = None,
         ListExtractionsRequest.URL = None,
         ListExtractionsRequest.Limit = None,
         ListExtractionsRequest.Cursor = None\<rparr>)
       = Some (HTTPClient_Get (''/webdata/extractions''))"
  by (simp add: extraction_List_def unset_simps)

lemma extraction_List_query:
  "extraction_List (Some r)
       = Some (HTTPClient_Get (with_query (''/webdata/extractions'') (present
           [(''environment'', ListExtractionsRequest.Environment r),
            (''projectId'', ListExtractionsRequest.ProjectID r),
            (''status'', ListExtractionsRequest.Status r),
            (''url'', ListExtractionsRequest.URL r),
            (''limit'', map_option Itoa (ListExtractionsRequest.Limit r)),
            (''cursor'', ListExtractionsRequest.Cursor r)])))"
  proof -
  have "set_all
           [(''environment'', ListExtractionsRequest.Environment r),
            (''projectId'', ListExtractionsRequest.ProjectID r),
            (''status'', ListExtractionsRequest.Status r),
            (''url'', ListExtractionsRequest.URL r),
            (''limit'', map_option Itoa (ListExtractionsRequest.Limit r)),
            (''cursor'', ListExtractionsRequest.Cursor r)] []
        = present
           [(''environment'', ListExtractionsRequest.Environment r),
            (''projectId'', ListExtractionsRequest.ProjectID r),
            (''status'', ListExtractionsRequest.Status r),
            (''url'', ListExtractionsRequest.URL r),
            (''limit'', map_option Itoa (ListExtractionsRequest.Limit r)),
            (''cursor'', ListExtractionsRequest.Cursor r)]"
    by (subst set_all_fresh) simp_all
  then show ?thesis
    by (simp add: extraction_List_def set_all_def with_query_def Let_def Values_Set_present if_set_present
        HTTPClient_Get_def split del: if_split cong: if_cong)
qed

lemma screenshots_List_nil:
  "screenshots_List None = Some (HTTPClient_Get ''/webdata/screenshots'')"
  by (simp add: screenshots_List_def unset_simps)

lemma screenshots_List_unset:
  "screenshots_List (Some \<lparr>ListScreenshotsRequest.Environment = None,
         ListScreenshotsRequest.ProjectID = None,
         ListScreenshotsRequest.Status = None,
         ListScreenshotsRequest.URL = None,
         ListScreenshotsRequest.Limit = None,
         ListScreenshotsRequest.Cursor = None\<rparr>)
       = Some (HTTPClient_Get (''/webdata/screenshots''))"
  by (simp add: screenshots_List_def unset_simps)

lemma screenshots_List_query:
  "screenshots_List (Some r)
       = Some (HTTPClient_Get (with_query (''/webdata/screenshots'') (present
           [(''environment'', ListScreenshotsRequest.Environment r),
            (''projectId'', ListScreenshotsRequest.ProjectID r),
            (''status'', ListScreenshotsRequest.Status r),
            (''url'', ListScreenshotsRequest.URL r),
            (''limit'', map_option Itoa (ListScreenshotsRequest.Limit r)),
            (''cursor'', ListScreenshotsRequest.Cursor r)])))"
  proof -
  have "set_all
           [(''environment'', ListScreenshotsRequest.Environment r),
            (''projectId'', ListScreenshotsRequest.ProjectID r),
            (''status'', ListScreenshotsRequest.Status r),
            (''url'', ListScreenshotsRequest.URL r),
            (''limit'', map_option Itoa (ListScreenshotsRequest.Limit r)),
            (''cursor'', ListScreenshotsRequest.Cursor r)] []
        = present
           [(''environment'', ListScreenshotsRequest.Environment r),
            (''projectId'', ListScreenshotsRequest.ProjectID r),
            (''status'', ListScreenshotsRequest.Status r),
            (''url'', ListScreenshotsRequest.URL r),
            (''limit'', map_option Itoa (ListScreenshotsRequest.Limit r)),
            (''cursor'', ListScreenshotsRequest.Cursor r)]"
    by (subst set_all_fresh) simp_all
  then show ?thesis
    by (simp add: screenshots_List_def set_all_def with_query_def Let_def Values_Set_present if_set_present
        HTTPClient_Get_def split del: if_split cong: if_cong)
qed

lemma extraction_ListBatchJobs_nil:
  "extraction_ListBatchJobs None = Some (HTTPClient_Get ''/webdata/batch'')"
  by (simp add: extraction_ListBatchJobs_def unset_simps)

lemma extraction_ListBatchJobs_unset:
  "extraction_ListBatchJobs (Some \<lparr>extraction_ListBatchJobsRequest.Environment = None,
         extraction_ListBatchJobsRequest.ProjectID = None,
         extraction_ListBatchJobsRequest.Status = None,
         extraction_ListBatchJobsRequest.Limit = None,
         extraction_ListBatchJobsRequest.Cursor = None\<rparr>)
       = Some (HTTPClient_Get (''/webdata/batch'' @ ''?type=extraction''))"
  by (simp add: extraction_ListBatchJobs_def unset_simps)

lemma extraction_ListBatchJobs_query:
  "extraction_ListBatchJobs (Some r)
       = Some (HTTPClient_Get (with_query (''/webdata/batch'') (present
           [(''environment'', extraction_ListBatchJobsRequest.Environment r),
            (''projectId'', extraction_ListBatchJobsRequest.ProjectID r),
            (''status'', extraction_ListBatchJobsRequest.Status r),
            (''type'', Some ''extraction''),
            (''limit'', map_option Itoa (extraction_ListBatchJobsRequest.Limit r)),
            (''cursor'', extraction_ListBatchJobsRequest.Cursor r)])))"
  proof -
  have "set_all
           [(''environment'', extraction_ListBatchJobsRequest.Environment r),
            (''projectId'', extraction_ListBatchJobsRequest.ProjectID r),
            (''status'', extraction_ListBatchJobsRequest.Status r),
            (''type'', Some ''extraction''),
            (''limit'', map_option Itoa (extraction_ListBatchJobsRequest.Limit r)),
            (''cursor'', extraction_ListBatchJobsRequest.Cursor r)] []
        = present
           [(''environment'', extraction_ListBatchJobsRequest.Environment r),
            (''projectId'', extraction_ListBatchJobsRequest.ProjectID r),
            (''status'', extraction_ListBatchJobsRequest.Status r),
            (''type'', Some ''extraction''),
            (''limit'', map_option Itoa (extraction_ListBatchJobsRequest.Limit r)),
            (''cursor'', extraction_ListBatchJobsRequest.Cursor r)]"
    by (subst set_all_fresh) simp_all
  then show ?thesis
    by (simp add: extraction_ListBatchJobs_def set_all_def with_query_def Let_def Values_Set_present if_set_present
        HTTPClient_Get_def split del: if_split cong: if_cong)
qed

lemma extraction_ListSchedules_nil:
  "extraction_ListSchedules None = Some (HTTPClient_Get ''/webdata/schedules'')"
  by (simp add: extraction_ListSchedules_def unset_simps)

lemma extraction_ListSchedules_unset:
  "extraction_ListSchedules (Some \<lparr>extraction_ListSchedulesRequest.Environment = None,
         extraction_ListSchedulesRequest.ProjectID = None,
         extraction_ListSchedulesRequest.IsActive = None,
         extraction_ListSchedulesRequest.Limit = None,
         extraction_ListSchedulesRequest.Cursor = None\<rparr>)
       = Some (HTTPClient_Get (''/webdata/schedules'' @ ''?type=extraction''))"
  by (simp add: extraction_ListSchedules_def unset_simps)

lemma extraction_ListSchedules_query:
  "extraction_ListSchedules (Some r)
       = Some (HTTPClient_Get (with_query (''/webdata/schedules'') (present
           [(''environment'', extraction_ListSchedulesRequest.Environment r),
            (''projectId'', extraction_ListSchedulesRequest.ProjectID r),
            (''type'', Some ''extraction''),
            (''isActive'', map_option FormatBool (extraction_ListSchedulesRequest.IsActive r)),
            (''limit'', map_option Itoa (extraction_ListSchedulesRequest.Limit r)),
            (''cursor'', extraction_ListSchedulesRequest.Cursor r)])))"
  proof -
  have "set_all
           [(''environment'', extraction_ListSchedulesRequest.Environment r),
            (''projectId'', extraction_ListSchedulesRequest.ProjectID r),
            (''type'', Some ''extraction''),
            (''isActive'', map_option FormatBool (extraction_ListSchedulesRequest.IsActive r)),
            (''limit'', map_option Itoa (extraction_ListSchedulesRequest.Limit r)),
            (''cursor'', extraction_ListSchedulesRequest.Cursor r)] []
        = present
           [(''environment'', extraction_ListSchedulesRequest.Environment r),
            (''projectId'', extraction_ListSchedulesRequest.ProjectID r),
            (''type'', Some ''extraction''),
            (''isActive'', map_option FormatBool (extraction_ListSchedulesRequest.IsActive r)),
            (''limit'', map_option Itoa (extraction_ListSchedulesRequest.Limit r)),
            (''cursor'', extraction_ListSchedulesRequest.Cursor r)]"
    by (subst set_all_fresh) simp_all
  then show ?thesis
    by (simp add: extraction_ListSchedules_def set_all_def with_query_def Let_def Values_Set_present if_set_present
        HTTPClient_Get_def split del: if_split cong: if_cong)
qed

lemma extraction_GetUsage_nil:
  "extraction_GetUsage None = Some (HTTPClient_Get ''/webdata/usage'')"
  by (simp add: extraction_GetUsage_def unset_simps)

lemma extraction_GetUsage_unset:
  "extraction_GetUsage (Some \<lparr>GetUsageRequest.Environment = None,
         GetUsageRequest.PeriodStart = None,
         GetUsageRequest.PeriodEnd = None\<rparr>)
       = Some (HTTPClient_Get (''/webdata/usage''))"
  by (simp add: extraction_GetUsage_def unset_simps)

lemma extraction_GetUsage_query:
  "extraction_GetUsage (Some r)
       = Some (HTTPClient_Get (with_query (''/webdata/usage'') (present
           [(''environment'', GetUsageRequest.Environment r),
            (''periodStart'', GetUsageRequest.PeriodStart r),
            (''periodEnd'', GetUsageRequest.PeriodEnd r)])))"
  proof -
  have "set_all
           [(''environment'', GetUsageRequest.Environment r),
            (''periodStart'', GetUsageRequest.PeriodStart r),
            (''periodEnd'', GetUsageRequest.PeriodEnd r)] []
        = present
           [(''environment'', GetUsageRequest.Environment r),
            (''periodStart'', GetUsageRequest.PeriodStart r),
            (''periodEnd'', GetUsageRequest.PeriodEnd r)]"
    by (subst set_all_fresh) simp_all
  then show ?thesis
    by (simp add: extraction_GetUsage_def set_all_def with_query_def Let_def Values_Set_present if_set_present
        HTTPClient_Get_def split del: if_split cong: if_cong)
qed

lemma extraction_GetUsageDaily_nil:
  "extraction_GetUsageDaily None = Some (HTTPClient_Get ''/webdata/usage/daily'')"
  by (simp add: extraction_GetUsageDaily_def unset_simps)

lemma extraction_GetUsageDaily_unset:
  "extraction_GetUsageDaily (Some \<lparr>GetUsageRequest.Environment = None,
         GetUsageRequest.PeriodStart = None,
         GetUsageRequest.PeriodEnd = None\<rparr>)
       = Some (HTTPClient_Get (''/webdata/usage/daily''))"
  by (simp add: extraction_GetUsageDaily_def unset_simps)

lemma extraction_GetUsageDaily_query:
  "extraction_GetUsageDaily (Some r)
       = Some (HTTPClient_Get (with_query (''/webdata/usage/daily'') (present
           [(''environment'', GetUsageRequest.Environment r),
            (''periodStart'', GetUsageRequest.PeriodStart r),
            (''periodEnd'', GetUsageRequest.PeriodEnd r)])))"
  proof -
  have "set_all
           [(''environment'', GetUsageRequest.Environment r),
            (''periodStart'', GetUsageRequest.PeriodStart r),
            (''periodEnd'', GetUsageRequest.PeriodEnd r)] []
        = present
           [(''environment'', GetUsageRequest.Environment r),
            (''periodStart'', GetUsageRequest.PeriodStart r),
            (''periodEnd'', GetUsageRequest.PeriodEnd r)]"
    by (subst set_all_fresh) simp_all
  then show ?thesis
    by (simp add: extraction_GetUsageDaily_def set_all_def with_query_def Let_def Values_Set_present if_set_present
        HTTPClient_Get_def split del: if_split cong: if_cong)
qed

lemma screenshots_ListBatchJobs_nil:
  "screenshots_ListBatchJobs None = Some (HTTPClient_Get ''/webdata/batch'')"
  by (simp add: screenshots_ListBatchJobs_def unset_simps)

lemma screenshots_ListBatchJobs_unset:
  "screenshots_ListBatchJobs (Some \<lparr>screenshots_ListBatchJobsRequest.Environment = None,
         screenshots_ListBatchJobsRequest.ProjectID = None,
         screenshots_ListBatchJobsRequest.Status = None,
         screenshots_ListBatchJobsRequest.Limit = None,
         screenshots_ListBatchJobsRequest.Cursor = None\<rparr>)
       = Some (HTTPClient_Get (''/webdata/batch'' @ ''?type=screenshot''))"
  by (simp add: screenshots_ListBatchJobs_def unset_simps)

lemma screenshots_ListBatchJobs_query:
  "screenshots_ListBatchJobs (Some r)
       = Some (HTTPClient_Get (with_query (''/webdata/batch'') (present
           [(''environment'', screenshots_ListBatchJobsRequest.Environment r),
            (''projectId'', screenshots_ListBatchJobsRequest.ProjectID r),
            (''status'', screenshots_ListBatchJobsRequest.Status r),
            (''type'', Some ''screenshot''),
            (''limit'', map_option Itoa (screenshots_ListBatchJobsRequest.Limit r)),
            (''cursor'', screenshots_ListBatchJobsRequest.Cursor r)])))"
  proof -
  have "set_all
           [(''environment'', screenshots_ListBatchJobsRequest.Environment r),
            (''projectId'', screenshots_ListBatchJobsRequest.ProjectID r),
            (''status'', screenshots_ListBatchJobsRequest.Status r),
            (''type'', Some ''screenshot''),
            (''limit'', map_option Itoa (screenshots_ListBatchJobsRequest.Limit r)),
            (''cursor'', screenshots_ListBatchJobsRequest.Cursor r)] []
        = present
           [(''environment'', screenshots_ListBatchJobsRequest.Environment r),
            (''projectId'', screenshots_ListBatchJobsRequest.ProjectID r),
            (''status'', screenshots_ListBatchJobsRequest.Status r),
            (''type'', Some ''screenshot''),
            (''limit'', map_option Itoa (screenshots_ListBatchJobsRequest.Limit r)),
            (''cursor'', screenshots_ListBatchJobsRequest.Cursor r)]"
    by (subst set_all_fresh) simp_all
  then show ?thesis
    by (simp add: screenshots_ListBatchJobs_def set_all_def with_query_def Let_def Values_Set_present if_set_present
        HTTPClient_Get_def split del: if_split cong: if_cong)
qed

lemma screenshots_ListSchedules_nil:
  "screenshots_ListSchedules None = Some (HTTPClient_Get ''/webdata/schedules'')"
  by (simp add: screenshots_ListSchedules_def unset_simps)

lemma screenshots_ListSchedules_unset:
  "screenshots_ListSchedules (Some \<lparr>screenshots_ListSchedulesRequest.Environment = None,
         screenshots_ListSchedulesRequest.ProjectID = None,
         screenshots_ListSchedulesRequest.IsActive = None,
         screenshots_ListSchedulesRequest.Limit = None,
         screenshots_ListSchedulesRequest.Cursor = None\<rparr>)
       = Some (HTTPClient_Get (''/webdata/schedules'' @ ''?type=screenshot''))"
  by (simp add: screenshots_ListSchedules_def unset_simps)

lemma screenshots_ListSchedules_query:
  "screenshots_ListSchedules (Some r)
       = Some (HTTPClient_Get (with_query (''/webdata/schedules'') (present
           [(''environment'', screenshots_ListSchedulesRequest.Environment r),
            (''projectId'', screenshots_ListSchedulesRequest.ProjectID r),
            (''type'', Some ''screenshot''),
            (''isActive'', map_option FormatBool (screenshots_ListSchedulesRequest.IsActive r)),
            (''limit'', map_option Itoa (screenshots_ListSchedulesRequest.Limit r)),
            (''cursor'', screenshots_ListSchedulesRequest.Cursor r)])))"
  proof -
  have "set_all
           [(''environment'', screenshots_ListSchedulesRequest.Environment r),
            (''projectId'', screenshots_ListSchedulesRequest.ProjectID r),
            (''type'', Some ''screenshot''),
            (''isActive'', map_option FormatBool (screenshots_ListSchedulesRequest.IsActive r)),
            (''limit'', map_option Itoa (screenshots_ListSchedulesRequest.Limit r)),
            (''cursor'', screenshots_ListSchedulesRequest.Cursor r)] []
        = present
           [(''environment'', screenshots_ListSchedulesRequest.Environment r),
            (''projectId'', screenshots_ListSchedulesRequest.ProjectID r),
            (''type'', Some ''screenshot''),
            (''isActive'', map_option FormatBool (screenshots_ListSchedulesRequest.IsActive r)),
            (''limit'', map_option Itoa (screenshots_ListSchedulesRequest.Limit r)),
            (''cursor'', screenshots_ListSchedulesRequest.Cursor r)]"
    by (subst set_all_fresh) simp_all
  then show ?thesis
    by (simp add: screenshots_ListSchedules_def set_all_def with_query_def Let_def Values_Set_present if_set_present
        HTTPClient_Get_def split del: if_split cong: if_cong)
qed

lemma cdn_GetUsage_nil:
  "cdn_GetUsage rfc3339 None = Some (HTTPClient_Get ''/cdn/usage'')"
  by (simp add: cdn_GetUsage_def unset_simps)

lemma cdn_GetUsage_unset:
  "cdn_GetUsage rfc3339 (Some \<lparr>CdnUsageRequest.ProjectSlug = None,
         CdnUsageRequest.Environment = None,
         CdnUsageRequest.PeriodStart = None,
         CdnUsageRequest.PeriodEnd = None\<rparr>)
       = Some (HTTPClient_Get (''/cdn/usage''))"
  by (simp add: cdn_GetUsage_def unset_simps)

lemma cdn_GetUsage_query:
  "cdn_GetUsage rfc3339 (Some r)
       = Some (HTTPClient_Get (with_query (''/cdn/usage'') (present
           [(''projectSlug'', CdnUsageRequest.ProjectSlug r),
            (''environment'', CdnUsageRequest.Environment r),
            (''periodStart'', map_option rfc3339 (CdnUsageRequest.PeriodStart r)),
            (''periodEnd'', map_option rfc3339 (CdnUsageRequest.PeriodEnd r))])))"
  proof -
  have "set_all
           [(''projectSlug'', CdnUsageRequest.ProjectSlug r),
            (''environment'', CdnUsageRequest.Environment r),
            (''periodStart'', map_option rfc3339 (CdnUsageRequest.PeriodStart r)),
            (''periodEnd'', map_option rfc3339 (CdnUsageRequest.PeriodEnd r))] []
        = present
           [(''projectSlug'', CdnUsageRequest.ProjectSlug r),
            (''environment'', CdnUsageRequest.Environment r),
            (''periodStart'', map_option rfc3339 (CdnUsageRequest.PeriodStart r)),
            (''periodEnd'', map_option rfc3339 (CdnUsageRequest.PeriodEnd r))]"
    by (subst set_all_fresh) simp_all
  then show ?thesis
    by (simp add: cdn_GetUsage_def set_all_def with_query_def Let_def Values_Set_present if_set_present
        HTTPClient_Get_def split del: if_split cong: if_cong)
qed

lemma cdn_GetUsageHistory_nil:
  "cdn_GetUsageHistory None = Some (HTTPClient_Get ''/cdn/usage/history'')"
  by (simp add: cdn_GetUsageHistory_def unset_simps)

lemma cdn_GetUsageHistory_unset:
  "cdn_GetUsageHistory (Some \<lparr>CdnUsageHistoryRequest.ProjectSlug = None,
         CdnUsageHistoryRequest.Environment = None,
         CdnUsageHistoryRequest.Days = None,
         CdnUsageHistoryRequest.Granularity = None\<rparr>)
       = Some (HTTPClient_Get (''/cdn/usage/history''))"
  by (simp add: cdn_GetUsageHistory_def unset_simps)

lemma cdn_GetUsageHistory_query:
  "cdn_GetUsageHistory (Some r)
       = Some (HTTPClient_Get (with_query (''/cdn/usage/history'') (present
           [(''projectSlug'', CdnUsageHistoryRequest.ProjectSlug r),
            (''environment'', CdnUsageHistoryRequest.Environment r),
            (''days'', map_option Itoa (CdnUsageHistoryRequest.Days r)),
            (''granularity'', CdnUsageHistoryRequest.Granularity r)])))"
  proof -
  have "set_all
           [(''projectSlug'', CdnUsageHistoryRequest.ProjectSlug r),
            (''environment'', CdnUsageHistoryRequest.Environment r),
            (''days'', map_option Itoa (CdnUsageHistoryRequest.Days r)),
            (''granularity'', CdnUsageHistoryRequest.Granularity r)] []
        = present
           [(''projectSlug'', CdnUsageHistoryRequest.ProjectSlug r),
            (''environment'', CdnUsageHistoryRequest.Environment r),
            (''days'', map_option Itoa (CdnUsageHistoryRequest.Days r)),
            (''granularity'', CdnUsageHistoryRequest.Granularity r)]"
    by (subst set_all_fresh) simp_all
  then show ?thesis
    by (simp add: cdn_GetUsageHistory_def set_all_def with_query_def Let_def Values_Set_present if_set_present
        HTTPClient_Get_def split del: if_split cong: if_cong)
qed

lemma cdn_GetStorageBreakdown_nil:
  "cdn_GetStorageBreakdown None = Some (HTTPClient_Get ''/cdn/usage/storage-breakdown'')"
  by (simp add: cdn_GetStorageBreakdown_def unset_simps)

lemma cdn_GetStorageBreakdown_unset:
  "cdn_GetStorageBreakdown (Some \<lparr>CdnStorageBreakdownRequest.ProjectSlug = None,
         CdnStorageBreakdownRequest.Environment = None,
         CdnStorageBreakdownRequest.GroupBy = None\<rparr>)
       = Some (HTTPClient_Get (''/cdn/usage/storage-breakdown''))"
  by (simp add: cdn_GetStorageBreakdown_def unset_simps)

lemma cdn_GetStorageBreakdown_query:
  "cdn_GetStorageBreakdown (Some r)
       = Some (HTTPClient_Get (with_query (''/cdn/usage/storage-breakdown'') (present
           [(''projectSlug'', CdnStorageBreakdownRequest.ProjectSlug r),
            (''environment'', CdnStorageBreakdownRequest.Environment r),
            (''groupBy'', CdnStorageBreakdownRequest.GroupBy r)])))"
  proof -
  have "set_all
           [(''projectSlug'', CdnStorageBreakdownRequest.ProjectSlug r),
            (''environment'', CdnStorageBreakdownRequest.Environment r),
            (''groupBy'', CdnStorageBreakdownRequest.GroupBy r)] []
        = present
           [(''projectSlug'', CdnStorageBreakdownRequest.ProjectSlug r),
            (''environment'', CdnStorageBreakdownRequest.Environment r),
            (''groupBy'', CdnStorageBreakdownRequest.GroupBy r)]"
    by (subst set_all_fresh) simp_all
  then show ?thesis
    by (simp add: cdn_GetStorageBreakdown_def set_all_def with_query_def Let_def Values_Set_present if_set_present
        HTTPClient_Get_def split del: if_split cong: if_cong)
qed

lemma cdn_ListJobs_unset:
  "cdn_ListJobs (Some \<lparr>ListJobsRequest.ProjectSlug = projectSlug,
         ListJobsRequest.AssetID = None,
         ListJobsRequest.Status = None,
         ListJobsRequest.Limit = None,
         ListJobsRequest.Offset = None\<rparr>)
       = Some (HTTPClient_Get (''/cdn/video/jobs'' @ ''?projectSlug='' @ QueryEscape projectSlug))"
  by (simp add: cdn_ListJobs_def unset_simps)

lemma cdn_ListJobs_query:
  "cdn_ListJobs (Some r)
       = Some (HTTPClient_Get (''/cdn/video/jobs'' @ ''?'' @ Values_Encode (present
           [(''projectSlug'', Some (ListJobsRequest.ProjectSlug r)),
            (''assetId'', ListJobsRequest.AssetID r),
            (''status'', ListJobsRequest.Status r),
            (''limit'', map_option Itoa (ListJobsRequest.Limit r)),
            (''offset'', map_option Itoa (ListJobsRequest.Offset r))])))"
  proof -
  have "set_all
           [(''projectSlug'', Some (ListJobsRequest.ProjectSlug r)),
            (''assetId'', ListJobsRequest.AssetID r),
            (''status'', ListJobsRequest.Status r),
            (''limit'', map_option Itoa (ListJobsRequest.Limit r)),
            (''offset'', map_option Itoa (ListJobsRequest.Offset r))] []
        = present
           [(''projectSlug'', Some (ListJobsRequest.ProjectSlug r)),
            (''assetId'', ListJobsRequest.AssetID r),
            (''status'', ListJobsRequest.Status r),
            (''limit'', map_option Itoa (ListJobsRequest.Limit r)),
            (''offset'', map_option Itoa (ListJobsRequest.Offset r))]"
    by (subst set_all_fresh) simp_all
  then show ?thesis
    by (simp add: cdn_ListJobs_def set_all_def with_query_def Let_def Values_Set_present if_set_present
        HTTPClient_Get_def split del: if_split cong: if_cong)
qed

lemma cdn_ListMergeJobs_unset:
  "cdn_ListMergeJobs (Some \<lparr>ListMergeJobsRequest.ProjectSlug = projectSlug,
         ListMergeJobsRequest.Status = None,
         ListMergeJobsRequest.Limit = None,
         ListMergeJobsRequest.Offset = None\<rparr>)
       = Some (HTTPClient_Get (''/cdn/video/merge'' @ ''?projectSlug='' @ QueryEscape projectSlug))"
  by (simp add: cdn_ListMergeJobs_def unset_simps)

lemma cdn_ListMergeJobs_query:
  "cdn_ListMergeJobs (Some r)
       = Some (HTTPClient_Get (''/cdn/video/merge'' @ ''?'' @ Values_Encode (present
           [(''projectSlug'', Some (ListMergeJobsRequest.ProjectSlug r)),
            (''status'', ListMergeJobsRequest.Status r),
            (''limit'', map_option Itoa (ListMergeJobsRequest.Limit r)),
            (''offset'', map_option Itoa (ListMergeJobsRequest.Offset r))])))"
  proof -
  have "set_all
           [(''projectSlug'', Some (ListMergeJobsRequest.ProjectSlug r)),
            (''status'', ListMergeJobsRequest.Status r),
            (''limit'', map_option Itoa (ListMergeJobsRequest.Limit r)),
            (''offset'', map_option Itoa (ListMergeJobsRequest.Offset r))] []
        = present
           [(''projectSlug'', Some (ListMergeJobsRequest.ProjectSlug r)),
            (''status'', ListMergeJobsRequest.Status r),
            (''limit'', map_option Itoa (ListMergeJobsRequest.Limit r)),
            (''offset'', map_option Itoa (ListMergeJobsRequest.Offset r))]"
    by (subst set_all_fresh) simp_all
  then show ?thesis
    by (simp add: cdn_ListMergeJobs_def set_all_def with_query_def Let_def Values_Set_present if_set_present
        HTTPClient_Get_def split del: if_split cong: if_cong)
qed

lemma cdn_ListPrivateFiles_unset:
  "cdn_ListPrivateFiles (Some \<lparr>ListPrivateFilesRequest.ProjectSlug = projectSlug,
         ListPrivateFilesRequest.Folder = None,
         ListPrivateFilesRequest.Status = None,
         ListPrivateFilesRequest.Search = None,
         ListPrivateFilesRequest.SortBy = None,
         ListPrivateFilesRequest.SortOrder = None,
         ListPrivateFilesRequest.Limit = None,
         ListPrivateFilesRequest.Offset = None\<rparr>)
       = Some (HTTPClient_Get (''/cdn/private'' @ ''?projectSlug='' @ QueryEscape projectSlug))"
  by (simp add: cdn_ListPrivateFiles_def unset_simps)

lemma cdn_ListPrivateFiles_query:
  "cdn_ListPrivateFiles (Some r)
       = Some (HTTPClient_Get (''/cdn/private'' @ ''?'' @ Values_Encode (present
           [(''projectSlug'', Some (ListPrivateFilesRequest.ProjectSlug r)),
            (''folder'', ListPrivateFilesRequest.Folder r),
            (''status'', ListPrivateFilesRequest.Status r),
            (''search'', ListPrivateFilesRequest.Search r),
            (''sortBy'', ListPrivateFilesRequest.SortBy r),
            (''sortOrder'', ListPrivateFilesRequest.SortOrder r),
            (''limit'', map_option Itoa (ListPrivateFilesRequest.Limit r)),
            (''offset'', map_option Itoa (ListPrivateFilesRequest.Offset r))])))"
  proof -
  have "set_all
           [(''projectSlug'', Some (ListPrivateFilesRequest.ProjectSlug r)),
            (''folder'', ListPrivateFilesRequest.Folder r),
            (''status'', ListPrivateFilesRequest.Status r),
            (''search'', ListPrivateFilesRequest.Search r),
            (''sortBy'', ListPrivateFilesRequest.SortBy r),
            (''sortOrder'', ListPrivateFilesRequest.SortOrder r),
            (''limit'', map_option Itoa (ListPrivateFilesRequest.Limit r)),
            (''offset'', map_option Itoa (ListPrivateFilesRequest.Offset r))] []
        = present
           [(''projectSlug'', Some (ListPrivateFilesRequest.ProjectSlug r)),
            (''folder'', ListPrivateFilesRequest.Folder r),
            (''status'', ListPrivateFilesRequest.Status r),
            (''search'', ListPrivateFilesRequest.Search r),
            (''sortBy'', ListPrivateFilesRequest.SortBy r),
            (''sortOrder'', ListPrivateFilesRequest.SortOrder r),
            (''limit'', map_option Itoa (ListPrivateFilesRequest.Limit r)),
            (''offset'', map_option Itoa (ListPrivateFilesRequest.Offset r))]"
    by (subst set_all_fresh) simp_all
  then show ?thesis
    by (simp add: cdn_ListPrivateFiles_def set_all_def with_query_def Let_def Values_Set_present if_set_present
        HTTPClient_Get_def split del: if_split cong: if_cong)
qed

lemma cdn_ListBundles_unset:
  "cdn_ListBundles (Some \<lparr>ListBundlesRequest.ProjectSlug = projectSlug,
         ListBundlesRequest.Status = None,
         ListBundlesRequest.Search = None,
         ListBundlesRequest.Limit = None,
         ListBundlesRequest.Offset = None\<rparr>)
       = Some (HTTPClient_Get (''/cdn/bundles'' @ ''?projectSlug='' @ QueryEscape projectSlug))"
  by (simp add: cdn_ListBundles_def unset_simps)

lemma cdn_ListBundles_query:
  "cdn_ListBundles (Some r)
       = Some (HTTPClient_Get (''/cdn/bundles'' @ ''?'' @ Values_Encode (present
           [(''projectSlug'', Some (ListBundlesRequest.ProjectSlug r)),
            (''status'', ListBundlesRequest.Status r),
            (''search'', ListBundlesRequest.Search r),
            (''limit'', map_option Itoa (ListBundlesRequest.Limit r)),
            (''offset'', map_option Itoa (ListBundlesRequest.Offset r))])))"
  proof -
  have "set_all
           [(''projectSlug'', Some (ListBundlesRequest.ProjectSlug r)),
            (''status'', ListBundlesRequest.Status r),
            (''search'', ListBundlesRequest.Search r),
            (''limit'', map_option Itoa (ListBundlesRequest.Limit r)),
            (''offset'', map_option Itoa (ListBundlesRequest.Offset r))] []
        = present
           [(''projectSlug'', Some (ListBundlesRequest.ProjectSlug r)),
            (''status'', ListBundlesRequest.Status r),
            (''search'', ListBundlesRequest.Search r),
            (''limit'', map_option Itoa (ListBundlesRequest.Limit r)),
            (''offset'', map_option Itoa (ListBundlesRequest.Offset r))]"
    by (subst set_all_fresh) simp_all
  then show ?thesis
    by (simp add: cdn_ListBundles_def set_all_def with_query_def Let_def Values_Set_present if_set_present
        HTTPClient_Get_def split del: if_split cong: if_cong)
qed

lemma cdn_List_unset:
  "cdn_List (Some \<lparr>ListAssetsRequest.ProjectSlug = projectSlug,
         ListAssetsRequest.Folder = None,
         ListAssetsRequest.Type = None,
         ListAssetsRequest.Status = None,
         ListAssetsRequest.Search = None,
         ListAssetsRequest.Tags = [],
         ListAssetsRequest.SortBy = None,
         ListAssetsRequest.SortOrder = None,
         ListAssetsRequest.Limit = None,
         ListAssetsRequest.Offset = None\<rparr>)
       = Some (HTTPClient_Get (''/cdn/assets'' @ ''?projectSlug='' @ QueryEscape projectSlug))"
  by (simp add: cdn_List_def unset_simps)

lemma cdn_List_query:
  "cdn_List (Some r)
       = Some (HTTPClient_Get (''/cdn/assets'' @ ''?'' @ Values_Encode (present
           [(''projectSlug'', Some (ListAssetsRequest.ProjectSlug r)),
            (''folder'', ListAssetsRequest.Folder r),
            (''type'', ListAssetsRequest.Type r),
            (''status'', ListAssetsRequest.Status r),
            (''search'', ListAssetsRequest.Search r),
            (''tags'', if 0 < length (ListAssetsRequest.Tags r) then Some (Join (ListAssetsRequest.Tags r) '','') else None),
            (''sortBy'', ListAssetsRequest.SortBy r),
            (''sortOrder'', ListAssetsRequest.SortOrder r),
            (''limit'', map_option Itoa (ListAssetsRequest.Limit r)),
            (''offset'', map_option Itoa (ListAssetsRequest.Offset r))])))"
  proof -
  have "set_all
           [(''projectSlug'', Some (ListAssetsRequest.ProjectSlug r)),
            (''folder'', ListAssetsRequest.Folder r),
            (''type'', ListAssetsRequest.Type r),
            (''status'', ListAssetsRequest.Status r),
            (''search'', ListAssetsRequest.Search r),
            (''tags'', if 0 < length (ListAssetsRequest.Tags r) then Some (Join (ListAssetsRequest.Tags r) '','') else None),
            (''sortBy'', ListAssetsRequest.SortBy r),
            (''sortOrder'', ListAssetsRequest.SortOrder r),
            (''limit'', map_option Itoa (ListAssetsRequest.Limit r)),
            (''offset'', map_option Itoa (ListAssetsRequest.Offset r))] []
        = present
           [(''projectSlug'', Some (ListAssetsRequest.ProjectSlug r)),
            (''folder'', ListAssetsRequest.Folder r),
            (''type'', ListAssetsRequest.Type r),
            (''status'', ListAssetsRequest.Status r),
            (''search'', ListAssetsRequest.Search r),
            (''tags'', if 0 < length (ListAssetsRequest.Tags r) then Some (Join (ListAssetsRequest.Tags r) '','') else None),
            (''sortBy'', ListAssetsRequest.SortBy r),
            (''sortOrder'', ListAssetsRequest.SortOrder r),
            (''limit'', map_option Itoa (ListAssetsRequest.Limit r)),
            (''offset'', map_option Itoa (ListAssetsRequest.Offset r))]"
    by (subst set_all_fresh) simp_all
  then show ?thesis
    by (simp add: cdn_List_def set_all_def with_query_def Let_def Values_Set_present if_set_present
        HTTPClient_Get_def split del: if_split cong: if_cong)
qed

lemma cdn_GetFolderTree_unset:
  "cdn_GetFolderTree (Some \<lparr>GetFolderTreeRequest.ProjectSlug = projectSlug,
         GetFolderTreeRequest.MaxDepth = None\<rparr>)
       = Some (HTTPClient_Get (''/cdn/folders/tree'' @ ''?projectSlug='' @ QueryEscape projectSlug))"
  by (simp add: cdn_GetFolderTree_def unset_simps)

lemma cdn_GetFolderTree_query:
  "cdn_GetFolderTree (Some r)
       = Some (HTTPClient_Get (''/cdn/folders/tree'' @ ''?'' @ Values_Encode (present
           [(''projectSlug'', Some (GetFolderTreeRequest.ProjectSlug r)),
            (''maxDepth'', map_option Itoa (GetFolderTreeRequest.MaxDepth r))])))"
  proof -
  have "set_all
           [(''projectSlug'', Some (GetFolderTreeRequest.ProjectSlug r)),
            (''maxDepth'', map_option Itoa (GetFolderTreeRequest.MaxDepth r))] []
        = present
           [(''projectSlug'', Some (GetFolderTreeRequest.ProjectSlug r)),
            (''maxDepth'', map_option Itoa (GetFolderTreeRequest.MaxDepth r))]"
    by (subst set_all_fresh) simp_all
  then show ?thesis
    by (simp add: cdn_GetFolderTree_def set_all_def with_query_def Let_def Values_Set_present if_set_present
        HTTPClient_Get_def split del: if_split cong: if_cong)
qed

lemma cdn_ListFolders_nil:
  "cdn_ListFolders None = Some (HTTPClient_Get ''/cdn/folders'')"
  by (simp add: cdn_ListFolders_def unset_simps)

lemma cdn_ListFolders_unset:
  "cdn_ListFolders (Some \<lparr>ListFoldersRequest.ParentID = None,
         ListFoldersRequest.Limit = None,
         ListFoldersRequest.Offset = None,
         ListFoldersRequest.Search = None\<rparr>)
       = Some (HTTPClient_Get (''/cdn/folders''))"
  by (simp add: cdn_ListFolders_def unset_simps)

lemma cdn_ListFolders_query:
  "cdn_ListFolders (Some r)
       = Some (HTTPClient_Get (with_query (''/cdn/folders'') (present
           [(''parentId'', ListFoldersRequest.ParentID r),
            (''limit'', map_option Itoa (ListFoldersRequest.Limit r)),
            (''offset'', map_option Itoa (ListFoldersRequest.Offset r)),
            (''search'', ListFoldersRequest.Search r)])))"
  proof -
  have "set_all
           [(''parentId'', ListFoldersRequest.ParentID r),
            (''limit'', map_option Itoa (ListFoldersRequest.Limit r)),
            (''offset'', map_option Itoa (ListFoldersRequest.Offset r)),
            (''search'', ListFoldersRequest.Search r)] []
        = present
           [(''parentId'', ListFoldersRequest.ParentID r),
            (''limit'', map_option Itoa (ListFoldersRequest.Limit r)),
            (''offset'', map_option Itoa (ListFoldersRequest.Offset r)),
            (''search'', ListFoldersRequest.Search r)]"
    by (subst set_all_fresh) simp_all
  then show ?thesis
    by (simp add: cdn_ListFolders_def set_all_def with_query_def Let_def Values_Set_present if_set_present
        HTTPClient_Get_def split del: if_split cong: if_cong)
qed

lemma cdn_ListImports_unset:
  "cdn_ListImports (Some \<lparr>ListImportsRequest.ProjectSlug = projectSlug,
         ListImportsRequest.Environment = None,
         ListImportsRequest.Status = None,
         ListImportsRequest.SortBy = None,
         ListImportsRequest.SortOrder = None,
         ListImportsRequest.Limit = None,
         ListImportsRequest.Offset = None\<rparr>)
       = Some (HTTPClient_Get (''/cdn/imports'' @ ''?projectSlug='' @ QueryEscape projectSlug))"
  by (simp add: cdn_ListImports_def unset_simps)

lemma cdn_ListImports_query:
  "cdn_ListImports (Some r)
       = Some (HTTPClient_Get (''/cdn/imports'' @ ''?'' @ Values_Encode (present
           [(''projectSlug'', Some (ListImportsRequest.ProjectSlug r)),
            (''environment'', ListImportsRequest.Environment r),
            (''status'', ListImportsRequest.Status r),
            (''sortBy'', ListImportsRequest.SortBy r),
            (''sortOrder'', ListImportsRequest.SortOrder r),
            (''limit'', map_option Itoa (ListImportsRequest.Limit r)),
            (''offset'', map_option Itoa (ListImportsRequest.Offset r))])))"
  proof -
  have "set_all
           [(''projectSlug'', Some (ListImportsRequest.ProjectSlug r)),
            (''environment'', ListImportsRequest.Environment r),
            (''status'', ListImportsRequest.Status r),
            (''sortBy'', ListImportsRequest.SortBy r),
            (''sortOrder'', ListImportsRequest.SortOrder r),
            (''limit'', map_option Itoa (ListImportsRequest.Limit r)),
            (''offset'', map_option Itoa (ListImportsRequest.Offset r))] []
        = present
           [(''projectSlug'', Some (ListImportsRequest.ProjectSlug r)),
            (''environment'', ListImportsRequest.Environment r),
            (''status'', ListImportsRequest.Status r),
            (''sortBy'', ListImportsRequest.SortBy r),
            (''sortOrder'', ListImportsRequest.SortOrder r),
            (''limit'', map_option Itoa (ListImportsRequest.Limit r)),
            (''offset'', map_option Itoa (ListImportsRequest.Offset r))]"
    by (subst set_all_fresh) simp_all
  then show ?thesis
    by (simp add: cdn_ListImports_def set_all_def with_query_def Let_def Values_Set_present if_set_present
        HTTPClient_Get_def split del: if_split cong: if_cong)
qed

lemma cdn_ListImportFiles_unset:
  "cdn_ListImportFiles (Some \<lparr>ListImportFilesRequest.ImportID = importID,
         ListImportFilesRequest.Status = None,
         ListImportFilesRequest.SortBy = None,
         ListImportFilesRequest.SortOrder = None,
         ListImportFilesRequest.Limit = None,
         ListImportFilesRequest.Offset = None\<rparr>)
       = Some (HTTPClient_Get (''/cdn/imports/'' @ importID @ ''/files''))"
  by (simp add: cdn_ListImportFiles_def unset_simps)

lemma cdn_ListImportFiles_query:
  "cdn_ListImportFiles (Some r)
       = Some (HTTPClient_Get (with_query (''/cdn/imports/'' @ ListImportFilesRequest.ImportID r @ ''/files'') (present
           [(''status'', ListImportFilesRequest.Status r),
            (''sortBy'', ListImportFilesRequest.SortBy r),
            (''sortOrder'', ListImportFilesRequest.SortOrder r),
            (''limit'', map_option Itoa (ListImportFilesRequest.Limit r)),
            (''offset'', map_option Itoa (ListImportFilesRequest.Offset r))])))"
  proof -
  have "set_all
           [(''status'', ListImportFilesRequest.Status r),
            (''sortBy'', ListImportFilesRequest.SortBy r),
            (''sortOrder'', ListImportFilesRequest.SortOrder r),
            (''limit'', map_option Itoa (ListImportFilesRequest.Limit r)),
            (''offset'', map_option Itoa (ListImportFilesRequest.Offset r))] []
        = present
           [(''status'', ListImportFilesRequest.Status r),
            (''sortBy'', ListImportFilesRequest.SortBy r),
            (''sortOrder'', ListImportFilesRequest.SortOrder r),
            (''limit'', map_option Itoa (ListImportFilesRequest.Limit r)),
            (''offset'', map_option Itoa (ListImportFilesRequest.Offset r))]"
    by (subst set_all_fresh) simp_all
  then show ?thesis
    by (simp add: cdn_ListImportFiles_def set_all_def with_query_def Let_def Values_Set_present if_set_present
        HTTPClient_Get_def split del: if_split cong: if_cong)
qed

lemma mail_List_nil:
  "mail_List rfc3339 None = Some (HTTPClient_Get ''/mail'')"
  by (simp add: mail_List_def unset_simps)

lemma mail_List_unset:
  "mail_List rfc3339 (Some \<lparr>ListEmailsRequest.ProjectSlug = None,
         ListEmailsRequest.Environment = None,
         ListEmailsRequest.Limit = None,
         ListEmailsRequest.Offset = None,
         ListEmailsRequest.Status = None,
         ListEmailsRequest.From = None,
         ListEmailsRequest.To = None,
         ListEmailsRequest.Subject = None,
         ListEmailsRequest.Tag = None,
         ListEmailsRequest.StartDate = None,
         ListEmailsRequest.EndDate = None,
         ListEmailsRequest.SortBy = None,
         ListEmailsRequest.SortOrder = None\<rparr>)
       = Some (HTTPClient_Get (''/mail''))"
  by (simp add: mail_List_def unset_simps)

lemma mail_List_query:
  "mail_List rfc3339 (Some r)
       = Some (HTTPClient_Get (with_query (''/mail'') (present
           [(''projectSlug'', ListEmailsRequest.ProjectSlug r),
            (''environment'', ListEmailsRequest.Environment r),
            (''limit'', map_option Itoa (ListEmailsRequest.Limit r)),
            (''offset'', map_option Itoa (ListEmailsRequest.Offset r)),
            (''status'', ListEmailsRequest.Status r),
            (''from'', ListEmailsRequest.From r),
            (''to'', ListEmailsRequest.To r),
            (''subject'', ListEmailsRequest.Subject r),
            (''tag'', ListEmailsRequest.Tag r),
            (''startDate'', map_option rfc3339 (ListEmailsRequest.StartDate r)),
            (''endDate'', map_option rfc3339 (ListEmailsRequest.EndDate r)),
            (''sortBy'', ListEmailsRequest.SortBy r),
            (''sortOrder'', ListEmailsRequest.SortOrder r)])))"
  proof -
  have "set_all
           [(''projectSlug'', ListEmailsRequest.ProjectSlug r),
            (''environment'', ListEmailsRequest.Environment r),
            (''limit'', map_option Itoa (ListEmailsRequest.Limit r)),
            (''offset'', map_option Itoa (ListEmailsRequest.Offset r)),
            (''status'', ListEmailsRequest.Status r),
            (''from'', ListEmailsRequest.From r),
            (''to'', ListEmailsRequest.To r),
            (''subject'', ListEmailsRequest.Subject r),
            (''tag'', ListEmailsRequest.Tag r),
            (''startDate'', map_option rfc3339 (ListEmailsRequest.StartDate r)),
            (''endDate'', map_option rfc3339 (ListEmailsRequest.EndDate r)),
            (''sortBy'', ListEmailsRequest.SortBy r),
            (''sortOrder'', ListEmailsRequest.SortOrder r)] []
        = present
           [(''projectSlug'', ListEmailsRequest.ProjectSlug r),
            (''environment'', ListEmailsRequest.Environment r),
            (''limit'', map_option Itoa (ListEmailsRequest.Limit r)),
            (''offset'', map_option Itoa (ListEmailsRequest.Offset r)),
            (''status'', ListEmailsRequest.Status r),
            (''from'', ListEmailsRequest.From r),
            (''to'', ListEmailsRequest.To r),
            (''subject'', ListEmailsRequest.Subject r),
            (''tag'', ListEmailsRequest.Tag r),
            (''startDate'', map_option rfc3339 (ListEmailsRequest.StartDate r)),
            (''endDate'', map_option rfc3339 (ListEmailsRequest.EndDate r)),
            (''sortBy'', ListEmailsRequest.SortBy r),
            (''sortOrder'', ListEmailsRequest.SortOrder r)]"
    by (subst set_all_fresh) simp_all
  then show ?thesis
    by (simp add: mail_List_def set_all_def with_query_def Let_def Values_Set_present if_set_present
        HTTPClient_Get_def split del: if_split cong: if_cong)
qed

lemma mail_ListSenders_nil:
  "mail_ListSenders None = Some (HTTPClient_Get ''/mail/senders'')"
  by (simp add: mail_ListSenders_def unset_simps)

lemma mail_ListSenders_unset:
  "mail_ListSenders (Some \<lparr>ListSendersRequest.ProjectSlug = None,
         ListSendersRequest.Environment = None,
         ListSendersRequest.Search = None\<rparr>)
       = Some (HTTPClient_Get (''/mail/senders''))"
  by (simp add: mail_ListSenders_def unset_simps)

lemma mail_ListSenders_query:
  "mail_ListSenders (Some r)
       = Some (HTTPClient_Get (with_query (''/mail/senders'') (present
           [(''projectSlug'', ListSendersRequest.ProjectSlug r),
            (''environment'', ListSendersRequest.Environment r),
            (''search'', ListSendersRequest.Search r)])))"
  proof -
  have "set_all
           [(''projectSlug'', ListSendersRequest.ProjectSlug r),
            (''environment'', ListSendersRequest.Environment r),
            (''search'', ListSendersRequest.Search r)] []
        = present
           [(''projectSlug'', ListSendersRequest.ProjectSlug r),
            (''environment'', ListSendersRequest.Environment r),
            (''search'', ListSendersRequest.Search r)]"
    by (subst set_all_fresh) simp_all
  then show ?thesis
    by (simp add: mail_ListSenders_def set_all_def with_query_def Let_def Values_Set_present if_set_present
        HTTPClient_Get_def split del: if_split cong: if_cong)
qed

lemma mail_Campaigns_List_nil:
  "mail_Campaigns_List None = Some (HTTPClient_Get ''/mail/campaigns'')"
  by (simp add: mail_Campaigns_List_def unset_simps)

lemma mail_Campaigns_List_unset:
  "mail_Campaigns_List (Some \<lparr>ListCampaignsRequest.Environment = None,
         ListCampaignsRequest.Limit = None,
         ListCampaignsRequest.Offset = None,
         ListCampaignsRequest.Search = None,
         ListCampaignsRequest.Status = None\<rparr>)
       = Some (HTTPClient_Get (''/mail/campaigns''))"
  by (simp add: mail_Campaigns_List_def unset_simps)

lemma mail_Campaigns_List_query:
  "mail_Campaigns_List (Some r)
       = Some (HTTPClient_Get (with_query (''/mail/campaigns'') (present
           [(''environment'', ListCampaignsRequest.Environment r),
            (''limit'', map_option Itoa (ListCampaignsRequest.Limit r)),
            (''offset'', map_option Itoa (ListCampaignsRequest.Offset r)),
            (''search'', ListCampaignsRequest.Search r),
            (''status'', ListCampaignsRequest.Status r)])))"
  proof -
  have "set_all
           [(''environment'', ListCampaignsRequest.Environment r),
            (''limit'', map_option Itoa (ListCampaignsRequest.Limit r)),
            (''offset'', map_option Itoa (ListCampaignsRequest.Offset r)),
            (''search'', ListCampaignsRequest.Search r),
            (''status'', ListCampaignsRequest.Status r)] []
        = present
           [(''environment'', ListCampaignsRequest.Environment r),
            (''limit'', map_option Itoa (ListCampaignsRequest.Limit r)),
            (''offset'', map_option Itoa (ListCampaignsRequest.Offset r)),
            (''search'', ListCampaignsRequest.Search r),
            (''status'', ListCampaignsRequest.Status r)]"
    by (subst set_all_fresh) simp_all
  then show ?thesis
    by (simp add: mail_Campaigns_List_def set_all_def with_query_def Let_def Values_Set_present if_set_present
        HTTPClient_Get_def split del: if_split cong: if_cong)
qed

lemma mail_Domains_List_unset:
  "mail_Domains_List (Some \<lparr>ListDomainsRequest.ProjectSlug = projectSlug,
         ListDomainsRequest.Environment = None\<rparr>)
       = Some (HTTPClient_Get (''/mail/domains'' @ ''?projectSlug='' @ QueryEscape projectSlug))"
  by (simp add: mail_Domains_List_def unset_simps)

lemma mail_Domains_List_query:
  "mail_Domains_List (Some r)
       = Some (HTTPClient_Get (''/mail/domains'' @ ''?'' @ Values_Encode (present
           [(''projectSlug'', Some (ListDomainsRequest.ProjectSlug r)),
            (''environment'', ListDomainsRequest.Environment r)])))"
  proof -
  have "set_all
           [(''projectSlug'', Some (ListDomainsRequest.ProjectSlug r)),
            (''environment'', ListDomainsRequest.Environment r)] []
        = present
           [(''projectSlug'', Some (ListDomainsRequest.ProjectSlug r)),
            (''environment'', ListDomainsRequest.Environment r)]"
    by (subst set_all_fresh) simp_all
  then show ?thesis
    by (simp add: mail_Domains_List_def set_all_def with_query_def Let_def Values_Set_present if_set_present
        HTTPClient_Get_def split del: if_split cong: if_cong)
qed

lemma mail_Events_List_nil:
  "mail_Events_List None = Some (HTTPClient_Get ''/mail/events'')"
  by (simp add: mail_Events_List_def unset_simps)

lemma mail_Events_List_unset:
  "mail_Events_List (Some \<lparr>ListEventsRequest.ProjectSlug = None,
         ListEventsRequest.Environment = None,
         ListEventsRequest.Limit = None,
         ListEventsRequest.Offset = None,
         ListEventsRequest.Search = None\<rparr>)
       = Some (HTTPClient_Get (''/mail/events''))"
  by (simp add: mail_Events_List_def unset_simps)

lemma mail_Events_List_query:
  "mail_Events_List (Some r)
       = Some (HTTPClient_Get (with_query (''/mail/events'') (present
           [(''projectSlug'', ListEventsRequest.ProjectSlug r),
            (''environment'', ListEventsRequest.Environment r),
            (''limit'', map_option Itoa (ListEventsRequest.Limit r)),
            (''offset'', map_option Itoa (ListEventsRequest.Offset r)),
            (''search'', ListEventsRequest.Search r)])))"
  proof -
  have "set_all
           [(''projectSlug'', ListEventsRequest.ProjectSlug r),
            (''environment'', ListEventsRequest.Environment r),
            (''limit'', map_option Itoa (ListEventsRequest.Limit r)),
            (''offset'', map_option Itoa (ListEventsRequest.Offset r)),
            (''search'', ListEventsRequest.Search r)] []
        = present
           [(''projectSlug'', ListEventsRequest.ProjectSlug r),
            (''environment'', ListEventsRequest.Environment r),
            (''limit'', map_option Itoa (ListEventsRequest.Limit r)),
            (''offset'', map_option Itoa (ListEventsRequest.Offset r)),
            (''search'', ListEventsRequest.Search r)]"
    by (subst set_all_fresh) simp_all
  then show ?thesis
    by (simp add: mail_Events_List_def set_all_def with_query_def Let_def Values_Set_present if_set_present
        HTTPClient_Get_def split del: if_split cong: if_cong)
qed

lemma mail_Events_ListOccurrences_nil:
  "mail_Events_ListOccurrences rfc3339 None = Some (HTTPClient_Get ''/mail/events/occurrences'')"
  by (simp add: mail_Events_ListOccurrences_def unset_simps)

lemma mail_Events_ListOccurrences_unset:
  "mail_Events_ListOccurrences rfc3339 (Some \<lparr>ListEventOccurrencesRequest.EventID = None,
         ListEventOccurrencesRequest.ContactID = None,
         ListEventOccurrencesRequest.StartDate = None,
         ListEventOccurrencesRequest.EndDate = None,
         ListEventOccurrencesRequest.Limit = None,
         ListEventOccurrencesRequest.Offset = None\<rparr>)
       = Some (HTTPClient_Get (''/mail/events/occurrences''))"
  by (simp add: mail_Events_ListOccurrences_def unset_simps)

lemma mail_Events_ListOccurrences_query:
  "mail_Events_ListOccurrences rfc3339 (Some r)
       = Some (HTTPClient_Get (with_query (''/mail/events/occurrences'') (present
           [(''eventId'', ListEventOccurrencesRequest.EventID r),
            (''contactId'', ListEventOccurrencesRequest.ContactID r),
            (''limit'', map_option Itoa (ListEventOccurrencesRequest.Limit r)),
            (''offset'', map_option Itoa (ListEventOccurrencesRequest.Offset r)),
            (''startDate'', map_option rfc3339 (ListEventOccurrencesRequest.StartDate r)),
            (''endDate'', map_option rfc3339 (ListEventOccurrencesRequest.EndDate r))])))"
  proof -
  have "set_all
           [(''eventId'', ListEventOccurrencesRequest.EventID r),
            (''contactId'', ListEventOccurrencesRequest.ContactID r),
            (''limit'', map_option Itoa (ListEventOccurrencesRequest.Limit r)),
            (''offset'', map_option Itoa (ListEventOccurrencesRequest.Offset r)),
            (''startDate'', map_option rfc3339 (ListEventOccurrencesRequest.StartDate r)),
            (''endDate'', map_option rfc3339 (ListEventOccurrencesRequest.EndDate r))] []
        = present
           [(''eventId'', ListEventOccurrencesRequest.EventID r),
            (''contactId'', ListEventOccurrencesRequest.ContactID r),
            (''limit'', map_option Itoa (ListEventOccurrencesRequest.Limit r)),
            (''offset'', map_option Itoa (ListEventOccurrencesRequest.Offset r)),
            (''startDate'', map_option rfc3339 (ListEventOccurrencesRequest.StartDate r)),
            (''endDate'', map_option rfc3339 (ListEventOccurrencesRequest.EndDate r))]"
    by (subst set_all_fresh) simp_all
  then show ?thesis
    by (simp add: mail_Events_ListOccurrences_def set_all_def with_query_def Let_def Values_Set_present if_set_present
        HTTPClient_Get_def split del: if_split cong: if_cong)
qed

lemma mail_Sequences_List_nil:
  "mail_Sequences_List None = Some (HTTPClient_Get ''/mail/sequences'')"
  by (simp add: mail_Sequences_List_def unset_simps)

lemma mail_Sequences_List_unset:
  "mail_Sequences_List (Some \<lparr>ListSequencesRequest.Environment = None,
         ListSequencesRequest.Limit = None,
         ListSequencesRequest.Offset = None,
         ListSequencesRequest.Search = None,
         ListSequencesRequest.Status = None,
         ListSequencesRequest.TriggerType = None\<rparr>)
       = Some (HTTPClient_Get (''/mail/sequences''))"
  by (simp add: mail_Sequences_List_def unset_simps)

lemma mail_Sequences_List_query:
  "mail_Sequences_List (Some r)
       = Some (HTTPClient_Get (with_query (''/mail/sequences'') (present
           [(''environment'', ListSequencesRequest.Environment r),
            (''limit'', map_option Itoa (ListSequencesRequest.Limit r)),
            (''offset'', map_option Itoa (ListSequencesRequest.Offset r)),
            (''search'', ListSequencesRequest.Search r),
            (''status'', ListSequencesRequest.Status r),
            (''triggerType'', ListSequencesRequest.TriggerType r)])))"
  proof -
  have "set_all
           [(''environment'', ListSequencesRequest.Environment r),
            (''limit'', map_option Itoa (ListSequencesRequest.Limit r)),
            (''offset'', map_option Itoa (ListSequencesRequest.Offset r)),
            (''search'', ListSequencesRequest.Search r),
            (''status'', ListSequencesRequest.Status r),
            (''triggerType'', ListSequencesRequest.TriggerType r)] []
        = present
           [(''environment'', ListSequencesRequest.Environment r),
            (''limit'', map_option Itoa (ListSequencesRequest.Limit r)),
            (''offset'', map_option Itoa (ListSequencesRequest.Offset r)),
            (''search'', ListSequencesRequest.Search r),
            (''status'', ListSequencesRequest.Status r),
            (''triggerType'', ListSequencesRequest.TriggerType r)]"
    by (subst set_all_fresh) simp_all
  then show ?thesis
    by (simp add: mail_Sequences_List_def set_all_def with_query_def Let_def Values_Set_present if_set_present
        HTTPClient_Get_def split del: if_split cong: if_cong)
qed

lemma mail_Sequences_ListEntries_unset:
  "mail_Sequences_ListEntries (Some \<lparr>ListSequenceEntriesRequest.ID = ident,
         ListSequenceEntriesRequest.Status = None,
         ListSequenceEntriesRequest.Limit = None,
         ListSequenceEntriesRequest.Offset = None\<rparr>)
       = Some (HTTPClient_Get (''/mail/sequences/'' @ ident @ ''/entries''))"
  by (simp add: mail_Sequences_ListEntries_def unset_simps)

lemma mail_Sequences_ListEntries_query:
  "mail_Sequences_ListEntries (Some r)
       = Some (HTTPClient_Get (with_query (''/mail/sequences/'' @ ListSequenceEntriesRequest.ID r @ ''/entries'') (present
           [(''limit'', map_option Itoa (ListSequenceEntriesRequest.Limit r)),
            (''offset'', map_option Itoa (ListSequenceEntriesRequest.Offset r)),
            (''status'', ListSequenceEntriesRequest.Status r)])))"
  proof -
  have "set_all
           [(''limit'', map_option Itoa (ListSequenceEntriesRequest.Limit r)),
            (''offset'', map_option Itoa (ListSequenceEntriesRequest.Offset r)),
            (''status'', ListSequenceEntriesRequest.Status r)] []
        = present
           [(''limit'', map_option Itoa (ListSequenceEntriesRequest.Limit r)),
            (''offset'', map_option Itoa (ListSequenceEntriesRequest.Offset r)),
            (''status'', ListSequenceEntriesRequest.Status r)]"
    by (subst set_all_fresh) simp_all
  then show ?thesis
    by (simp add: mail_Sequences_ListEntries_def set_all_def with_query_def Let_def Values_Set_present if_set_present
        HTTPClient_Get_def split del: if_split cong: if_cong)
qed

lemma mail_Templates_List_nil:
  "mail_Templates_List None = Some (HTTPClient_Get ''/mail/templates'')"
  by (simp add: mail_Templates_List_def unset_simps)

lemma mail_Templates_List_unset:
  "mail_Templates_List (Some \<lparr>ListTemplatesRequest.Environment = None,
         ListTemplatesRequest.Limit = None,
         ListTemplatesRequest.Offset = None,
         ListTemplatesRequest.IsActive = None,
         ListTemplatesRequest.Search = None\<rparr>)
       = Some (HTTPClient_Get (''/mail/templates''))"
  by (simp add: mail_Templates_List_def unset_simps)

lemma mail_Templates_List_query:
  "mail_Templates_List (Some r)
       = Some (HTTPClient_Get (with_query (''/mail/templates'') (present
           [(''environment'', ListTemplatesRequest.Environment r),
            (''limit'', map_option Itoa (ListTemplatesRequest.Limit r)),
            (''offset'', map_option Itoa (ListTemplatesRequest.Offset r)),
            (''isActive'', map_option FormatBool (ListTemplatesRequest.IsActive r)),
            (''search'', ListTemplatesRequest.Search r)])))"
  proof -
  have "set_all
           [(''environment'', ListTemplatesRequest.Environment r),
            (''limit'', map_option Itoa (ListTemplatesRequest.Limit r)),
            (''offset'', map_option Itoa (ListTemplatesRequest.Offset r)),
            (''isActive'', map_option FormatBool (ListTemplatesRequest.IsActive r)),
            (''search'', ListTemplatesRequest.Search r)] []
        = present
           [(''environment'', ListTemplatesRequest.Environment r),
            (''limit'', map_option Itoa (ListTemplatesRequest.Limit r)),
            (''offset'', map_option Itoa (ListTemplatesRequest.Offset r)),
            (''isActive'', map_option FormatBool (ListTemplatesRequest.IsActive r)),
            (''search'', ListTemplatesRequest.Search r)]"
    by (subst set_all_fresh) simp_all
  then show ?thesis
    by (simp add: mail_Templates_List_def set_all_def with_query_def Let_def Values_Set_present if_set_present
        HTTPClient_Get_def split del: if_split cong: if_cong)
qed

lemma mail_Audiences_List_nil:
  "mail_Audiences_List None = Some (HTTPClient_Get ''/mail/audiences'')"
  by (simp add: mail_Audiences_List_def unset_simps)

lemma mail_Audiences_List_unset:
  "mail_Audiences_List (Some \<lparr>ListAudiencesRequest.Environment = None,
         ListAudiencesRequest.Limit = None,
         ListAudiencesRequest.Offset = None,
         ListAudiencesRequest.Search = None\<rparr>)
       = Some (HTTPClient_Get (''/mail/audiences''))"
  by (simp add: mail_Audiences_List_def unset_simps)

lemma mail_Audiences_List_query:
  "mail_Audiences_List (Some r)
       = Some (HTTPClient_Get (with_query (''/mail/audiences'') (present
           [(''environment'', ListAudiencesRequest.Environment r),
            (''limit'', map_option Itoa (ListAudiencesRequest.Limit r)),
            (''offset'', map_option Itoa (ListAudiencesRequest.Offset r)),
            (''search'', ListAudiencesRequest.Search r)])))"
  proof -
  have "set_all
           [(''environment'', ListAudiencesRequest.Environment r),
            (''limit'', map_option Itoa (ListAudiencesRequest.Limit r)),
            (''offset'', map_option Itoa (ListAudiencesRequest.Offset r)),
            (''search'', ListAudiencesRequest.Search r)] []
        = present
           [(''environment'', ListAudiencesRequest.Environment r),
            (''limit'', map_option Itoa (ListAudiencesRequest.Limit r)),
            (''offset'', map_option Itoa (ListAudiencesRequest.Offset r)),
            (''search'', ListAudiencesRequest.Search r)]"
    by (subst set_all_fresh) simp_all
  then show ?thesis
    by (simp add: mail_Audiences_List_def set_all_def with_query_def Let_def Values_Set_present if_set_present
        HTTPClient_Get_def split del: if_split cong: if_cong)
qed

lemma mail_Audiences_ListContacts_unset:
  "mail_Audiences_ListContacts (Some \<lparr>ListAudienceContactsRequest.ID = ident,
         ListAudienceContactsRequest.Environment = None,
         ListAudienceContactsRequest.Limit = None,
         ListAudienceContactsRequest.Offset = None,
         ListAudienceContactsRequest.Search = None,
         ListAudienceContactsRequest.Status = None\<rparr>)
       = Some (HTTPClient_Get (''/mail/audiences/'' @ ident @ ''/contacts''))"
  by (simp add: mail_Audiences_ListContacts_def unset_simps)

lemma mail_Audiences_ListContacts_query:
  "mail_Audiences_ListContacts (Some r)
       = Some (HTTPClient_Get (with_query (''/mail/audiences/'' @ ListAudienceContactsRequest.ID r @ ''/contacts'') (present
           [(''environment'', ListAudienceContactsRequest.Environment r),
            (''limit'', map_option Itoa (ListAudienceContactsRequest.Limit r)),
            (''offset'', map_option Itoa (ListAudienceContactsRequest.Offset r)),
            (''search'', ListAudienceContactsRequest.Search r),
            (''status'', ListAudienceContactsRequest.Status r)])))"
  proof -
  have "set_all
           [(''environment'', ListAudienceContactsRequest.Environment r),
            (''limit'', map_option Itoa (ListAudienceContactsRequest.Limit r)),
            (''offset'', map_option Itoa (ListAudienceContactsRequest.Offset r)),
            (''search'', ListAudienceContactsRequest.Search r),
            (''status'', ListAudienceContactsRequest.Status r)] []
        = present
           [(''environment'', ListAudienceContactsRequest.Environment r),
            (''limit'', map_option Itoa (ListAudienceContactsRequest.Limit r)),
            (''offset'', map_option Itoa (ListAudienceContactsRequest.Offset r)),
            (''search'', ListAudienceContactsRequest.Search r),
            (''status'', ListAudienceContactsRequest.Status r)]"
    by (subst set_all_fresh) simp_all
  then show ?thesis
    by (simp add: mail_Audiences_ListContacts_def set_all_def with_query_def Let_def Values_Set_present if_set_present
        HTTPClient_Get_def split del: if_split cong: if_cong)
qed

lemma mail_Contacts_List_nil:
  "mail_Contacts_List None = Some (HTTPClient_Get ''/mail/contacts'')"
  by (simp add: mail_Contacts_List_def unset_simps)

lemma mail_Contacts_List_unset:
  "mail_Contacts_List (Some \<lparr>ListContactsRequest.Environment = None,
         ListContactsRequest.Limit = None,
         ListContactsRequest.Offset = None,
         ListContactsRequest.Search = None,
         ListContactsRequest.Status = None\<rparr>)
       = Some (HTTPClient_Get (''/mail/contacts''))"
  by (simp add: mail_Contacts_List_def unset_simps)

lemma mail_Contacts_List_query:
  "mail_Contacts_List (Some r)
       = Some (HTTPClient_Get (with_query (''/mail/contacts'') (present
           [(''environment'', ListContactsRequest.Environment r),
            (''limit'', map_option Itoa (ListContactsRequest.Limit r)),
            (''offset'', map_option Itoa (ListContactsRequest.Offset r)),
            (''search'', ListContactsRequest.Search r),
            (''status'', ListContactsRequest.Status r)])))"
  proof -
  have "set_all
           [(''environment'', ListContactsRequest.Environment r),
            (''limit'', map_option Itoa (ListContactsRequest.Limit r)),
            (''offset'', map_option Itoa (ListContactsRequest.Offset r)),
            (''search'', ListContactsRequest.Search r),
            (''status'', ListContactsRequest.Status r)] []
        = present
           [(''environment'', ListContactsRequest.Environment r),
            (''limit'', map_option Itoa (ListContactsRequest.Limit r)),
            (''offset'', map_option Itoa (ListContactsRequest.Offset r)),
            (''search'', ListContactsRequest.Search r),
            (''status'', ListContactsRequest.Status r)]"
    by (subst set_all_fresh) simp_all
  then show ?thesis
    by (simp add: mail_Contacts_List_def set_all_def with_query_def Let_def Values_Set_present if_set_present
        HTTPClient_Get_def split del: if_split cong: if_cong)
qed


text \<open>
  Claim C8. For every list or filter request of the SDK (the \<^verbatim>\<open>List...\<close> methods of the
  four service packages, the usage queries and the folder tree), three facts per method:
  \<^item> a \<^verbatim>\<open>nil\<close> request, where the method accepts one, gives the bare path;
  \<^item> a request whose optional fields are all unset gives the bare path, followed only by
    what the method always sends: the required \<^verbatim>\<open>projectSlug\<close>, or the constant
    \<^verbatim>\<open>type\<close> of the batch and schedule lists; a method that always writes the question
    mark writes it;
  \<^item> for any request \<open>r\<close> the parameters are exactly those of \<^const>\<open>present\<close> on the
    fields of \<open>r\<close>.

  The last fact is about \<^const>\<open>present\<close>: its keys are the keys of the fields that are set,
  so no key is sent for an unset field, neither with an empty value nor with \<^verbatim>\<open>null\<close>.

  The call is always a \<^verbatim>\<open>GET\<close>, which has no body (\<^const>\<open>HTTPClient_Get\<close>).
\<close>

theorem list_requests_omit_unset_filters:
  "extraction_List None = Some (HTTPClient_Get ''/webdata/extractions'')
   \<and> extraction_List (Some \<lparr>ListExtractionsRequest.Environment = None,
         ListExtractionsRequest.ProjectID = None,
         ListExtractionsRequest.Status = None,
         ListExtractionsRequest.URL = None,
         ListExtractionsRequest.Limit = None,
         ListExtractionsRequest.Cursor = None\<rparr>)
       = Some (HTTPClient_Get (''/webdata/extractions''))
   \<and> (\<forall>r.
     extraction_List (Some r)
       = Some (HTTPClient_Get (with_query (''/webdata/extractions'') (present
           [(''environment'', ListExtractionsRequest.Environment r),
            (''projectId'', ListExtractionsRequest.ProjectID r),
            (''status'', ListExtractionsRequest.Status r),
            (''url'', ListExtractionsRequest.URL r),
            (''limit'', map_option Itoa (ListExtractionsRequest.Limit r)),
            (''cursor'', ListExtractionsRequest.Cursor r)]))))
   \<and> screenshots_List None = Some (HTTPClient_Get ''/webdata/screenshots'')
   \<and> screenshots_List (Some \<lparr>ListScreenshotsRequest.Environment = None,
         ListScreenshotsRequest.ProjectID = None,
         ListScreenshotsRequest.Status = None,
         ListScreenshotsRequest.URL = None,
         ListScreenshotsRequest.Limit = None,
         ListScreenshotsRequest.Cursor = None\<rparr>)
       = Some (HTTPClient_Get (''/webdata/screenshots''))
   \<and> (\<forall>r.
     screenshots_List (Some r)
       = Some (HTTPClient_Get (with_query (''/webdata/screenshots'') (present
           [(''environment'', ListScreenshotsRequest.Environment r),
            (''projectId'', ListScreenshotsRequest.ProjectID r),
            (''status'', ListScreenshotsRequest.Status r),
            (''url'', ListScreenshotsRequest.URL r),
            (''limit'', map_option Itoa (ListScreenshotsRequest.Limit r)),
            (''cursor'', ListScreenshotsRequest.Cursor r)]))))
   \<and> extraction_ListBatchJobs None = Some (HTTPClient_Get ''/webdata/batch'')
   \<and> extraction_ListBatchJobs (Some \<lparr>extraction_ListBatchJobsRequest.Environment = None,
         extraction_ListBatchJobsRequest.ProjectID = None,
         extraction_ListBatchJobsRequest.Status = None,
         extraction_ListBatchJobsRequest.Limit = None,
         extraction_ListBatchJobsRequest.Cursor = None\<rparr>)
       = Some (HTTPClient_Get (''/webdata/batch'' @ ''?type=extraction''))
   \<and> (\<forall>r.
     extraction_ListBatchJobs (Some r)
       = Some (HTTPClient_Get (with_query (''/webdata/batch'') (present
           [(''environment'', extraction_ListBatchJobsRequest.Environment r),
            (''projectId'', extraction_ListBatchJobsRequest.ProjectID r),
            (''status'', extraction_ListBatchJobsRequest.Status r),
            (''type'', Some ''extraction''),
            (''limit'', map_option Itoa (extraction_ListBatchJobsRequest.Limit r)),
            (''cursor'', extraction_ListBatchJobsRequest.Cursor r)]))))
   \<and> extraction_ListSchedules None = Some (HTTPClient_Get ''/webdata/schedules'')
   \<and> extraction_ListSchedules (Some \<lparr>extraction_ListSchedulesRequest.Environment = None,
         extraction_ListSchedulesRequest.ProjectID = None,
         extraction_ListSchedulesRequest.IsActive = None,
         extraction_ListSchedulesRequest.Limit = None,
         extraction_ListSchedulesRequest.Cursor = None\<rparr>)
       = Some (HTTPClient_Get (''/webdata/schedules'' @ ''?type=extraction''))
   \<and> (\<forall>r.
     extraction_ListSchedules (Some r)
       = Some (HTTPClient_Get (with_query (''/webdata/schedules'') (present
           [(''environment'', extraction_ListSchedulesRequest.Environment r),
            (''projectId'', extraction_ListSchedulesRequest.ProjectID r),
            (''type'', Some ''extraction''),
            (''isActive'', map_option FormatBool (extraction_ListSchedulesRequest.IsActive r)),
            (''limit'', map_option Itoa (extraction_ListSchedulesRequest.Limit r)),
            (''cursor'', extraction_ListSchedulesRequest.Cursor r)]))))
   \<and> extraction_GetUsage None = Some (HTTPClient_Get ''/webdata/usage'')
   \<and> extraction_GetUsage (Some \<lparr>GetUsageRequest.Environment = None,
         GetUsageRequest.PeriodStart = None,
         GetUsageRequest.PeriodEnd = None\<rparr>)
       = Some (HTTPClient_Get (''/webdata/usage''))
   \<and> (\<forall>r.
     extraction_GetUsage (Some r)
       = Some (HTTPClient_Get (with_query (''/webdata/usage'') (present
           [(''environment'', GetUsageRequest.Environment r),
            (''periodStart'', GetUsageRequest.PeriodStart r),
            (''periodEnd'', GetUsageRequest.PeriodEnd r)]))))
   \<and> extraction_GetUsageDaily None = Some (HTTPClient_Get ''/webdata/usage/daily'')
   \<and> extraction_GetUsageDaily (Some \<lparr>GetUsageRequest.Environment = None,
         GetUsageRequest.PeriodStart = None,
         GetUsageRequest.PeriodEnd = None\<rparr>)
       = Some (HTTPClient_Get (''/webdata/usage/daily''))
   \<and> (\<forall>r.
     extraction_GetUsageDaily (Some r)
       = Some (HTTPClient_Get (with_query (''/webdata/usage/daily'') (present
           [(''environment'', GetUsageRequest.Environment r),
            (''periodStart'', GetUsageRequest.PeriodStart r),
            (''periodEnd'', GetUsageRequest.PeriodEnd r)]))))
   \<and> screenshots_ListBatchJobs None = Some (HTTPClient_Get ''/webdata/batch'')
   \<and> screenshots_ListBatchJobs (Some \<lparr>screenshots_ListBatchJobsRequest.Environment = None,
         screenshots_ListBatchJobsRequest.ProjectID = None,
         screenshots_ListBatchJobsRequest.Status = None,
         screenshots_ListBatchJobsRequest.Limit = None,
         screenshots_ListBatchJobsRequest.Cursor = None\<rparr>)
       = Some (HTTPClient_Get (''/webdata/batch'' @ ''?type=screenshot''))
   \<and> (\<forall>r.
     screenshots_ListBatchJobs (Some r)
       = Some (HTTPClient_Get (with_query (''/webdata/batch'') (present
           [(''environment'', screenshots_ListBatchJobsRequest.Environment r),
            (''projectId'', screenshots_ListBatchJobsRequest.ProjectID r),
            (''status'', screenshots_ListBatchJobsRequest.Status r),
            (''type'', Some ''screenshot''),
            (''limit'', map_option Itoa (screenshots_ListBatchJobsRequest.Limit r)),
            (''cursor'', screenshots_ListBatchJobsRequest.Cursor r)]))))
   \<and> screenshots_ListSchedules None = Some (HTTPClient_Get ''/webdata/schedules'')
   \<and> screenshots_ListSchedules (Some \<lparr>screenshots_ListSchedulesRequest.Environment = None,
         screenshots_ListSchedulesRequest.ProjectID = None,
         screenshots_ListSchedulesRequest.IsActive = None,
         screenshots_ListSchedulesRequest.Limit = None,
         screenshots_ListSchedulesRequest.Cursor = None\<rparr>)
       = Some (HTTPClient_Get (''/webdata/schedules'' @ ''?type=screenshot''))
   \<and> (\<forall>r.
     screenshots_ListSchedules (Some r)
       = Some (HTTPClient_Get (with_query (''/webdata/schedules'') (present
           [(''environment'', screenshots_ListSchedulesRequest.Environment r),
            (''projectId'', screenshots_ListSchedulesRequest.ProjectID r),
            (''type'', Some ''screenshot''),
            (''isActive'', map_option FormatBool (screenshots_ListSchedulesRequest.IsActive r)),
            (''limit'', map_option Itoa (screenshots_ListSchedulesRequest.Limit r)),
            (''cursor'', screenshots_ListSchedulesRequest.Cursor r)]))))
   \<and> cdn_GetUsage rfc3339 None = Some (HTTPClient_Get ''/cdn/usage'')
   \<and> cdn_GetUsage rfc3339 (Some \<lparr>CdnUsageRequest.ProjectSlug = None,
         CdnUsageRequest.Environment = None,
         CdnUsageRequest.PeriodStart = None,
         CdnUsageRequest.PeriodEnd = None\<rparr>)
       = Some (HTTPClient_Get (''/cdn/usage''))
   \<and> (\<forall>r.
     cdn_GetUsage rfc3339 (Some r)
       = Some (HTTPClient_Get (with_query (''/cdn/usage'') (present
           [(''projectSlug'', CdnUsageRequest.ProjectSlug r),
            (''environment'', CdnUsageRequest.Environment r),
            (''periodStart'', map_option rfc3339 (CdnUsageRequest.PeriodStart r)),
            (''periodEnd'', map_option rfc3339 (CdnUsageRequest.PeriodEnd r))]))))
   \<and> cdn_GetUsageHistory None = Some (HTTPClient_Get ''/cdn/usage/history'')
   \<and> cdn_GetUsageHistory (Some \<lparr>CdnUsageHistoryRequest.ProjectSlug = None,
         CdnUsageHistoryRequest.Environment = None,
         CdnUsageHistoryRequest.Days = None,
         CdnUsageHistoryRequest.Granularity = None\<rparr>)
       = Some (HTTPClient_Get (''/cdn/usage/history''))
   \<and> (\<forall>r.
     cdn_GetUsageHistory (Some r)
       = Some (HTTPClient_Get (with_query (''/cdn/usage/history'') (present
           [(''projectSlug'', CdnUsageHistoryRequest.ProjectSlug r),
            (''environment'', CdnUsageHistoryRequest.Environment r),
            (''days'', map_option Itoa (CdnUsageHistoryRequest.Days r)),
            (''granularity'', CdnUsageHistoryRequest.Granularity r)]))))
   \<and> cdn_GetStorageBreakdown None = Some (HTTPClient_Get ''/cdn/usage/storage-breakdown'')
   \<and> cdn_GetStorageBreakdown (Some \<lparr>CdnStorageBreakdownRequest.ProjectSlug = None,
         CdnStorageBreakdownRequest.Environment = None,
         CdnStorageBreakdownRequest.GroupBy = None\<rparr>)
       = Some (HTTPClient_Get (''/cdn/usage/storage-breakdown''))
   \<and> (\<forall>r.
     cdn_GetStorageBreakdown (Some r)
       = Some (HTTPClient_Get (with_query (''/cdn/usage/storage-breakdown'') (present
           [(''projectSlug'', CdnStorageBreakdownRequest.ProjectSlug r),
            (''environment'', CdnStorageBreakdownRequest.Environment r),
            (''groupBy'', CdnStorageBreakdownRequest.GroupBy r)]))))
   \<and> (\<forall>projectSlug.
     cdn_ListJobs (Some \<lparr>ListJobsRequest.ProjectSlug = projectSlug,
         ListJobsRequest.AssetID = None,
         ListJobsRequest.Status = None,
         ListJobsRequest.Limit = None,
         ListJobsRequest.Offset = None\<rparr>)
       = Some (HTTPClient_Get (''/cdn/video/jobs'' @ ''?projectSlug='' @ QueryEscape projectSlug)))
   \<and> (\<forall>r.
     cdn_ListJobs (Some r)
       = Some (HTTPClient_Get (''/cdn/video/jobs'' @ ''?'' @ Values_Encode (present
           [(''projectSlug'', Some (ListJobsRequest.ProjectSlug r)),
            (''assetId'', ListJobsRequest.AssetID r),
            (''status'', ListJobsRequest.Status r),
            (''limit'', map_option Itoa (ListJobsRequest.Limit r)),
            (''offset'', map_option Itoa (ListJobsRequest.Offset r))]))))
   \<and> (\<forall>projectSlug.
     cdn_ListMergeJobs (Some \<lparr>ListMergeJobsRequest.ProjectSlug = projectSlug,
         ListMergeJobsRequest.Status = None,
         ListMergeJobsRequest.Limit = None,
         ListMergeJobsRequest.Offset = None\<rparr>)
       = Some (HTTPClient_Get (''/cdn/video/merge'' @ ''?projectSlug='' @ QueryEscape projectSlug)))
   \<and> (\<forall>r.
     cdn_ListMergeJobs (Some r)
       = Some (HTTPClient_Get (''/cdn/video/merge'' @ ''?'' @ Values_Encode (present
           [(''projectSlug'', Some (ListMergeJobsRequest.ProjectSlug r)),
            (''status'', ListMergeJobsRequest.Status r),
            (''limit'', map_option Itoa (ListMergeJobsRequest.Limit r)),
            (''offset'', map_option Itoa (ListMergeJobsRequest.Offset r))]))))
   \<and> (\<forall>projectSlug.
     cdn_ListPrivateFiles (Some \<lparr>ListPrivateFilesRequest.ProjectSlug = projectSlug,
         ListPrivateFilesRequest.Folder = None,
         ListPrivateFilesRequest.Status = None,
         ListPrivateFilesRequest.Search = None,
         ListPrivateFilesRequest.SortBy = None,
         ListPrivateFilesRequest.SortOrder = None,
         ListPrivateFilesRequest.Limit = None,
         ListPrivateFilesRequest.Offset = None\<rparr>)
       = Some (HTTPClient_Get (''/cdn/private'' @ ''?projectSlug='' @ QueryEscape projectSlug)))
   \<and> (\<forall>r.
     cdn_ListPrivateFiles (Some r)
       = Some (HTTPClient_Get (''/cdn/private'' @ ''?'' @ Values_Encode (present
           [(''projectSlug'', Some (ListPrivateFilesRequest.ProjectSlug r)),
            (''folder'', ListPrivateFilesRequest.Folder r),
            (''status'', ListPrivateFilesRequest.Status r),
            (''search'', ListPrivateFilesRequest.Search r),
            (''sortBy'', ListPrivateFilesRequest.SortBy r),
            (''sortOrder'', ListPrivateFilesRequest.SortOrder r),
            (''limit'', map_option Itoa (ListPrivateFilesRequest.Limit r)),
            (''offset'', map_option Itoa (ListPrivateFilesRequest.Offset r))]))))
   \<and> (\<forall>projectSlug.
     cdn_ListBundles (Some \<lparr>ListBundlesRequest.ProjectSlug = projectSlug,
         ListBundlesRequest.Status = None,
         ListBundlesRequest.Search = None,
         ListBundlesRequest.Limit = None,
         ListBundlesRequest.Offset = None\<rparr>)
       = Some (HTTPClient_Get (''/cdn/bundles'' @ ''?projectSlug='' @ QueryEscape projectSlug)))
   \<and> (\<forall>r.
     cdn_ListBundles (Some r)
       = Some (HTTPClient_Get (''/cdn/bundles'' @ ''?'' @ Values_Encode (present
           [(''projectSlug'', Some (ListBundlesRequest.ProjectSlug r)),
            (''status'', ListBundlesRequest.Status r),
            (''search'', ListBundlesRequest.Search r),
            (''limit'', map_option Itoa (ListBundlesRequest.Limit r)),
            (''offset'', map_option Itoa (ListBundlesRequest.Offset r))]))))
   \<and> (\<forall>projectSlug.
     cdn_List (Some \<lparr>ListAssetsRequest.ProjectSlug = projectSlug,
         ListAssetsRequest.Folder = None,
         ListAssetsRequest.Type = None,
         ListAssetsRequest.Status = None,
         ListAssetsRequest.Search = None,
         ListAssetsRequest.Tags = [],
         ListAssetsRequest.SortBy = None,
         ListAssetsRequest.SortOrder = None,
         ListAssetsRequest.Limit = None,
         ListAssetsRequest.Offset = None\<rparr>)
       = Some (HTTPClient_Get (''/cdn/assets'' @ ''?projectSlug='' @ QueryEscape projectSlug)))
   \<and> (\<forall>r.
     cdn_List (Some r)
       = Some (HTTPClient_Get (''/cdn/assets'' @ ''?'' @ Values_Encode (present
           [(''projectSlug'', Some (ListAssetsRequest.ProjectSlug r)),
            (''folder'', ListAssetsRequest.Folder r),
            (''type'', ListAssetsRequest.Type r),
            (''status'', ListAssetsRequest.Status r),
            (''search'', ListAssetsRequest.Search r),
            (''tags'', if 0 < length (ListAssetsRequest.Tags r) then Some (Join (ListAssetsRequest.Tags r) '','') else None),
            (''sortBy'', ListAssetsRequest.SortBy r),
            (''sortOrder'', ListAssetsRequest.SortOrder r),
            (''limit'', map_option Itoa (ListAssetsRequest.Limit r)),
            (''offset'', map_option Itoa (ListAssetsRequest.Offset r))]))))
   \<and> (\<forall>projectSlug.
     cdn_GetFolderTree (Some \<lparr>GetFolderTreeRequest.ProjectSlug = projectSlug,
         GetFolderTreeRequest.MaxDepth = None\<rparr>)
       = Some (HTTPClient_Get (''/cdn/folders/tree'' @ ''?projectSlug='' @ QueryEscape projectSlug)))
   \<and> (\<forall>r.
     cdn_GetFolderTree (Some r)
       = Some (HTTPClient_Get (''/cdn/folders/tree'' @ ''?'' @ Values_Encode (present
           [(''projectSlug'', Some (GetFolderTreeRequest.ProjectSlug r)),
            (''maxDepth'', map_option Itoa (GetFolderTreeRequest.MaxDepth r))]))))
   \<and> cdn_ListFolders None = Some (HTTPClient_Get ''/cdn/folders'')
   \<and> cdn_ListFolders (Some \<lparr>ListFoldersRequest.ParentID = None,
         ListFoldersRequest.Limit = None,
         ListFoldersRequest.Offset = None,
         ListFoldersRequest.Search = None\<rparr>)
       = Some (HTTPClient_Get (''/cdn/folders''))
   \<and> (\<forall>r.
     cdn_ListFolders (Some r)
       = Some (HTTPClient_Get (with_query (''/cdn/folders'') (present
           [(''parentId'', ListFoldersRequest.ParentID r),
            (''limit'', map_option Itoa (ListFoldersRequest.Limit r)),
            (''offset'', map_option Itoa (ListFoldersRequest.Offset r)),
            (''search'', ListFoldersRequest.Search r)]))))
   \<and> (\<forall>projectSlug.
     cdn_ListImports (Some \<lparr>ListImportsRequest.ProjectSlug = projectSlug,
         ListImportsRequest.Environment = None,
         ListImportsRequest.Status = None,
         ListImportsRequest.SortBy = None,
         ListImportsRequest.SortOrder = None,
         ListImportsRequest.Limit = None,
         ListImportsRequest.Offset = None\<rparr>)
       = Some (HTTPClient_Get (''/cdn/imports'' @ ''?projectSlug='' @ QueryEscape projectSlug)))
   \<and> (\<forall>r.
     cdn_ListImports (Some r)
       = Some (HTTPClient_Get (''/cdn/imports'' @ ''?'' @ Values_Encode (present
           [(''projectSlug'', Some (ListImportsRequest.ProjectSlug r)),
            (''environment'', ListImportsRequest.Environment r),
            (''status'', ListImportsRequest.Status r),
            (''sortBy'', ListImportsRequest.SortBy r),
            (''sortOrder'', ListImportsRequest.SortOrder r),
            (''limit'', map_option Itoa (ListImportsRequest.Limit r)),
            (''offset'', map_option Itoa (ListImportsRequest.Offset r))]))))
   \<and> (\<forall>importID.
     cdn_ListImportFiles (Some \<lparr>ListImportFilesRequest.ImportID = importID,
         ListImportFilesRequest.Status = None,
         ListImportFilesRequest.SortBy = None,
         ListImportFilesRequest.SortOrder = None,
         ListImportFilesRequest.Limit = None,
         ListImportFilesRequest.Offset = None\<rparr>)
       = Some (HTTPClient_Get (''/cdn/imports/'' @ importID @ ''/files'')))
   \<and> (\<forall>r.
     cdn_ListImportFiles (Some r)
       = Some (HTTPClient_Get (with_query (''/cdn/imports/'' @ ListImportFilesRequest.ImportID r @ ''/files'') (present
           [(''status'', ListImportFilesRequest.Status r),
            (''sortBy'', ListImportFilesRequest.SortBy r),
            (''sortOrder'', ListImportFilesRequest.SortOrder r),
            (''limit'', map_option Itoa (ListImportFilesRequest.Limit r)),
            (''offset'', map_option Itoa (ListImportFilesRequest.Offset r))]))))
   \<and> mail_List rfc3339 None = Some (HTTPClient_Get ''/mail'')
   \<and> mail_List rfc3339 (Some \<lparr>ListEmailsRequest.ProjectSlug = None,
         ListEmailsRequest.Environment = None,
         ListEmailsRequest.Limit = None,
         ListEmailsRequest.Offset = None,
         ListEmailsRequest.Status = None,
         ListEmailsRequest.From = None,
         ListEmailsRequest.To = None,
         ListEmailsRequest.Subject = None,
         ListEmailsRequest.Tag = None,
         ListEmailsRequest.StartDate = None,
         ListEmailsRequest.EndDate = None,
         ListEmailsRequest.SortBy = None,
         ListEmailsRequest.SortOrder = None\<rparr>)
       = Some (HTTPClient_Get (''/mail''))
   \<and> (\<forall>r.
     mail_List rfc3339 (Some r)
       = Some (HTTPClient_Get (with_query (''/mail'') (present
           [(''projectSlug'', ListEmailsRequest.ProjectSlug r),
            (''environment'', ListEmailsRequest.Environment r),
            (''limit'', map_option Itoa (ListEmailsRequest.Limit r)),
            (''offset'', map_option Itoa (ListEmailsRequest.Offset r)),
            (''status'', ListEmailsRequest.Status r),
            (''from'', ListEmailsRequest.From r),
            (''to'', ListEmailsRequest.To r),
            (''subject'', ListEmailsRequest.Subject r),
            (''tag'', ListEmailsRequest.Tag r),
            (''startDate'', map_option rfc3339 (ListEmailsRequest.StartDate r)),
            (''endDate'', map_option rfc3339 (ListEmailsRequest.EndDate r)),
            (''sortBy'', ListEmailsRequest.SortBy r),
            (''sortOrder'', ListEmailsRequest.SortOrder r)]))))
   \<and> mail_ListSenders None = Some (HTTPClient_Get ''/mail/senders'')
   \<and> mail_ListSenders (Some \<lparr>ListSendersRequest.ProjectSlug = None,
         ListSendersRequest.Environment = None,
         ListSendersRequest.Search = None\<rparr>)
       = Some (HTTPClient_Get (''/mail/senders''))
   \<and> (\<forall>r.
     mail_ListSenders (Some r)
       = Some (HTTPClient_Get (with_query (''/mail/senders'') (present
           [(''projectSlug'', ListSendersRequest.ProjectSlug r),
            (''environment'', ListSendersRequest.Environment r),
            (''search'', ListSendersRequest.Search r)]))))
   \<and> mail_Campaigns_List None = Some (HTTPClient_Get ''/mail/campaigns'')
   \<and> mail_Campaigns_List (Some \<lparr>ListCampaignsRequest.Environment = None,
         ListCampaignsRequest.Limit = None,
         ListCampaignsRequest.Offset = None,
         ListCampaignsRequest.Search = None,
         ListCampaignsRequest.Status = None\<rparr>)
       = Some (HTTPClient_Get (''/mail/campaigns''))
   \<and> (\<forall>r.
     mail_Campaigns_List (Some r)
       = Some (HTTPClient_Get (with_query (''/mail/campaigns'') (present
           [(''environment'', ListCampaignsRequest.Environment r),
            (''limit'', map_option Itoa (ListCampaignsRequest.Limit r)),
            (''offset'', map_option Itoa (ListCampaignsRequest.Offset r)),
            (''search'', ListCampaignsRequest.Search r),
            (''status'', ListCampaignsRequest.Status r)]))))
   \<and> (\<forall>projectSlug.
     mail_Domains_List (Some \<lparr>ListDomainsRequest.ProjectSlug = projectSlug,
         ListDomainsRequest.Environment = None\<rparr>)
       = Some (HTTPClient_Get (''/mail/domains'' @ ''?projectSlug='' @ QueryEscape projectSlug)))
   \<and> (\<forall>r.
     mail_Domains_List (Some r)
       = Some (HTTPClient_Get (''/mail/domains'' @ ''?'' @ Values_Encode (present
           [(''projectSlug'', Some (ListDomainsRequest.ProjectSlug r)),
            (''environment'', ListDomainsRequest.Environment r)]))))
   \<and> mail_Events_List None = Some (HTTPClient_Get ''/mail/events'')
   \<and> mail_Events_List (Some \<lparr>ListEventsRequest.ProjectSlug = None,
         ListEventsRequest.Environment = None,
         ListEventsRequest.Limit = None,
         ListEventsRequest.Offset = None,
         ListEventsRequest.Search = None\<rparr>)
       = Some (HTTPClient_Get (''/mail/events''))
   \<and> (\<forall>r.
     mail_Events_List (Some r)
       = Some (HTTPClient_Get (with_query (''/mail/events'') (present
           [(''projectSlug'', ListEventsRequest.ProjectSlug r),
            (''environment'', ListEventsRequest.Environment r),
            (''limit'', map_option Itoa (ListEventsRequest.Limit r)),
            (''offset'', map_option Itoa (ListEventsRequest.Offset r)),
            (''search'', ListEventsRequest.Search r)]))))
   \<and> mail_Events_ListOccurrences rfc3339 None = Some (HTTPClient_Get ''/mail/events/occurrences'')
   \<and> mail_Events_ListOccurrences rfc3339 (Some \<lparr>ListEventOccurrencesRequest.EventID = None,
         ListEventOccurrencesRequest.ContactID = None,
         ListEventOccurrencesRequest.StartDate = None,
         ListEventOccurrencesRequest.EndDate = None,
         ListEventOccurrencesRequest.Limit = None,
         ListEventOccurrencesRequest.Offset = None\<rparr>)
       = Some (HTTPClient_Get (''/mail/events/occurrences''))
   \<and> (\<forall>r.
     mail_Events_ListOccurrences rfc3339 (Some r)
       = Some (HTTPClient_Get (with_query (''/mail/events/occurrences'') (present
           [(''eventId'', ListEventOccurrencesRequest.EventID r),
            (''contactId'', ListEventOccurrencesRequest.ContactID r),
            (''limit'', map_option Itoa (ListEventOccurrencesRequest.Limit r)),
            (''offset'', map_option Itoa (ListEventOccurrencesRequest.Offset r)),
            (''startDate'', map_option rfc3339 (ListEventOccurrencesRequest.StartDate r)),
            (''endDate'', map_option rfc3339 (ListEventOccurrencesRequest.EndDate r))]))))
   \<and> mail_Sequences_List None = Some (HTTPClient_Get ''/mail/sequences'')
   \<and> mail_Sequences_List (Some \<lparr>ListSequencesRequest.Environment = None,
         ListSequencesRequest.Limit = None,
         ListSequencesRequest.Offset = None,
         ListSequencesRequest.Search = None,
         ListSequencesRequest.Status = None,
         ListSequencesRequest.TriggerType = None\<rparr>)
       = Some (HTTPClient_Get (''/mail/sequences''))
   \<and> (\<forall>r.
     mail_Sequences_List (Some r)
       = Some (HTTPClient_Get (with_query (''/mail/sequences'') (present
           [(''environment'', ListSequencesRequest.Environment r),
            (''limit'', map_option Itoa (ListSequencesRequest.Limit r)),
            (''offset'', map_option Itoa (ListSequencesRequest.Offset r)),
            (''search'', ListSequencesRequest.Search r),
            (''status'', ListSequencesRequest.Status r),
            (''triggerType'', ListSequencesRequest.TriggerType r)]))))
   \<and> (\<forall>ident.
     mail_Sequences_ListEntries (Some \<lparr>ListSequenceEntriesRequest.ID = ident,
         ListSequenceEntriesRequest.Status = None,
         ListSequenceEntriesRequest.Limit = None,
         ListSequenceEntriesRequest.Offset = None\<rparr>)
       = Some (HTTPClient_Get (''/mail/sequences/'' @ ident @ ''/entries'')))
   \<and> (\<forall>r.
     mail_Sequences_ListEntries (Some r)
       = Some (HTTPClient_Get (with_query (''/mail/sequences/'' @ ListSequenceEntriesRequest.ID r @ ''/entries'') (present
           [(''limit'', map_option Itoa (ListSequenceEntriesRequest.Limit r)),
            (''offset'', map_option Itoa (ListSequenceEntriesRequest.Offset r)),
            (''status'', ListSequenceEntriesRequest.Status r)]))))
   \<and> mail_Templates_List None = Some (HTTPClient_Get ''/mail/templates'')
   \<and> mail_Templates_List (Some \<lparr>ListTemplatesRequest.Environment = None,
         ListTemplatesRequest.Limit = None,
         ListTemplatesRequest.Offset = None,
         ListTemplatesRequest.IsActive = None,
         ListTemplatesRequest.Search = None\<rparr>)
       = Some (HTTPClient_Get (''/mail/templates''))
   \<and> (\<forall>r.
     mail_Templates_List (Some r)
       = Some (HTTPClient_Get (with_query (''/mail/templates'') (present
           [(''environment'', ListTemplatesRequest.Environment r),
            (''limit'', map_option Itoa (ListTemplatesRequest.Limit r)),
            (''offset'', map_option Itoa (ListTemplatesRequest.Offset r)),
            (''isActive'', map_option FormatBool (ListTemplatesRequest.IsActive r)),
            (''search'', ListTemplatesRequest.Search r)]))))
   \<and> mail_Audiences_List None = Some (HTTPClient_Get ''/mail/audiences'')
   \<and> mail_Audiences_List (Some \<lparr>ListAudiencesRequest.Environment = None,
         ListAudiencesRequest.Limit = None,
         ListAudiencesRequest.Offset = None,
         ListAudiencesRequest.Search = None\<rparr>)
       = Some (HTTPClient_Get (''/mail/audiences''))
   \<and> (\<forall>r.
     mail_Audiences_List (Some r)
       = Some (HTTPClient_Get (with_query (''/mail/audiences'') (present
           [(''environment'', ListAudiencesRequest.Environment r),
            (''limit'', map_option Itoa (ListAudiencesRequest.Limit r)),
            (''offset'', map_option Itoa (ListAudiencesRequest.Offset r)),
            (''search'', ListAudiencesRequest.Search r)]))))
   \<and> (\<forall>ident.
     mail_Audiences_ListContacts (Some \<lparr>ListAudienceContactsRequest.ID = ident,
         ListAudienceContactsRequest.Environment = None,
         ListAudienceContactsRequest.Limit = None,
         ListAudienceContactsRequest.Offset = None,
         ListAudienceContactsRequest.Search = None,
         ListAudienceContactsRequest.Status = None\<rparr>)
       = Some (HTTPClient_Get (''/mail/audiences/'' @ ident @ ''/contacts'')))
   \<and> (\<forall>r.
     mail_Audiences_ListContacts (Some r)
       = Some (HTTPClient_Get (with_query (''/mail/audiences/'' @ ListAudienceContactsRequest.ID r @ ''/contacts'') (present
           [(''environment'', ListAudienceContactsRequest.Environment r),
            (''limit'', map_option Itoa (ListAudienceContactsRequest.Limit r)),
            (''offset'', map_option Itoa (ListAudienceContactsRequest.Offset r)),
            (''search'', ListAudienceContactsRequest.Search r),
            (''status'', ListAudienceContactsRequest.Status r)]))))
   \<and> mail_Contacts_List None = Some (HTTPClient_Get ''/mail/contacts'')
   \<and> mail_Contacts_List (Some \<lparr>ListContactsRequest.Environment = None,
         ListContactsRequest.Limit = None,
         ListContactsRequest.Offset = None,
         ListContactsRequest.Search = None,
         ListContactsRequest.Status = None\<rparr>)
       = Some (HTTPClient_Get (''/mail/contacts''))
   \<and> (\<forall>r.
     mail_Contacts_List (Some r)
       = Some (HTTPClient_Get (with_query (''/mail/contacts'') (present
           [(''environment'', ListContactsRequest.Environment r),
            (''limit'', map_option Itoa (ListContactsRequest.Limit r)),
            (''offset'', map_option Itoa (ListContactsRequest.Offset r)),
            (''search'', ListContactsRequest.Search r),
            (''status'', ListContactsRequest.Status r)]))))
   \<and> (\<forall>es. map fst (present es) = map fst (filter (\<lambda>e. snd e \<noteq> None) es))"
  by (intro conjI allI, rule extraction_List_nil, rule extraction_List_unset,
      rule extraction_List_query, rule screenshots_List_nil, rule screenshots_List_unset,
      rule screenshots_List_query, rule extraction_ListBatchJobs_nil,
      rule extraction_ListBatchJobs_unset, rule extraction_ListBatchJobs_query,
      rule extraction_ListSchedules_nil, rule extraction_ListSchedules_unset,
      rule extraction_ListSchedules_query, rule extraction_GetUsage_nil,
      rule extraction_GetUsage_unset, rule extraction_GetUsage_query,
      rule extraction_GetUsageDaily_nil, rule extraction_GetUsageDaily_unset,
      rule extraction_GetUsageDaily_query, rule screenshots_ListBatchJobs_nil,
      rule screenshots_ListBatchJobs_unset, rule screenshots_ListBatchJobs_query,
      rule screenshots_ListSchedules_nil, rule screenshots_ListSchedules_unset,
      rule screenshots_ListSchedules_query, rule cdn_GetUsage_nil, rule cdn_GetUsage_unset,
      rule cdn_GetUsage_query, rule cdn_GetUsageHistory_nil, rule cdn_GetUsageHistory_unset,
      rule cdn_GetUsageHistory_query, rule cdn_GetStorageBreakdown_nil,
      rule cdn_GetStorageBreakdown_unset, rule cdn_GetStorageBreakdown_query,
      rule cdn_ListJobs_unset, rule cdn_ListJobs_query, rule cdn_ListMergeJobs_unset,
      rule cdn_ListMergeJobs_query, rule cdn_ListPrivateFiles_unset,
      rule cdn_ListPrivateFiles_query, rule cdn_ListBundles_unset, rule cdn_ListBundles_query,
      rule cdn_List_unset, rule cdn_List_query, rule cdn_GetFolderTree_unset,
      rule cdn_GetFolderTree_query, rule cdn_ListFolders_nil, rule cdn_ListFolders_unset,
      rule cdn_ListFolders_query, rule cdn_ListImports_unset, rule cdn_ListImports_query,
      rule cdn_ListImportFiles_unset, rule cdn_ListImportFiles_query, rule mail_List_nil,
      rule mail_List_unset, rule mail_List_query, rule mail_ListSenders_nil,
      rule mail_ListSenders_unset, rule mail_ListSenders_query, rule mail_Campaigns_List_nil,
      rule mail_Campaigns_List_unset, rule mail_Campaigns_List_query,
      rule mail_Domains_List_unset, rule mail_Domains_List_query, rule mail_Events_List_nil,
      rule mail_Events_List_unset, rule mail_Events_List_query,
      rule mail_Events_ListOccurrences_nil, rule mail_Events_ListOccurrences_unset,
      rule mail_Events_ListOccurrences_query, rule mail_Sequences_List_nil,
      rule mail_Sequences_List_unset, rule mail_Sequences_List_query,
      rule mail_Sequences_ListEntries_unset, rule mail_Sequences_ListEntries_query,
      rule mail_Templates_List_nil, rule mail_Templates_List_unset,
      rule mail_Templates_List_query, rule mail_Audiences_List_nil,
      rule mail_Audiences_List_unset, rule mail_Audiences_List_query,
      rule mail_Audiences_ListContacts_unset, rule mail_Audiences_ListContacts_query,
      rule mail_Contacts_List_nil, rule mail_Contacts_List_unset, rule mail_Contacts_List_query,
      rule map_fst_present)

text \<open>The extraction list filtered by status and limited to ten results.\<close>

theorem list_requests_omit_unset_filters_witness:
  "extraction_List (Some \<lparr>ListExtractionsRequest.Environment = None,
       ListExtractionsRequest.ProjectID = None,
       ListExtractionsRequest.Status = Some ''completed'',
       ListExtractionsRequest.URL = None,
       ListExtractionsRequest.Limit = Some 10,
       ListExtractionsRequest.Cursor = None\<rparr>)
     = Some (HTTPClient_Get ''/webdata/extractions?limit=10&status=completed'')"
proof -
  note T = list_requests_omit_unset_filters
    [THEN conjunct2, THEN conjunct2, THEN conjunct1, THEN spec]
  show ?thesis
    by (subst T)
       (simp add: with_query_def present_def Values_Encode_def key_value_def QueryEscape_def
          escape_byte_def unreserved_def Itoa_def HTTPClient_Get_def)
qed

section \<open>The error of a rejected request\<close>






end
